theory Spec2Isabelle
  imports Complex_Main "HOL-Library.AList" "HOL-Library.Word"
begin

section \<open>Blaze2D: a shallow embedding of the batching and resource engine\<close>

text \<open>
  The definitions follow \<^verbatim>\<open>src/Blaze2d.js\<close>. JavaScript numbers and GLSL floats are
  modelled as reals (rounding, NaN and the infinities are not represented: where the shader
  divides by zero its result is no value of the model, and where the engine divides by a
  value that may be zero the definition says what the source does there).
  Mutation of \<^verbatim>\<open>this\<close> is explicit state passing, a thrown exception is a value.
\<close>

subsection \<open>The damage-number vertex evaluator (the GLSL of initDamageNumberShader)\<close>

type_synonym vec2 = "real \<times> real"
type_synonym vec3 = "real \<times> real \<times> real"
type_synonym vec4 = "real \<times> real \<times> real \<times> real"

record dn_attribs =
  a_posOffset :: vec2
  a_texCoord :: vec2
  a_startPos :: vec2
  a_charOffset :: vec2
  a_velocity :: vec2
  a_timeParams :: vec3
  a_color :: vec3
  a_alpha :: real

record dn_uniforms =
  u_resolution :: vec2
  u_dpr :: real
  u_currentTime :: real
  u_cameraPos :: vec2
  u_gravity :: real

record dn_varyings =
  v_texCoord :: vec2
  v_alpha :: real
  v_color :: vec3
  v_flash :: real

text \<open>What one run of \<^verbatim>\<open>main()\<close> writes: the early return leaves the varyings unwritten.\<close>

record dn_out =
  gl_Position :: vec4
  varyings :: "dn_varyings option"

definition mix :: "real \<Rightarrow> real \<Rightarrow> real \<Rightarrow> real" where
  "mix x y a = x * (1 - a) + y * a"

text \<open>The position written by the early return of \<^verbatim>\<open>main()\<close>.\<close>

definition dn_sentinel :: dn_out where
  "dn_sentinel = \<lparr>gl_Position = (-2, -2, 0, 1), varyings = None\<rparr>"

text \<open>
  The local \<^verbatim>\<open>progress = t / a_timeParams.y\<close>. For a duration of zero the shader divides
  by zero: its value is then NaN or an infinity, which the model does not represent, so the
  quotient is \<open>None\<close> there, and so is everything computed from it.
\<close>

definition dn_progress :: "real \<Rightarrow> real \<Rightarrow> real option" where
  "dn_progress d t = (if d = 0 then None else Some (t / d))"

text \<open>
  The local \<^verbatim>\<open>scale\<close> after the three conditional updates, for base scale
  \<^verbatim>\<open>a_timeParams.z\<close>, duration \<^verbatim>\<open>a_timeParams.y\<close> and the clamped elapsed time.
\<close>

definition dn_scale :: "real \<Rightarrow> real \<Rightarrow> real \<Rightarrow> real option" where
  "dn_scale base d t =
     (case dn_progress d t of
        None \<Rightarrow> None
      | Some progress \<Rightarrow>
          let scale0 = base;
              scale1 = (if progress < 0.2 then scale0 * mix 0.3 1 (progress / 0.2)
                        else if progress > 0.7 then scale0 * (1 - (progress - 0.7) / 0.3)
                        else scale0);
              scale2 = (if t < 0.1 then scale1 * (1 + sin (t * 10 * 1.57) * 0.1) else scale1)
          in Some scale2)"

text \<open>The local \<^verbatim>\<open>alpha\<close> before it is multiplied by \<^verbatim>\<open>a_alpha\<close>.\<close>

definition dn_fade :: "real \<Rightarrow> real \<Rightarrow> real option" where
  "dn_fade d t =
     (case dn_progress d t of
        None \<Rightarrow> None
      | Some progress \<Rightarrow> Some (if progress > 0.7 then 1 - (progress - 0.7) / 0.3 else 1))"

text \<open>The value written to \<^verbatim>\<open>v_flash\<close>.\<close>

definition dn_flash :: "real \<Rightarrow> real \<Rightarrow> real option" where
  "dn_flash d t =
     (case dn_progress d t of
        None \<Rightarrow> None
      | Some progress \<Rightarrow> Some (if progress < 0.2 then 0.6 * (1 - progress / 0.2) else 0))"

text \<open>
  \<^verbatim>\<open>gl_Position\<close> of the evaluated branch, for the clamped elapsed time. The division by
  \<^verbatim>\<open>u_resolution\<close> is a division by zero for a canvas without width or height.
\<close>

definition dn_position :: "dn_uniforms \<Rightarrow> dn_attribs \<Rightarrow> real \<Rightarrow> vec4 option" where
  "dn_position u a t =
     (let (t0, d, base) = a_timeParams a
      in case dn_scale base d t of
           None \<Rightarrow> None
         | Some scale \<Rightarrow>
             let resistance = exp (- 3 * t);
                 x = fst (a_startPos a) + (fst (a_charOffset a) * scale) + fst (a_velocity a) * t * resistance;
                 y = snd (a_startPos a) + (snd (a_charOffset a) * scale) + snd (a_velocity a) * t
                       + 0.5 * u_gravity u * t * t;
                 screenX = (x - fst (u_cameraPos u)) * u_dpr u + fst (u_resolution u) / 2
                             + fst (a_posOffset a) * scale * u_dpr u;
                 screenY = (y - snd (u_cameraPos u)) * u_dpr u + snd (u_resolution u) / 2
                             + snd (a_posOffset a) * scale * u_dpr u
             in if fst (u_resolution u) = 0 \<or> snd (u_resolution u) = 0 then None
                else
                  let clipX = (screenX / fst (u_resolution u)) * 2 - 1;
                      clipY = (screenY / snd (u_resolution u)) * 2 - 1
                  in Some (clipX * 1, clipY * (-1), 0, 1))"

text \<open>
  One run of \<^verbatim>\<open>main()\<close>. The early return comes before every division; after it the
  result is \<open>None\<close> when the shader divides by zero.
\<close>

definition dn_main :: "dn_uniforms \<Rightarrow> dn_attribs \<Rightarrow> dn_out option" where
  "dn_main u a =
     (let (t0, d, base) = a_timeParams a;
          t = u_currentTime u - t0
      in if t < - 0.05 \<or> t > d + 0.1 then Some dn_sentinel
         else
           let t = max 0 t
           in case (dn_position u a t, dn_fade d t, dn_flash d t) of
                (Some p, Some alpha, Some fl) \<Rightarrow>
                  Some \<lparr>gl_Position = p,
                        varyings = Some \<lparr>v_texCoord = a_texCoord a,
                                          v_alpha = alpha * a_alpha a,
                                          v_color = a_color a,
                                          v_flash = fl\<rparr>\<rparr>
              | _ \<Rightarrow> None)"

text \<open>A clip-space position with \<open>w > 0\<close> lies in the visible square.\<close>

definition dn_on_screen :: "vec4 \<Rightarrow> bool" where
  "dn_on_screen p = (case p of (x, y, z, w) \<Rightarrow> - w \<le> x \<and> x \<le> w \<and> - w \<le> y \<and> y \<le> w)"

text \<open>
  The vertex attributes of the scenario
  \<^verbatim>\<open>drawGPUDamageNumber("12", 100, 100, 50, -200, 0, 1, 24, color)\<close>:
  \<^verbatim>\<open>a_startPos = (x, y)\<close>, \<^verbatim>\<open>a_velocity = (vx, vy)\<close>,
  \<^verbatim>\<open>a_timeParams = (startTime, duration, size / 64)\<close>, \<^verbatim>\<open>a_alpha = 1\<close> (the default);
  the glyph rectangle, the texture coordinates, the cluster offset and the colour come from the
  bitmap font and the colour argument.
\<close>

definition scenario_attribs :: "vec2 \<Rightarrow> vec2 \<Rightarrow> real \<Rightarrow> vec3 \<Rightarrow> dn_attribs" where
  "scenario_attribs pos tex curCharX rgb =
     \<lparr>a_posOffset = pos, a_texCoord = tex, a_startPos = (100, 100), a_charOffset = (curCharX, 0),
      a_velocity = (50, - 200), a_timeParams = (0, 1, 24 / 64), a_color = rgb, a_alpha = 1\<rparr>"

text \<open>The uniforms flushDamageNumbers sets: gravity is the constant 800.\<close>

definition scenario_uniforms :: "real \<Rightarrow> dn_uniforms" where
  "scenario_uniforms now =
     \<lparr>u_resolution = (800, 600), u_dpr = 1, u_currentTime = now, u_cameraPos = (0, 0),
      u_gravity = 800\<rparr>"

text \<open>
  The scale envelope in the words of the specification: a ramp from 0.3 to 1 over the first 20%
  of the duration, a plateau, a ramp down to 0 over the final 30%; and the sinusoidal pop of the
  first 0.1 seconds. They are compared with \<open>dn_scale\<close> below.
\<close>

definition spec_envelope :: "real \<Rightarrow> real" where
  "spec_envelope p =
     (if p < 0.2 then 0.3 + (1 - 0.3) * (p / 0.2)
      else if p \<le> 0.7 then 1
      else 1 - (p - 0.7) / 0.3)"

definition spec_pop :: "real \<Rightarrow> real" where
  "spec_pop t = (if t < 0.1 then 1 + 0.1 * sin (15.7 * t) else 1)"

subsection \<open>Values of the engine\<close>

text \<open>
  Exceptions that cross a method boundary: the TypeError of calling a method an object does
  not have, the RangeError of \<^verbatim>\<open>TypedArray.prototype.set\<close> with a source longer than the
  target, and whatever \<^verbatim>\<open>gl.texImage2D\<close> throws for a source it refuses.
\<close>

datatype error = TypeError | RangeError | UploadError

text \<open>
  A value compared with \<^verbatim>\<open>this.currentTexture\<close>: a WebGLTexture (by handle) or some other
  object (by identity), for which \<^verbatim>\<open>instanceof WebGLTexture\<close> is false.
\<close>

datatype texref = GLTex nat | NotTex nat

definition instanceofWebGLTexture :: "texref \<Rightarrow> bool" where
  "instanceofWebGLTexture t = (case t of GLTex h \<Rightarrow> True | NotTex i \<Rightarrow> False)"

text \<open>The textures the constructor creates, in its order; later handles are fresh.\<close>

definition whiteTexture :: texref where
  "whiteTexture = GLTex 0"

definition fontTexture :: texref where
  "fontTexture = GLTex 1"

definition atlasTexture :: texref where
  "atlasTexture = GLTex 2"

text \<open>
  Objects a style slot can refer to: a Float32Array, a plain Array (no \<^verbatim>\<open>set\<close> method), a
  gradient handle (\<^verbatim>\<open>isGradient\<close> is true, no \<^verbatim>\<open>length\<close>). They live in a store and are
  referred to by address, since two states can hold the same object.
\<close>

datatype obj = F32 "real list" | Arr "real list" | Grad

text \<open>A style value: a string, compared by value, or an object, compared by identity.\<close>

datatype style = StyleStr string | StyleObj nat

type_synonym rgba = "real \<times> real \<times> real \<times> real"
type_synonym mat = "real \<times> real \<times> real \<times> real \<times> real \<times> real"

datatype blend_factor = ONE | ONE_MINUS_SRC_ALPHA | DST_ALPHA

record rstate =
  matrix :: mat
  alpha :: real
  flash :: real
  fillStyle :: style
  fillStyleRGBA :: nat
  strokeStyle :: style
  strokeStyleRGBA :: nat
  lineWidth :: real
  font :: string
  textAlign :: string
  textBaseline :: string
  globalCompositeOperation :: string
  shadowBlur :: real
  shadowColor :: string
  lineCap :: "string option"
  lineJoin :: "string option"

record uvrect =
  uv_u0 :: real
  uv_v0 :: real
  uv_u1 :: real
  uv_v1 :: real

record texinfo =
  ti_texture :: texref
  ti_uv :: "uvrect option"
  ti_width :: int
  ti_height :: int

text \<open>
  An image source (an image element or a canvas) with the properties getTexture reads and
  writes on it. \<open>tainted\<close> says that WebGL refuses the source: \<^verbatim>\<open>texImage2D\<close> and
  \<^verbatim>\<open>texSubImage2D\<close> throw for it.
\<close>

record image =
  img_width :: int
  img_height :: int
  glTextureInfo :: "texinfo option"
  needsUpdate :: bool
  isGLTexture :: bool
  disableAutoAtlas :: bool
  tainted :: bool

text \<open>
  The texture manager's part of \<^verbatim>\<open>this\<close>. The three Maps are association lists in
  insertion order, keyed by image identity. \<open>clock\<close> is what \<^verbatim>\<open>Date.now()\<close> returns.
  The last four fields record what reaches WebGL: the next handle \<^verbatim>\<open>createTexture\<close> returns,
  the textures passed to \<^verbatim>\<open>deleteTexture\<close>, the sub-image writes into the atlas texture
  (image, x, y, width, height) and the full uploads (texture, image).
\<close>

record texman =
  images :: "nat \<Rightarrow> image"
  atlasCache :: "(nat \<times> uvrect) list"
  atlasX :: int
  atlasY :: int
  atlasRowHeight :: int
  atlasSize :: int
  atlasPadding :: int
  textureCache :: "(nat \<times> texref) list"
  textureUsage :: "(nat \<times> nat) list"
  clock :: nat
  nextTexture :: nat
  deletedTextures :: "texref list"
  atlasUploads :: "(nat \<times> int \<times> int \<times> int \<times> int) list"
  textureUploads :: "(texref \<times> nat) list"

text \<open>One \<^verbatim>\<open>gl.drawElements\<close> call of flush, with the GL state it is issued under.\<close>

record draw =
  d_texture :: texref
  d_vertices :: "real list"
  d_count :: nat
  d_blend :: "blend_factor \<times> blend_factor"

text \<open>
  The engine. \<open>vertexData\<close> is the Float32Array arena (a store outside its length is ignored,
  as for every typed array). \<open>submissions\<close>, \<open>blendFunc\<close> and \<open>clears\<close> record what reaches
  WebGL. \<open>heap\<close> holds the style objects, \<open>heapNext\<close> is the next free address.
  \<open>cssParse\<close> stands for the uncached part of \<^verbatim>\<open>_parseColor\<close> (lines 1243-1260), a pure
  function of the colour string whose rules are outside the specification.
\<close>

record engine =
  width :: real
  height :: real
  dpr :: real
  batchCount :: nat
  currentTexture :: "texref option"
  vertexData :: "nat \<Rightarrow> real"
  drawCallCount :: nat
  triangleCount :: nat
  submissions :: "draw list"
  blendFunc :: "blend_factor \<times> blend_factor"
  clears :: nat
  stateStack :: "rstate list"
  statePool :: "rstate list"
  heap :: "nat \<Rightarrow> obj"
  heapNext :: nat
  colorCache :: "(string \<times> rgba) list"
  cssParse :: "string \<Rightarrow> rgba"
  tm :: texman

definition maxBatchSize :: nat where
  "maxBatchSize = 8192"

definition verticesPerSprite :: nat where
  "verticesPerSprite = 4"

definition indicesPerSprite :: nat where
  "indicesPerSprite = 6"

definition vertexStride :: nat where
  "vertexStride = 9"

definition vertexCountPerSprite :: nat where
  "vertexCountPerSprite = verticesPerSprite * vertexStride"

definition WHITE_RGBA :: rgba where
  "WHITE_RGBA = (1, 1, 1, 1)"

definition rgba_list :: "rgba \<Rightarrow> real list" where
  "rgba_list c = (case c of (r, g, b, a) \<Rightarrow> [r, g, b, a])"

subsection \<open>initBuffers: the static index buffer\<close>

text \<open>
  The first \<open>n\<close> iterations of the loop of lines 434-438 over a Uint16Array: a store keeps
  the value modulo \<open>2 ^ 16\<close>.
\<close>

primrec index_loop :: "nat \<Rightarrow> (nat \<Rightarrow> 16 word) \<Rightarrow> (nat \<Rightarrow> 16 word)" where
  "index_loop 0 indices = indices"
| "index_loop (Suc i) indices =
     (let done = index_loop i indices; v = i * 4; idx = i * 6
      in done(idx := of_nat v, idx + 1 := of_nat (v + 1), idx + 2 := of_nat (v + 2),
              idx + 3 := of_nat v, idx + 4 := of_nat (v + 2), idx + 5 := of_nat (v + 3)))"

definition indexBuffer :: "nat \<Rightarrow> 16 word" where
  "indexBuffer = index_loop maxBatchSize (\<lambda>k. 0)"

subsection \<open>Colours\<close>

text \<open>
  \<^verbatim>\<open>_parseColor\<close>. Its callers only read the array it returns, so the model returns the
  contents. An empty string is falsy; an object is returned as it is when it is an array, and
  is white otherwise; a string is looked up in the cache, resolved and cached while the cache
  has fewer than 1000 entries.
\<close>

definition parseColorString :: "engine \<Rightarrow> string \<Rightarrow> rgba \<times> engine" where
  "parseColorString e color =
     (if color = [] then (WHITE_RGBA, e)
      else case map_of (colorCache e) color of
             Some cached \<Rightarrow> (cached, e)
           | None \<Rightarrow>
               let result = cssParse e color
               in (result, if length (colorCache e) < 1000
                           then e\<lparr>colorCache := colorCache e @ [(color, result)]\<rparr> else e))"

definition parseColor :: "engine \<Rightarrow> style \<Rightarrow> real list \<times> engine" where
  "parseColor e color =
     (case color of
        StyleStr s \<Rightarrow> (let (c, e') = parseColorString e s in (rgba_list c, e'))
      | StyleObj a \<Rightarrow>
          (case heap e a of
             F32 xs \<Rightarrow> (xs, e)
           | Arr xs \<Rightarrow> (xs, e)
           | Grad \<Rightarrow> (rgba_list WHITE_RGBA, e)))"

subsection \<open>The render state stack\<close>

definition alloc :: "engine \<Rightarrow> obj \<Rightarrow> nat \<times> engine" where
  "alloc e ob = (heapNext e, e\<lparr>heap := (heap e)(heapNext e := ob), heapNext := heapNext e + 1\<rparr>)"

definition createDefaultState :: "engine \<Rightarrow> rstate \<times> engine" where
  "createDefaultState e =
     (let (fillA, e1) = alloc e (F32 [1, 1, 1, 1]);
          (strokeA, e2) = alloc e1 (F32 [0, 0, 0, 1])
      in (\<lparr>matrix = (1, 0, 0, 1, 0, 0), alpha = 1, flash = 0,
           fillStyle = StyleStr ''#ffffff'', fillStyleRGBA = fillA,
           strokeStyle = StyleStr ''#000000'', strokeStyleRGBA = strokeA,
           lineWidth = 1, font = ''20px Arial'',
           textAlign = ''left'', textBaseline = ''alphabetic'',
           globalCompositeOperation = ''source-over'',
           shadowBlur = 0, shadowColor = ''transparent'',
           lineCap = None, lineJoin = None\<rparr>, e2))"

text \<open>Properties of a style object as the source reads them.\<close>

definition isGradient :: "obj \<Rightarrow> bool" where
  "isGradient ob = (case ob of Grad \<Rightarrow> True | F32 xs \<Rightarrow> False | Arr xs \<Rightarrow> False)"

definition lengthIs4 :: "obj \<Rightarrow> bool" where
  "lengthIs4 ob = (case ob of F32 xs \<Rightarrow> length xs = 4 | Arr xs \<Rightarrow> length xs = 4 | Grad \<Rightarrow> False)"

definition hasSet :: "obj \<Rightarrow> bool" where
  "hasSet ob = (case ob of F32 xs \<Rightarrow> True | Arr xs \<Rightarrow> False | Grad \<Rightarrow> False)"

definition elements :: "obj \<Rightarrow> real list" where
  "elements ob = (case ob of F32 xs \<Rightarrow> xs | Arr xs \<Rightarrow> xs | Grad \<Rightarrow> [])"

text \<open>
  \<^verbatim>\<open>target.set(source)\<close> on the object at address \<open>a\<close>: a TypeError when the object has no
  such method, a RangeError when the source is longer than the target, else the source
  overwrites the front of the target.
\<close>

definition callSet :: "engine \<Rightarrow> nat \<Rightarrow> real list \<Rightarrow> (error \<times> engine) + engine" where
  "callSet e a src =
     (case heap e a of
        F32 xs \<Rightarrow>
          if length src > length xs then Inl (RangeError, e)
          else Inr (e\<lparr>heap := (heap e)(a := F32 (src @ drop (length src) xs))\<rparr>)
      | Arr xs \<Rightarrow> Inl (TypeError, e)
      | Grad \<Rightarrow> Inl (TypeError, e))"

text \<open>
  The colour part of \<^verbatim>\<open>_copyState\<close> for one slot (lines 506-511 and 513-518): \<open>src\<close> is
  the source state's object, \<open>dst\<close> the target state's; the result is the target's new slot.
\<close>

definition copyRGBA :: "engine \<Rightarrow> nat \<Rightarrow> nat \<Rightarrow> (error \<times> nat \<times> engine) + (nat \<times> engine)" where
  "copyRGBA e src dst =
     (if isGradient (heap e src) then Inr (src, e)
      else
        let (dst', e1) = (if isGradient (heap e dst) \<or> \<not> lengthIs4 (heap e dst)
                          then alloc e (F32 [0, 0, 0, 0]) else (dst, e))
        in case callSet e1 dst' (elements (heap e1 src)) of
             Inl (err, e2) \<Rightarrow> Inl (err, dst', e2)
           | Inr e2 \<Rightarrow> Inr (dst', e2))"

text \<open>
  \<^verbatim>\<open>_copyState(from, to)\<close>: the result is the updated target state. When a \<^verbatim>\<open>set\<close> call
  throws, the assignments made before it stay.
\<close>

definition copyState :: "engine \<Rightarrow> rstate \<Rightarrow> rstate \<Rightarrow> (error \<times> rstate \<times> engine) + (rstate \<times> engine)" where
  "copyState e from to =
     (let to1 = to\<lparr>matrix := matrix from, alpha := alpha from, flash := flash from,
                   fillStyle := fillStyle from\<rparr>
      in case copyRGBA e (fillStyleRGBA from) (fillStyleRGBA to1) of
           Inl (err, a, e1) \<Rightarrow> Inl (err, to1\<lparr>fillStyleRGBA := a\<rparr>, e1)
         | Inr (a, e1) \<Rightarrow>
             (let to2 = to1\<lparr>fillStyleRGBA := a, strokeStyle := strokeStyle from\<rparr>
              in (case copyRGBA e1 (strokeStyleRGBA from) (strokeStyleRGBA to2) of
                    Inl (err, b, e2) \<Rightarrow> Inl (err, to2\<lparr>strokeStyleRGBA := b\<rparr>, e2)
                  | Inr (b, e2) \<Rightarrow>
                      Inr (to2\<lparr>strokeStyleRGBA := b,
                               lineWidth := lineWidth from, font := font from,
                               textAlign := textAlign from, textBaseline := textBaseline from,
                               globalCompositeOperation := globalCompositeOperation from,
                               shadowBlur := shadowBlur from, shadowColor := shadowColor from\<rparr>, e2))))"

text \<open>The getter \<^verbatim>\<open>_state\<close> and the write-back of a changed top state.\<close>

definition topState :: "engine \<Rightarrow> rstate" where
  "topState e = last (stateStack e)"

definition set_topState :: "engine \<Rightarrow> rstate \<Rightarrow> engine" where
  "set_topState e s = e\<lparr>stateStack := butlast (stateStack e) @ [s]\<rparr>"

definition get_globalCompositeOperation :: "engine \<Rightarrow> string" where
  "get_globalCompositeOperation e =
     (if globalCompositeOperation (topState e) = [] then ''source-over''
      else globalCompositeOperation (topState e))"

definition updateBlendMode :: "engine \<Rightarrow> engine" where
  "updateBlendMode e =
     (let mode = get_globalCompositeOperation e
      in if mode = ''source-atop'' then e\<lparr>blendFunc := (DST_ALPHA, ONE_MINUS_SRC_ALPHA)\<rparr>
         else if mode = ''lighter'' \<or> mode = ''screen'' \<or> mode = ''additive''
              then e\<lparr>blendFunc := (ONE, ONE)\<rparr>
         else e\<lparr>blendFunc := (ONE, ONE_MINUS_SRC_ALPHA)\<rparr>)"

subsection \<open>flush\<close>

text \<open>
  The texture flush binds: \<^verbatim>\<open>this.currentTexture || this.whiteTexture\<close>, replaced by the
  white texture when it is not a WebGLTexture.
\<close>

definition boundTexture :: "engine \<Rightarrow> texref" where
  "boundTexture e =
     (let tex = (case currentTexture e of None \<Rightarrow> whiteTexture | Some t \<Rightarrow> t)
      in if instanceofWebGLTexture tex then tex else whiteTexture)"

definition flush :: "engine \<Rightarrow> engine" where
  "flush e =
     (if batchCount e = 0 then e
      else e\<lparr>submissions := submissions e @
                 [\<lparr>d_texture = boundTexture e,
                   d_vertices = map (vertexData e) [0 ..< batchCount e * vertexCountPerSprite],
                   d_count = batchCount e * indicesPerSprite,
                   d_blend = blendFunc e\<rparr>],
              drawCallCount := drawCallCount e + 1,
              triangleCount := triangleCount e + batchCount e * 2,
              batchCount := 0,
              currentTexture := None\<rparr>)"

subsection \<open>save, restore, the setters\<close>

definition save :: "engine \<Rightarrow> (error \<times> engine) + engine" where
  "save e =
     (let current = last (stateStack e);
          (next, e1) = (if statePool e = [] then createDefaultState e
                        else (last (statePool e), e\<lparr>statePool := butlast (statePool e)\<rparr>))
      in case copyState e1 current next of
           Inl (err, partial, e2) \<Rightarrow> Inl (err, e2)
         | Inr (next', e2) \<Rightarrow> Inr (e2\<lparr>stateStack := stateStack e2 @ [next']\<rparr>))"

definition restore :: "engine \<Rightarrow> engine" where
  "restore e =
     (if length (stateStack e) \<le> 1 then e
      else
        let oldMode = get_globalCompositeOperation e;
            discarded = last (stateStack e);
            e1 = e\<lparr>stateStack := butlast (stateStack e), statePool := statePool e @ [discarded]\<rparr>
        in if oldMode \<noteq> get_globalCompositeOperation e1 then updateBlendMode (flush e1) else e1)"

definition set_fillStyle :: "engine \<Rightarrow> style \<Rightarrow> (error \<times> engine) + engine" where
  "set_fillStyle e v =
     (let s = topState e
      in if fillStyle s = v then Inr e
         else
           let s1 = s\<lparr>fillStyle := v\<rparr>
           in case v of
                StyleObj a \<Rightarrow> Inr (set_topState e (s1\<lparr>fillStyleRGBA := a\<rparr>))
              | StyleStr str \<Rightarrow>
                  let (c, e1) = parseColor (set_topState e s1) v;
                      (a, e2) = (if isGradient (heap e1 (fillStyleRGBA s1)) \<or> \<not> hasSet (heap e1 (fillStyleRGBA s1))
                                 then alloc e1 (F32 [0, 0, 0, 0]) else (fillStyleRGBA s1, e1));
                      e3 = set_topState e2 (s1\<lparr>fillStyleRGBA := a\<rparr>)
                  in callSet e3 a c)"

definition set_strokeStyle :: "engine \<Rightarrow> style \<Rightarrow> (error \<times> engine) + engine" where
  "set_strokeStyle e v =
     (let s = topState e
      in if strokeStyle s = v then Inr e
         else
           let s1 = s\<lparr>strokeStyle := v\<rparr>;
               (c, e1) = parseColor (set_topState e s1) v;
               (a, e2) = (if isGradient (heap e1 (strokeStyleRGBA s1)) \<or> \<not> hasSet (heap e1 (strokeStyleRGBA s1))
                          then alloc e1 (F32 [0, 0, 0, 0]) else (strokeStyleRGBA s1, e1));
               e3 = set_topState e2 (s1\<lparr>strokeStyleRGBA := a\<rparr>)
           in callSet e3 a c)"

definition set_globalAlpha :: "engine \<Rightarrow> real \<Rightarrow> engine" where
  "set_globalAlpha e v = set_topState e ((topState e)\<lparr>alpha := v\<rparr>)"

definition set_flash :: "engine \<Rightarrow> bool \<Rightarrow> engine" where
  "set_flash e v = set_topState e ((topState e)\<lparr>flash := (if v then 1 else 0)\<rparr>)"

definition set_lineWidth :: "engine \<Rightarrow> real \<Rightarrow> engine" where
  "set_lineWidth e v = set_topState e ((topState e)\<lparr>lineWidth := v\<rparr>)"

definition set_shadowBlur :: "engine \<Rightarrow> real \<Rightarrow> engine" where
  "set_shadowBlur e v = set_topState e ((topState e)\<lparr>shadowBlur := v\<rparr>)"

definition set_shadowColor :: "engine \<Rightarrow> string \<Rightarrow> engine" where
  "set_shadowColor e v = set_topState e ((topState e)\<lparr>shadowColor := v\<rparr>)"

definition set_font :: "engine \<Rightarrow> string \<Rightarrow> engine" where
  "set_font e v = set_topState e ((topState e)\<lparr>font := v\<rparr>)"

definition set_textAlign :: "engine \<Rightarrow> string \<Rightarrow> engine" where
  "set_textAlign e v = set_topState e ((topState e)\<lparr>textAlign := v\<rparr>)"

definition set_textBaseline :: "engine \<Rightarrow> string \<Rightarrow> engine" where
  "set_textBaseline e v = set_topState e ((topState e)\<lparr>textBaseline := v\<rparr>)"

definition set_lineCap :: "engine \<Rightarrow> string \<Rightarrow> engine" where
  "set_lineCap e v = set_topState e ((topState e)\<lparr>lineCap := Some v\<rparr>)"

definition set_lineJoin :: "engine \<Rightarrow> string \<Rightarrow> engine" where
  "set_lineJoin e v = set_topState e ((topState e)\<lparr>lineJoin := Some v\<rparr>)"

definition set_globalCompositeOperation :: "engine \<Rightarrow> string \<Rightarrow> engine" where
  "set_globalCompositeOperation e v =
     (let s = topState e
      in if globalCompositeOperation s = v then e
         else
           let e1 = flush e;
               e2 = set_topState e1 ((topState e1)\<lparr>globalCompositeOperation := v\<rparr>)
           in updateBlendMode e2)"

definition translate :: "engine \<Rightarrow> real \<Rightarrow> real \<Rightarrow> engine" where
  "translate e x y =
     (case matrix (topState e) of (m0, m1, m2, m3, m4, m5) \<Rightarrow>
        set_topState e ((topState e)\<lparr>matrix := (m0, m1, m2, m3, m4 + (m0 * x + m2 * y), m5 + (m1 * x + m3 * y))\<rparr>))"

definition scale :: "engine \<Rightarrow> real \<Rightarrow> real \<Rightarrow> engine" where
  "scale e sx sy =
     (case matrix (topState e) of (m0, m1, m2, m3, m4, m5) \<Rightarrow>
        set_topState e ((topState e)\<lparr>matrix := (m0 * sx, m1 * sx, m2 * sy, m3 * sy, m4, m5)\<rparr>))"

definition rotate :: "engine \<Rightarrow> real \<Rightarrow> engine" where
  "rotate e angle =
     (case matrix (topState e) of (m0, m1, m2, m3, m4, m5) \<Rightarrow>
        let c = cos angle; s = sin angle
        in set_topState e ((topState e)\<lparr>matrix := (m0 * c + m2 * s, m1 * c + m3 * s,
                                           m0 * - s + m2 * c, m1 * - s + m3 * c, m4, m5)\<rparr>))"

definition setTransform :: "engine \<Rightarrow> real \<Rightarrow> real \<Rightarrow> real \<Rightarrow> real \<Rightarrow> real \<Rightarrow> real \<Rightarrow> engine" where
  "setTransform e a b c d x y = set_topState e ((topState e)\<lparr>matrix := (a, b, c, d, x, y)\<rparr>)"

subsection \<open>clearRect, clear, resetState\<close>

text \<open>The loop of line 630: pop every state above the root into the pool.\<close>

function pop_to_root :: "rstate list \<Rightarrow> rstate list \<Rightarrow> rstate list \<times> rstate list" where
  "pop_to_root stack pool =
     (if length stack > 1 then pop_to_root (butlast stack) (pool @ [last stack])
      else (stack, pool))"
  by pat_completeness auto
termination
  by (relation "measure (\<lambda>(stack, pool). length stack)") auto

definition resetState :: "engine \<Rightarrow> (error \<times> engine) + engine" where
  "resetState e =
     (let e1 = e\<lparr>batchCount := 0, currentTexture := None\<rparr>;
          (stack, pool) = pop_to_root (stateStack e1) (statePool e1);
          e2 = e1\<lparr>stateStack := stack, statePool := pool\<rparr>;
          root = hd (stateStack e2);
          (fresh, e3) = createDefaultState e2
      in case copyState e3 fresh root of
           Inl (err, partial, e4) \<Rightarrow> Inl (err, e4\<lparr>stateStack := partial # tl (stateStack e4)\<rparr>)
         | Inr (root1, e4) \<Rightarrow>
             let k = (if dpr e4 = 0 then 1 else dpr e4);
                 root2 = (case matrix root1 of (m0, m1, m2, m3, m4, m5) \<Rightarrow>
                            root1\<lparr>matrix := (k, m1, m2, k, m4, m5)\<rparr>);
                 e5 = e4\<lparr>stateStack := root2 # tl (stateStack e4)\<rparr>;
                 e6 = set_globalCompositeOperation e5 ''source-over''
             in Inr (updateBlendMode e6))"

definition clear :: "engine \<Rightarrow> (error \<times> engine) + engine" where
  "clear e =
     (let e1 = flush e;
          e2 = e1\<lparr>clears := clears e1 + 1\<rparr>
      in resetState e2)"

text \<open>
  The comparison \<^verbatim>\<open>w >= (extent / dpr) - t\<close> of clearRect for finite numbers. With a zero
  \<^verbatim>\<open>dpr\<close> the quotient is an infinity of the sign of \<open>extent\<close>, or NaN for a zero extent:
  only minus infinity is below a finite \<open>w\<close>.
\<close>

definition covers :: "real \<Rightarrow> real \<Rightarrow> real \<Rightarrow> real \<Rightarrow> bool" where
  "covers w extent ratio t =
     (if ratio = 0 then extent < 0 else w \<ge> (extent / ratio) - t)"

definition clearRect :: "engine \<Rightarrow> real \<Rightarrow> real \<Rightarrow> real \<Rightarrow> real \<Rightarrow> (error \<times> engine) + engine" where
  "clearRect e x y w h =
     (let t = 1
      in if x \<le> t \<and> y \<le> t \<and> covers w (width e) (dpr e) t \<and> covers h (height e) (dpr e) t
         then clear e else Inr e)"

subsection \<open>The texture manager\<close>

definition maxTextureCacheSize :: nat where
  "maxTextureCacheSize = 200"

text \<open>What a draw call passes as its image: null, an image source, or a WebGLTexture.\<close>

datatype imgarg = NoImage | ImageObj nat | TextureObj nat

text \<open>What getTexture returns: a bare texture (or the object itself), or an info object.\<close>

datatype resolved = Raw texref | Info texinfo

text \<open>\<^verbatim>\<open>_updateInAtlas\<close>: the write is dropped when \<^verbatim>\<open>texSubImage2D\<close> throws.\<close>

definition updateInAtlas :: "texman \<Rightarrow> nat \<Rightarrow> texman" where
  "updateInAtlas t i =
     (case map_of (atlasCache t) i of
        None \<Rightarrow> t
      | Some uv \<Rightarrow>
          let x = round (uv_u0 uv * real_of_int (atlasSize t));
              y = round (uv_v0 uv * real_of_int (atlasSize t))
          in if tainted (images t i) then t
             else t\<lparr>atlasUploads := atlasUploads t @
                       [(i, x, y, img_width (images t i), img_height (images t i))]\<rparr>)"

text \<open>\<^verbatim>\<open>_addToAtlas\<close>: shelf packing; \<open>None\<close> is the null it returns.\<close>

definition addToAtlas :: "texman \<Rightarrow> nat \<Rightarrow> uvrect option \<times> texman" where
  "addToAtlas t i =
     (let img = images t i
      in if img_width img \<le> 0 \<or> img_height img \<le> 0 then (None, t)
         else
           let w = img_width img + atlasPadding t * 2;
               h = img_height img + atlasPadding t * 2;
               t1 = (if atlasX t + w > atlasSize t
                     then t\<lparr>atlasX := 0, atlasY := atlasY t + atlasRowHeight t, atlasRowHeight := 0\<rparr>
                     else t)
           in if atlasY t1 + h > atlasSize t1 then (None, t1)
              else
                let x = atlasX t1 + atlasPadding t1;
                    y = atlasY t1 + atlasPadding t1
                in if tainted img then (None, t1)
                   else
                     let uv = \<lparr>uv_u0 = real_of_int x / real_of_int (atlasSize t1),
                               uv_v0 = real_of_int y / real_of_int (atlasSize t1),
                               uv_u1 = real_of_int (x + img_width img) / real_of_int (atlasSize t1),
                               uv_v1 = real_of_int (y + img_height img) / real_of_int (atlasSize t1)\<rparr>
                     in (Some uv,
                         t1\<lparr>atlasUploads := atlasUploads t1 @ [(i, x, y, img_width img, img_height img)],
                            atlasCache := AList.update i uv (atlasCache t1),
                            atlasX := atlasX t1 + w,
                            atlasRowHeight := max (atlasRowHeight t1) h\<rparr>))"

text \<open>One iteration of the loop of \<^verbatim>\<open>_cleanupTextures\<close>, for the entry \<^verbatim>\<open>sorted[i]\<close>.\<close>

definition evict :: "texman \<Rightarrow> nat \<times> nat \<Rightarrow> texman" where
  "evict t entry =
     (let img = fst entry
      in case map_of (textureCache t) img of
           None \<Rightarrow> t
         | Some tex \<Rightarrow>
             if tex \<noteq> whiteTexture
             then t\<lparr>deletedTextures := deletedTextures t @ [tex],
                    textureCache := AList.delete img (textureCache t),
                    textureUsage := AList.delete img (textureUsage t)\<rparr>
             else t)"

text \<open>
  \<^verbatim>\<open>_cleanupTextures\<close>: the usage entries in ascending order of their time stamps (the
  sort of an array is stable), the first \<^verbatim>\<open>Math.ceil(maxTextureCacheSize * 0.2)\<close> of them
  evicted in that order.
\<close>

definition cleanupTextures :: "texman \<Rightarrow> texman" where
  "cleanupTextures t =
     (let sorted = sort_key snd (textureUsage t);
          n = nat \<lceil>real maxTextureCacheSize * 0.2\<rceil>
      in foldl evict t (take n sorted))"

definition set_memo :: "texman \<Rightarrow> nat \<Rightarrow> texinfo \<Rightarrow> texman" where
  "set_memo t i info = t\<lparr>images := (images t)(i := (images t i)\<lparr>glTextureInfo := Some info\<rparr>)\<rparr>"

definition clear_needsUpdate :: "texman \<Rightarrow> nat \<Rightarrow> texman" where
  "clear_needsUpdate t i = t\<lparr>images := (images t)(i := (images t i)\<lparr>needsUpdate := False\<rparr>)\<rparr>"

text \<open>
  The dedicated-texture part of getTexture (lines 1164-1181), entered with the manager as
  the atlas attempt left it. The upload of a new texture is inside \<^verbatim>\<open>try\<close>; the upload of
  a dirty image that already has a texture is not.
\<close>

definition dedicatedTexture :: "texman \<Rightarrow> nat \<Rightarrow> (error \<times> texman) + (resolved \<times> texman)" where
  "dedicatedTexture t i =
     (let img = images t i;
          finish = (\<lambda>tex t'.
             let t1 = t'\<lparr>textureUsage := AList.update i (clock t') (textureUsage t')\<rparr>;
                 info = \<lparr>ti_texture = tex, ti_uv = None,
                         ti_width = img_width img, ti_height = img_height img\<rparr>
             in Inr (Info info, set_memo t1 i info))
      in case map_of (textureCache t) i of
           None \<Rightarrow>
             let t1 = (if length (textureCache t) \<ge> maxTextureCacheSize then cleanupTextures t else t);
                 tex = GLTex (nextTexture t1);
                 t2 = t1\<lparr>nextTexture := nextTexture t1 + 1\<rparr>
             in if tainted img then Inr (Raw whiteTexture, t2)
                else finish tex (t2\<lparr>textureUploads := textureUploads t2 @ [(tex, i)],
                                    textureCache := AList.update i tex (textureCache t2)\<rparr>)
         | Some tex \<Rightarrow>
             if needsUpdate img
             then (if tainted img then Inl (UploadError, t)
                   else finish tex (clear_needsUpdate (t\<lparr>textureUploads := textureUploads t @ [(tex, i)]\<rparr>) i))
             else finish tex t)"

definition getTexture :: "texman \<Rightarrow> imgarg \<Rightarrow> (error \<times> texman) + (resolved \<times> texman)" where
  "getTexture t im =
     (case im of
        NoImage \<Rightarrow> Inr (Raw whiteTexture, t)
      | TextureObj h \<Rightarrow> Inr (Raw (GLTex h), t)
      | ImageObj i \<Rightarrow>
          let img = images t i
          in if glTextureInfo img \<noteq> None \<and> \<not> needsUpdate img
             then Inr (Info (the (glTextureInfo img)), t)
             else if isGLTexture img then Inr (Raw (NotTex i), t)
             else
               (case map_of (atlasCache t) i of
                 Some uv \<Rightarrow>
                   let t1 = (if needsUpdate img then clear_needsUpdate (updateInAtlas t i) i else t);
                       info = \<lparr>ti_texture = atlasTexture, ti_uv = Some uv,
                               ti_width = img_width img, ti_height = img_height img\<rparr>
                   in Inr (Info info, set_memo t1 i info)
               | None \<Rightarrow>
                   let iW = img_width img; iH = img_height img
                   in if iW > 0 \<and> iH > 0 \<and> iW \<le> 512 \<and> iH \<le> 512 \<and> \<not> disableAutoAtlas img
                      then (case addToAtlas t i of
                              (Some uv, t1) \<Rightarrow>
                                let info = \<lparr>ti_texture = atlasTexture, ti_uv = Some uv,
                                            ti_width = iW, ti_height = iH\<rparr>
                                in Inr (Info info, set_memo t1 i info)
                            | (None, t1) \<Rightarrow> dedicatedTexture t1 i)
                      else dedicatedTexture t i))"

subsection \<open>The sprite batcher\<close>

definition arenaLength :: nat where
  "arenaLength = maxBatchSize * verticesPerSprite * vertexStride"

text \<open>A store into the arena: outside the array it has no effect.\<close>

definition f32_store :: "(nat \<Rightarrow> real) \<Rightarrow> nat \<Rightarrow> real \<Rightarrow> (nat \<Rightarrow> real)" where
  "f32_store d i x = (if i < arenaLength then d(i := x) else d)"

text \<open>Consecutive stores \<^verbatim>\<open>d[o] = x0; d[o+1] = x1; ...\<close>.\<close>

primrec store_at :: "(nat \<Rightarrow> real) \<Rightarrow> nat \<Rightarrow> real list \<Rightarrow> (nat \<Rightarrow> real)" where
  "store_at d i [] = d"
| "store_at d i (x # xs) = store_at (f32_store d i x) (Suc i) xs"

text \<open>The nine floats addVertex stores, and addVertex.\<close>

definition vertex_floats :: "real \<Rightarrow> real \<Rightarrow> real \<Rightarrow> real \<Rightarrow> real \<Rightarrow> rgba \<Rightarrow> real list" where
  "vertex_floats x y u v a c =
     (case c of (r, g, b, r3) \<Rightarrow>
        let isFlash = r3 > 5;
            cA = (if isFlash then 1 else (if r3 > 1 then 1 else r3));
            ca = a * cA
        in [x, y, u, v, ca, r, g, b, (if isFlash then 2 else (if ca > 1 then 1 else ca))])"

definition addVertex :: "engine \<Rightarrow> nat \<Rightarrow> real \<Rightarrow> real \<Rightarrow> real \<Rightarrow> real \<Rightarrow> real \<Rightarrow> rgba \<Rightarrow> engine" where
  "addVertex e offset x y u v a c =
     e\<lparr>vertexData := store_at (vertexData e) offset (vertex_floats x y u v a c)\<rparr>"

text \<open>
  The four addVertex calls of an axis-aligned rectangle \<open>(x0, y0)-(x1, y1)\<close> under the matrix
  \<open>m\<close>, at offsets \<open>o\<close>, \<open>o + 9\<close>, \<open>o + 18\<close> and \<open>o + 27\<close>: the pattern of drawImage,
  drawTexture without rotation and \<^verbatim>\<open>_drawRect\<close>.
\<close>

definition addRectVertices ::
  "engine \<Rightarrow> nat \<Rightarrow> mat \<Rightarrow> real \<Rightarrow> real \<Rightarrow> real \<Rightarrow> real \<Rightarrow> real \<Rightarrow> real \<Rightarrow> real \<Rightarrow> real \<Rightarrow> real \<Rightarrow> rgba \<Rightarrow> engine" where
  "addRectVertices e ofs m x0 y0 x1 y1 tu0 tv0 tu1 tv1 a c =
     (case m of (m0, m1, m2, m3, m4, m5) \<Rightarrow>
        let e1 = addVertex e (ofs + 0) (m0 * x0 + m2 * y0 + m4) (m1 * x0 + m3 * y0 + m5) tu0 tv0 a c;
            e2 = addVertex e1 (ofs + 9) (m0 * x1 + m2 * y0 + m4) (m1 * x1 + m3 * y0 + m5) tu1 tv0 a c;
            e3 = addVertex e2 (ofs + 18) (m0 * x1 + m2 * y1 + m4) (m1 * x1 + m3 * y1 + m5) tu1 tv1 a c
        in addVertex e3 (ofs + 27) (m0 * x0 + m2 * y1 + m4) (m1 * x0 + m3 * y1 + m5) tu0 tv1 a c)"

text \<open>The four addVertex calls of a quad given by its corners in local coordinates.\<close>

definition addCornerVertices ::
  "engine \<Rightarrow> nat \<Rightarrow> mat \<Rightarrow> vec2 \<Rightarrow> vec2 \<Rightarrow> vec2 \<Rightarrow> vec2 \<Rightarrow> real \<Rightarrow> real \<Rightarrow> real \<Rightarrow> real \<Rightarrow> real \<Rightarrow> rgba \<Rightarrow> engine" where
  "addCornerVertices e ofs m p0 p1 p2 p3 tu0 tv0 tu1 tv1 a c =
     (case m of (m0, m1, m2, m3, m4, m5) \<Rightarrow>
        let e1 = addVertex e (ofs + 0) (m0 * fst p0 + m2 * snd p0 + m4) (m1 * fst p0 + m3 * snd p0 + m5) tu0 tv0 a c;
            e2 = addVertex e1 (ofs + 9) (m0 * fst p1 + m2 * snd p1 + m4) (m1 * fst p1 + m3 * snd p1 + m5) tu1 tv0 a c;
            e3 = addVertex e2 (ofs + 18) (m0 * fst p2 + m2 * snd p2 + m4) (m1 * fst p2 + m3 * snd p2 + m5) tu1 tv1 a c
        in addVertex e3 (ofs + 27) (m0 * fst p3 + m2 * snd p3 + m4) (m1 * fst p3 + m3 * snd p3 + m5) tu0 tv1 a c)"

text \<open>
  The 36 floats the four addVertex calls of a rectangle, or of a quad given by its corners,
  store from their first offset on.
\<close>

definition rect_floats ::
  "mat \<Rightarrow> real \<Rightarrow> real \<Rightarrow> real \<Rightarrow> real \<Rightarrow> real \<Rightarrow> real \<Rightarrow> real \<Rightarrow> real \<Rightarrow> real \<Rightarrow> rgba \<Rightarrow> real list" where
  "rect_floats m x0 y0 x1 y1 tu0 tv0 tu1 tv1 a c =
     (case m of (m0, m1, m2, m3, m4, m5) \<Rightarrow>
        vertex_floats (m0 * x0 + m2 * y0 + m4) (m1 * x0 + m3 * y0 + m5) tu0 tv0 a c
        @ vertex_floats (m0 * x1 + m2 * y0 + m4) (m1 * x1 + m3 * y0 + m5) tu1 tv0 a c
        @ vertex_floats (m0 * x1 + m2 * y1 + m4) (m1 * x1 + m3 * y1 + m5) tu1 tv1 a c
        @ vertex_floats (m0 * x0 + m2 * y1 + m4) (m1 * x0 + m3 * y1 + m5) tu0 tv1 a c)"

definition corner_floats ::
  "mat \<Rightarrow> vec2 \<Rightarrow> vec2 \<Rightarrow> vec2 \<Rightarrow> vec2 \<Rightarrow> real \<Rightarrow> real \<Rightarrow> real \<Rightarrow> real \<Rightarrow> real \<Rightarrow> rgba \<Rightarrow> real list" where
  "corner_floats m p0 p1 p2 p3 tu0 tv0 tu1 tv1 a c =
     (case m of (m0, m1, m2, m3, m4, m5) \<Rightarrow>
        vertex_floats (m0 * fst p0 + m2 * snd p0 + m4) (m1 * fst p0 + m3 * snd p0 + m5) tu0 tv0 a c
        @ vertex_floats (m0 * fst p1 + m2 * snd p1 + m4) (m1 * fst p1 + m3 * snd p1 + m5) tu1 tv0 a c
        @ vertex_floats (m0 * fst p2 + m2 * snd p2 + m4) (m1 * fst p2 + m3 * snd p2 + m5) tu1 tv1 a c
        @ vertex_floats (m0 * fst p3 + m2 * snd p3 + m4) (m1 * fst p3 + m3 * snd p3 + m5) tu0 tv1 a c)"

text \<open>
  The texture check that opens drawImage, drawTexture, drawSpriteFast and \<^verbatim>\<open>_drawLine\<close>:
  on a different texture or a full batch, flush a non-empty batch and bind the new texture
  (the white texture when the value is not a WebGLTexture).
\<close>

definition switchTexture :: "engine \<Rightarrow> texref \<Rightarrow> engine" where
  "switchTexture e texture =
     (if currentTexture e \<noteq> Some texture \<or> batchCount e \<ge> maxBatchSize
      then
        let e1 = (if batchCount e > 0 then flush e else e)
        in e1\<lparr>currentTexture := Some (if instanceofWebGLTexture texture then texture else whiteTexture)\<rparr>
      else e)"

definition textureOf :: "resolved \<Rightarrow> texref" where
  "textureOf r = (case r of Raw t \<Rightarrow> t | Info info \<Rightarrow> ti_texture info)"

definition uvOf :: "resolved \<Rightarrow> uvrect option" where
  "uvOf r = (case r of Raw t \<Rightarrow> None | Info info \<Rightarrow> ti_uv info)"

text \<open>
  The argument forms of drawImage: \<^verbatim>\<open>(image, dx, dy)\<close>, \<^verbatim>\<open>(image, dx, dy, dw, dh)\<close> and
  the nine-argument form.
\<close>

datatype image_args =
    Dest2 real real
  | Dest4 real real real real
  | Full real real real real real real real real

text \<open>
  drawImage of an image source (\<open>None\<close> is a null image). The texture coordinates divide by
  the image size; for an image of width or height zero the source computes non-finite
  values there, which the model does not represent.
\<close>

definition drawImage :: "engine \<Rightarrow> nat option \<Rightarrow> image_args \<Rightarrow> (error \<times> engine) + engine" where
  "drawImage e im args =
     (case im of
        None \<Rightarrow> Inr e
      | Some i \<Rightarrow>
          let iw = real_of_int (img_width (images (tm e) i));
              ih = real_of_int (img_height (images (tm e) i));
              (sx, sy, sw, sh, dx, dy, dw, dh) =
                (case args of
                   Dest2 x y \<Rightarrow> (0, 0, iw, ih, x, y, iw, ih)
                 | Dest4 x y w h \<Rightarrow> (0, 0, iw, ih, x, y, w, h)
                 | Full a b c d x y w h \<Rightarrow> (a, b, c, d, x, y, w, h))
          in (case getTexture (tm e) (ImageObj i) of
               Inl (err, t') \<Rightarrow> Inl (err, e\<lparr>tm := t'\<rparr>)
             | Inr (info, t') \<Rightarrow>
                 let e1 = switchTexture (e\<lparr>tm := t'\<rparr>) (textureOf info);
                     s = topState e1;
                     m = matrix s;
                     (tu0, tv0, tu1, tv1) =
                       (case info of
                          Info ti \<Rightarrow>
                            (case ti_uv ti of
                               Some uv \<Rightarrow>
                                 let iW = 1 / real_of_int (ti_width ti);
                                     iH = 1 / real_of_int (ti_height ti);
                                     aW = uv_u1 uv - uv_u0 uv;
                                     aH = uv_v1 uv - uv_v0 uv
                                 in (uv_u0 uv + (sx * iW) * aW, uv_v0 uv + (sy * iH) * aH,
                                     uv_u0 uv + ((sx + sw) * iW) * aW, uv_v0 uv + ((sy + sh) * iH) * aH)
                             | None \<Rightarrow> (sx / iw, sy / ih, (sx + sw) / iw, (sy + sh) / ih))
                        | Raw t \<Rightarrow> (sx / iw, sy / ih, (sx + sw) / iw, (sy + sh) / ih));
                     e2 = (if shadowBlur s > 0 \<and> shadowColor s \<noteq> ''transparent''
                              \<and> shadowColor s \<noteq> ''rgba(0,0,0,0)''
                           then
                             let (sRGBA, e1a) = parseColorString e1 (shadowColor s);
                                 glow = shadowBlur s * 0.5;
                                 sA = alpha s * 0.5;
                                 sx0 = dx - glow; sy0 = dy - glow;
                                 x1 = sx0 + dw + glow * 2; y1 = sy0 + dh + glow * 2;
                                 ofs = batchCount e1a * vertexCountPerSprite;
                                 e1b = addRectVertices e1a ofs m sx0 sy0 x1 y1 tu0 tv0 tu1 tv1 sA sRGBA;
                                 e1c = e1b\<lparr>batchCount := batchCount e1b + 1\<rparr>
                             in if batchCount e1c \<ge> maxBatchSize then flush e1c else e1c
                           else e1);
                     c = (if flash s > 0 then (1, 1, 1, 10) else WHITE_RGBA);
                     x1 = dx + dw; y1 = dy + dh;
                     ofs = batchCount e2 * vertexCountPerSprite;
                     e3 = addRectVertices e2 ofs m dx dy x1 y1 tu0 tv0 tu1 tv1 (alpha s) c
                 in Inr (e3\<lparr>batchCount := batchCount e3 + 1\<rparr>)))"

text \<open>
  What drawTexture is given: nothing, a WebGLTexture, an info object (with a \<^verbatim>\<open>texture\<close>
  property), or an image source, which it resolves with getTexture.
\<close>

datatype texarg = NoTex | TexHandle nat | TexInfo texinfo | TexImage nat

record drawTextureArgs =
  dt_x :: real
  dt_y :: real
  dt_w :: real
  dt_h :: real
  dt_u0 :: real
  dt_v0 :: real
  dt_u1 :: real
  dt_v1 :: real
  dt_rotation :: real
  dt_alpha :: real
  dt_flipX :: bool
  dt_flipY :: bool
  dt_tintR :: real
  dt_tintG :: real
  dt_tintB :: real
  dt_flash :: real

definition subUV :: "uvrect option \<Rightarrow> real \<times> real \<times> real \<times> real \<Rightarrow> real \<times> real \<times> real \<times> real" where
  "subUV uvo r =
     (case r of (a0, b0, a1, b1) \<Rightarrow>
        (case uvo of
           None \<Rightarrow> (a0, b0, a1, b1)
         | Some uv \<Rightarrow>
             let uw = uv_u1 uv - uv_u0 uv; vh = uv_v1 uv - uv_v0 uv
             in (uv_u0 uv + a0 * uw, uv_v0 uv + b0 * vh, uv_u0 uv + a1 * uw, uv_v0 uv + b1 * vh)))"

definition drawTexture :: "engine \<Rightarrow> texarg \<Rightarrow> drawTextureArgs \<Rightarrow> (error \<times> engine) + engine" where
  "drawTexture e info a =
     (case (case info of
              NoTex \<Rightarrow> None
            | TexHandle h \<Rightarrow> Some (Inr (GLTex h, None, tm e))
            | TexInfo ti \<Rightarrow> Some (Inr (ti_texture ti, ti_uv ti, tm e))
            | TexImage i \<Rightarrow>
                Some (case getTexture (tm e) (ImageObj i) of
                        Inl (err, t') \<Rightarrow> Inl (err, t')
                      | Inr (r, t') \<Rightarrow> Inr (textureOf r, uvOf r, t'))) of
        None \<Rightarrow> Inr e
      | Some (Inl (err, t')) \<Rightarrow> Inl (err, e\<lparr>tm := t'\<rparr>)
      | Some (Inr (texture, uvo, t')) \<Rightarrow>
          let (fU0, fV0, fU1, fV1) = subUV uvo (dt_u0 a, dt_v0 a, dt_u1 a, dt_v1 a);
              e1 = switchTexture (e\<lparr>tm := t'\<rparr>) texture;
              (gU0, gU1) = (if dt_flipX a then (fU1, fU0) else (fU0, fU1));
              (gV0, gV1) = (if dt_flipY a then (fV1, fV0) else (fV0, fV1));
              s = topState e1;
              m = matrix s;
              fA = dt_alpha a * alpha s;
              c = (dt_tintR a, dt_tintG a, dt_tintB a, if dt_flash a > 0 then 10 else 1);
              ofs = batchCount e1 * vertexCountPerSprite;
              x = dt_x a; y = dt_y a; w = dt_w a; h = dt_h a;
              e2 = (if dt_rotation a = 0
                    then addRectVertices e1 ofs m x y (x + w) (y + h) gU0 gV0 gU1 gV1 fA c
                    else
                      let co = cos (dt_rotation a); si = sin (dt_rotation a);
                          hw = w / 2; hh = h / 2; cx = x + hw; cy = y + hh
                      in addCornerVertices e1 ofs m
                           (- hw * co + hh * si + cx, - hw * si - hh * co + cy)
                           (hw * co + hh * si + cx, hw * si - hh * co + cy)
                           (hw * co - hh * si + cx, hw * si + hh * co + cy)
                           (- hw * co - hh * si + cx, - hw * si + hh * co + cy)
                           gU0 gV0 gU1 gV1 fA c)
          in Inr (e2\<lparr>batchCount := batchCount e2 + 1\<rparr>))"

text \<open>
  drawSpriteFast stores its 36 floats itself. \<open>tint\<close> is \<open>None\<close> for null; a tint shorter
  than four entries is replaced by white.
\<close>

definition drawSpriteFast ::
  "engine \<Rightarrow> imgarg \<Rightarrow> real \<Rightarrow> real \<Rightarrow> real \<Rightarrow> real \<Rightarrow> real \<Rightarrow> real \<Rightarrow> real list option \<Rightarrow> (error \<times> engine) + engine" where
  "drawSpriteFast e im x y w h rotation al tint =
     (if im = NoImage then Inr e
      else
        case getTexture (tm e) im of
          Inl (err, t') \<Rightarrow> Inl (err, e\<lparr>tm := t'\<rparr>)
        | Inr (texInfo, t') \<Rightarrow>
            let unit_uv = \<lparr>uv_u0 = 0, uv_v0 = 0, uv_u1 = 1, uv_v1 = 1\<rparr>;
                (texture, uv) =
                  (case texInfo of
                     Info ti \<Rightarrow> (ti_texture ti, (case ti_uv ti of Some r \<Rightarrow> r | None \<Rightarrow> unit_uv))
                   | Raw t \<Rightarrow> (if instanceofWebGLTexture t then t else whiteTexture, unit_uv));
                e1 = switchTexture (e\<lparr>tm := t'\<rparr>) texture;
                hw = w * 0.5; hh = h * 0.5; co = cos rotation; si = sin rotation;
                lx0 = - hw * co + hh * si + x; ly0 = - hw * si - hh * co + y;
                lx1 = hw * co + hh * si + x; ly1 = hw * si - hh * co + y;
                lx2 = hw * co - hh * si + x; ly2 = hw * si + hh * co + y;
                lx3 = - hw * co - hh * si + x; ly3 = - hw * si + hh * co + y;
                s = topState e1;
                (m0, m1, m2, m3, m4, m5) = matrix s;
                r0x = m0 * lx0 + m2 * ly0 + m4; r0y = m1 * lx0 + m3 * ly0 + m5;
                r1x = m0 * lx1 + m2 * ly1 + m4; r1y = m1 * lx1 + m3 * ly1 + m5;
                r2x = m0 * lx2 + m2 * ly2 + m4; r2y = m1 * lx2 + m3 * ly2 + m5;
                r3x = m0 * lx3 + m2 * ly3 + m4; r3y = m1 * lx3 + m3 * ly3 + m5;
                (c0, c1, c2, c3) =
                  (case tint of
                     None \<Rightarrow> WHITE_RGBA
                   | Some ts \<Rightarrow> if length ts \<ge> 4 then (ts ! 0, ts ! 1, ts ! 2, ts ! 3) else WHITE_RGBA);
                fA = al * alpha s;
                isFlash = c3 > 5;
                cA = (if isFlash then 1 else min 1 c3);
                ca = fA * cA;
                ff = (if isFlash then 2 else min 1 ca);
                ofs = batchCount e1 * vertexCountPerSprite;
                d = store_at (vertexData e1) ofs
                      [r0x, r0y, uv_u0 uv, uv_v0 uv, ca, c0, c1, c2, ff,
                       r1x, r1y, uv_u1 uv, uv_v0 uv, ca, c0, c1, c2, ff,
                       r2x, r2y, uv_u1 uv, uv_v1 uv, ca, c0, c1, c2, ff,
                       r3x, r3y, uv_u0 uv, uv_v1 uv, ca, c0, c1, c2, ff]
            in Inr (e1\<lparr>vertexData := d, batchCount := batchCount e1 + 1\<rparr>))"

text \<open>\<^verbatim>\<open>_drawRect\<close>: its flush is not guarded by the batch count (flush checks it itself).\<close>

definition drawRect' :: "engine \<Rightarrow> real \<Rightarrow> real \<Rightarrow> real \<Rightarrow> real \<Rightarrow> rgba \<Rightarrow> real \<Rightarrow> engine" where
  "drawRect' e x y w h c al =
     (let e1 = (if currentTexture e \<noteq> Some whiteTexture \<or> batchCount e \<ge> maxBatchSize
                then (flush e)\<lparr>currentTexture := Some whiteTexture\<rparr> else e);
          m = matrix (topState e1);
          x1 = x + w; y1 = y + h;
          ofs = batchCount e1 * verticesPerSprite * vertexStride;
          e2 = addRectVertices e1 ofs m x y x1 y1 0 0 1 1 al c
      in e2\<lparr>batchCount := batchCount e2 + 1\<rparr>)"

text \<open>\<^verbatim>\<open>_drawLine\<close>: the texture check comes before the test of the length.\<close>

definition drawLine' :: "engine \<Rightarrow> real \<Rightarrow> real \<Rightarrow> real \<Rightarrow> real \<Rightarrow> real \<Rightarrow> rgba \<Rightarrow> real \<Rightarrow> mat \<Rightarrow> engine" where
  "drawLine' e x1 y1 x2 y2 wd c al m =
     (let e1 = switchTexture e whiteTexture;
          dx = x2 - x1; dy = y2 - y1;
          len = sqrt (dx * dx + dy * dy)
      in if len \<le> 0 then e1
         else
           let nx = - dy / len * (wd / 2); ny = dx / len * (wd / 2);
               ofs = batchCount e1 * vertexCountPerSprite;
               e2 = addCornerVertices e1 ofs m (x1 + nx, y1 + ny) (x2 + nx, y2 + ny)
                      (x2 - nx, y2 - ny) (x1 - nx, y1 - ny) 0 0 1 1 al c
           in e2\<lparr>batchCount := batchCount e2 + 1\<rparr>)"

subsection \<open>Sequences of enqueuing calls\<close>

text \<open>The calls that enqueue textured quads, as values, and a run of them in order.\<close>

datatype drawop =
    OpDrawImage "nat option" image_args
  | OpDrawTexture texarg drawTextureArgs
  | OpDrawSpriteFast imgarg real real real real real real "real list option"
  | OpDrawRect real real real real rgba real

fun exec :: "engine \<Rightarrow> drawop \<Rightarrow> (error \<times> engine) + engine" where
  "exec e (OpDrawImage im args) = drawImage e im args"
| "exec e (OpDrawTexture info a) = drawTexture e info a"
| "exec e (OpDrawSpriteFast im x y w h rotation al tint) = drawSpriteFast e im x y w h rotation al tint"
| "exec e (OpDrawRect x y w h c al) = Inr (drawRect' e x y w h c al)"

fun run :: "engine \<Rightarrow> drawop list \<Rightarrow> (error \<times> engine) + engine" where
  "run e [] = Inr e"
| "run e (op # ops) = (case exec e op of Inl x \<Rightarrow> Inl x | Inr e' \<Rightarrow> run e' ops)"

text \<open>
  The texture a call compares with \<^verbatim>\<open>this.currentTexture\<close> when it runs in the engine
  \<open>e\<close>; \<open>None\<close> when the call returns before the comparison (a null image, or getTexture
  throws).
\<close>

definition resolvedTexture :: "texman \<Rightarrow> imgarg \<Rightarrow> resolved option" where
  "resolvedTexture t im =
     (case getTexture t im of Inl x \<Rightarrow> None | Inr (r, t') \<Rightarrow> Some r)"

fun op_texture :: "engine \<Rightarrow> drawop \<Rightarrow> texref option" where
  "op_texture e (OpDrawImage None args) = None"
| "op_texture e (OpDrawImage (Some i) args) = map_option textureOf (resolvedTexture (tm e) (ImageObj i))"
| "op_texture e (OpDrawTexture NoTex a) = None"
| "op_texture e (OpDrawTexture (TexHandle h) a) = Some (GLTex h)"
| "op_texture e (OpDrawTexture (TexInfo ti) a) = Some (ti_texture ti)"
| "op_texture e (OpDrawTexture (TexImage i) a) = map_option textureOf (resolvedTexture (tm e) (ImageObj i))"
| "op_texture e (OpDrawSpriteFast NoImage x y w h rotation al tint) = None"
| "op_texture e (OpDrawSpriteFast im x y w h rotation al tint) =
     map_option (\<lambda>r. case r of Info ti \<Rightarrow> ti_texture ti
                           | Raw t \<Rightarrow> if instanceofWebGLTexture t then t else whiteTexture)
       (resolvedTexture (tm e) im)"
| "op_texture e (OpDrawRect x y w h c al) = Some whiteTexture"

text \<open>The condition under which drawImage enqueues a shadow quad before the image quad.\<close>

definition shadowActive :: "rstate \<Rightarrow> bool" where
  "shadowActive s \<longleftrightarrow>
     shadowBlur s > 0 \<and> shadowColor s \<noteq> ''transparent'' \<and> shadowColor s \<noteq> ''rgba(0,0,0,0)''"

text \<open>The number of quads a call enqueues when it reaches its stores.\<close>

fun op_quads :: "engine \<Rightarrow> drawop \<Rightarrow> nat" where
  "op_quads e (OpDrawImage im args) = (if shadowActive (topState e) then 2 else 1)"
| "op_quads e (OpDrawTexture info a) = 1"
| "op_quads e (OpDrawSpriteFast im x y w h rotation al tint) = 1"
| "op_quads e (OpDrawRect x y w h c al) = 1"

text \<open>
  Along a run: every call returns and compares the texture \<open>T\<close>; the quads the calls enqueue;
  and the floats they store, each call's read from the arena when the call has returned.
\<close>

fun same_texture :: "texref \<Rightarrow> engine \<Rightarrow> drawop list \<Rightarrow> bool" where
  "same_texture T e [] = True"
| "same_texture T e (op # ops) =
     (op_texture e op = Some T
      \<and> (case exec e op of Inl x \<Rightarrow> False | Inr e' \<Rightarrow> same_texture T e' ops))"

fun quad_total :: "engine \<Rightarrow> drawop list \<Rightarrow> nat" where
  "quad_total e [] = 0"
| "quad_total e (op # ops) =
     op_quads e op + (case exec e op of Inl x \<Rightarrow> 0 | Inr e' \<Rightarrow> quad_total e' ops)"

fun stored :: "engine \<Rightarrow> drawop list \<Rightarrow> real list" where
  "stored e [] = []"
| "stored e (op # ops) =
     (case exec e op of
        Inl x \<Rightarrow> []
      | Inr e' \<Rightarrow>
          map (vertexData e') [batchCount e * vertexCountPerSprite ..<
                               (batchCount e + op_quads e op) * vertexCountPerSprite]
          @ stored e' ops)"

text \<open>The second engine differs from the first at most in the vertex arena.\<close>

definition arena_only :: "engine \<Rightarrow> engine \<Rightarrow> bool" where
  "arena_only e e' \<longleftrightarrow> e' = e\<lparr>vertexData := vertexData e'\<rparr>"

text \<open>
  What a call that enqueues \<open>n\<close> quads of the texture \<open>T\<close> without a flush does to the batch:
  the count grows by \<open>n\<close>, \<open>T\<close> is bound, nothing is submitted, the floats queued before
  are untouched, the state stack is as it was.
\<close>

definition enqueued :: "texref \<Rightarrow> nat \<Rightarrow> engine \<Rightarrow> engine \<Rightarrow> bool" where
  "enqueued T n e e' \<longleftrightarrow>
     batchCount e' = batchCount e + n \<and> currentTexture e' = Some T
     \<and> submissions e' = submissions e \<and> drawCallCount e' = drawCallCount e
     \<and> triangleCount e' = triangleCount e \<and> blendFunc e' = blendFunc e
     \<and> stateStack e' = stateStack e
     \<and> (\<forall>i < batchCount e * vertexCountPerSprite. vertexData e' i = vertexData e i)"

subsection \<open>The constructor\<close>

text \<open>
  The texture manager as the constructor leaves it (lines 56-67 and 93-106), for the value
  of \<^verbatim>\<open>gl.getParameter(gl.MAX_TEXTURE_SIZE)\<close> and the image sources of the page.
\<close>

definition newTexman :: "int \<Rightarrow> (nat \<Rightarrow> image) \<Rightarrow> texman" where
  "newTexman maxTextureSize imgs =
     (let maxTex = (if maxTextureSize = 0 then 2048 else maxTextureSize)
      in \<lparr>images = imgs, atlasCache = [],
          atlasX = 0, atlasY = 0, atlasRowHeight = 0,
          atlasSize = min maxTex 4096, atlasPadding = 2,
          textureCache = [], textureUsage = [], clock = 0,
          nextTexture = 3, deletedTextures = [], atlasUploads = [], textureUploads = []\<rparr>)"

text \<open>
  The engine as the constructor leaves it, for a canvas of the given size: an empty batch,
  the root state on the stack, its two colour arrays at the addresses 0 and 1.
\<close>

definition newEngine :: "real \<Rightarrow> real \<Rightarrow> (string \<Rightarrow> rgba) \<Rightarrow> texman \<Rightarrow> engine" where
  "newEngine canvasWidth canvasHeight parse t =
     (let e0 = \<lparr>width = canvasWidth, height = canvasHeight, dpr = 1,
                 batchCount = 0, currentTexture = None, vertexData = (\<lambda>k. 0),
                 drawCallCount = 0, triangleCount = 0,
                 submissions = [], blendFunc = (ONE, ONE_MINUS_SRC_ALPHA), clears = 0,
                 stateStack = [], statePool = [],
                 heap = (\<lambda>a. F32 []), heapNext = 0,
                 colorCache = [], cssParse = parse, tm = t\<rparr>;
          (root, e1) = createDefaultState e0
      in e1\<lparr>stateStack := [root]\<rparr>)"

text \<open>An image source of the given size that nothing has touched yet, and a page of them.\<close>

definition plainImage :: "int \<Rightarrow> int \<Rightarrow> image" where
  "plainImage w h =
     \<lparr>img_width = w, img_height = h, glTextureInfo = None, needsUpdate = False,
      isGLTexture = False, disableAutoAtlas = False, tainted = False\<rparr>"

definition demoEngine :: engine where
  "demoEngine = newEngine 800 600 (\<lambda>s. WHITE_RGBA) (newTexman 4096 (\<lambda>i. plainImage 1024 1024))"

subsection \<open>Predicates used to state the properties\<close>

text \<open>The second engine differs from the first at most in the store of style objects.\<close>

definition heap_only :: "engine \<Rightarrow> engine \<Rightarrow> bool" where
  "heap_only e e' \<longleftrightarrow> e' = e\<lparr>heap := heap e', heapNext := heapNext e'\<rparr>"

text \<open>The fields \<^verbatim>\<open>_copyState\<close> copies have the values of a default state, scaled by \<open>k\<close>.\<close>

definition is_reset :: "real \<Rightarrow> rstate \<Rightarrow> bool" where
  "is_reset k s \<longleftrightarrow>
     matrix s = (k, 0, 0, k, 0, 0) \<and> alpha s = 1 \<and> flash s = 0
     \<and> fillStyle s = StyleStr ''#ffffff'' \<and> strokeStyle s = StyleStr ''#000000''
     \<and> lineWidth s = 1 \<and> font s = ''20px Arial'' \<and> textAlign s = ''left''
     \<and> textBaseline s = ''alphabetic'' \<and> globalCompositeOperation s = ''source-over''
     \<and> shadowBlur s = 0 \<and> shadowColor s = ''transparent''"

text \<open>The blend function \<^verbatim>\<open>_updateBlendMode\<close> selects for a composite mode.\<close>

definition blendFor :: "string \<Rightarrow> blend_factor \<times> blend_factor" where
  "blendFor v =
     (if v = ''source-atop'' then (DST_ALPHA, ONE_MINUS_SRC_ALPHA)
      else if v = ''lighter'' \<or> v = ''screen'' \<or> v = ''additive'' then (ONE, ONE)
      else (ONE, ONE_MINUS_SRC_ALPHA))"

text \<open>The demo engine with one white rectangle queued.\<close>

definition demoQueued :: engine where
  "demoQueued = drawRect' demoEngine 0 0 10 10 WHITE_RGBA 1"

text \<open>
  The setters and transforms of the top state, as values, and a run of them that stops at the
  first one that throws.
\<close>

datatype setter =
    SetFillStyle style
  | SetStrokeStyle style
  | SetGlobalAlpha real
  | SetFlash bool
  | SetLineWidth real
  | SetShadowBlur real
  | SetShadowColor string
  | SetFont string
  | SetTextAlign string
  | SetTextBaseline string
  | SetLineCap string
  | SetLineJoin string
  | SetGlobalCompositeOperation string
  | Translate real real
  | Scale real real
  | Rotate real
  | SetTransform real real real real real real

fun apply_setter :: "engine \<Rightarrow> setter \<Rightarrow> (error \<times> engine) + engine" where
  "apply_setter e (SetFillStyle v) = set_fillStyle e v"
| "apply_setter e (SetStrokeStyle v) = set_strokeStyle e v"
| "apply_setter e (SetGlobalAlpha v) = Inr (set_globalAlpha e v)"
| "apply_setter e (SetFlash v) = Inr (set_flash e v)"
| "apply_setter e (SetLineWidth v) = Inr (set_lineWidth e v)"
| "apply_setter e (SetShadowBlur v) = Inr (set_shadowBlur e v)"
| "apply_setter e (SetShadowColor v) = Inr (set_shadowColor e v)"
| "apply_setter e (SetFont v) = Inr (set_font e v)"
| "apply_setter e (SetTextAlign v) = Inr (set_textAlign e v)"
| "apply_setter e (SetTextBaseline v) = Inr (set_textBaseline e v)"
| "apply_setter e (SetLineCap v) = Inr (set_lineCap e v)"
| "apply_setter e (SetLineJoin v) = Inr (set_lineJoin e v)"
| "apply_setter e (SetGlobalCompositeOperation v) = Inr (set_globalCompositeOperation e v)"
| "apply_setter e (Translate x y) = Inr (translate e x y)"
| "apply_setter e (Scale x y) = Inr (scale e x y)"
| "apply_setter e (Rotate a) = Inr (rotate e a)"
| "apply_setter e (SetTransform a b c d x y) = Inr (setTransform e a b c d x y)"

fun apply_setters :: "engine \<Rightarrow> setter list \<Rightarrow> (error \<times> engine) + engine" where
  "apply_setters e [] = Inr e"
| "apply_setters e (m # ms) =
     (case apply_setter e m of Inl x \<Rightarrow> Inl x | Inr e' \<Rightarrow> apply_setters e' ms)"

text \<open>
  The calls \<^verbatim>\<open>save(); fillStyle = [1, 0, 0, 1]; restore(); save()\<close>, the array being a new
  object of the caller.
\<close>

definition save_array_restore_save :: "engine \<Rightarrow> (error \<times> engine) + engine" where
  "save_array_restore_save e =
     (let (a, e1) = alloc e (Arr [1, 0, 0, 1])
      in case save e1 of
           Inl x \<Rightarrow> Inl x
         | Inr e2 \<Rightarrow>
             (case set_fillStyle e2 (StyleObj a) of
                Inl x \<Rightarrow> Inl x
              | Inr e3 \<Rightarrow> save (restore e3)))"

text \<open>
  The calls \<^verbatim>\<open>u = new Float32Array([0, 0, 1, 1]); save(); fillStyle = u; restore();
  fillStyle = u; save(); fillStyle = "#ff0000"; restore()\<close>; the result carries the address
  of \<^verbatim>\<open>u\<close>.
\<close>

definition shared_array_frame :: "engine \<Rightarrow> (error \<times> engine) + (nat \<times> engine)" where
  "shared_array_frame e =
     (let (u, e1) = alloc e (F32 [0, 0, 1, 1])
      in case save e1 of
           Inl x \<Rightarrow> Inl x
         | Inr e2 \<Rightarrow>
             (case set_fillStyle e2 (StyleObj u) of
                Inl x \<Rightarrow> Inl x
              | Inr e3 \<Rightarrow>
                  (case set_fillStyle (restore e3) (StyleObj u) of
                     Inl x \<Rightarrow> Inl x
                   | Inr e4 \<Rightarrow>
                       (case save e4 of
                          Inl x \<Rightarrow> Inl x
                        | Inr e5 \<Rightarrow>
                            (case set_fillStyle e5 (StyleStr ''#ff0000'') of
                               Inl x \<Rightarrow> Inl x
                             | Inr e6 \<Rightarrow> Inr (u, restore e6))))))"

text \<open>
  Three calls that draw the image 0 of the demo page (1024 by 1024, so it gets a texture of
  its own, the first fresh handle): drawImage, drawSpriteFast and drawTexture.
\<close>

definition demoSprites :: "drawop list" where
  "demoSprites =
     [OpDrawImage (Some 0) (Dest2 0 0),
      OpDrawSpriteFast (ImageObj 0) 50 50 20 20 0 1 None,
      OpDrawTexture (TexImage 0)
        \<lparr>dt_x = 5, dt_y = 5, dt_w = 10, dt_h = 10, dt_u0 = 0, dt_v0 = 0, dt_u1 = 1, dt_v1 = 1,
         dt_rotation = 0, dt_alpha = 1, dt_flipX = False, dt_flipY = False,
         dt_tintR = 1, dt_tintG = 1, dt_tintB = 1, dt_flash = 0\<rparr>]"

text \<open>
  The floats these three calls store on the new engine, quad by quad and vertex by vertex:
  position, texture coordinates, alpha, colour and flash value of each vertex.
\<close>

definition demoSpriteFloats :: "real list" where
  "demoSpriteFloats =
     [0, 0, 0, 0, 1, 1, 1, 1, 1,  1024, 0, 1, 0, 1, 1, 1, 1, 1,
      1024, 1024, 1, 1, 1, 1, 1, 1, 1,  0, 1024, 0, 1, 1, 1, 1, 1, 1,
      40, 40, 0, 0, 1, 1, 1, 1, 1,  60, 40, 1, 0, 1, 1, 1, 1, 1,
      60, 60, 1, 1, 1, 1, 1, 1, 1,  40, 60, 0, 1, 1, 1, 1, 1, 1,
      5, 5, 0, 0, 1, 1, 1, 1, 1,  15, 5, 1, 0, 1, 1, 1, 1, 1,
      15, 15, 1, 1, 1, 1, 1, 1, 1,  5, 15, 0, 1, 1, 1, 1, 1, 1]"

subsection \<open>What the page does between calls\<close>

text \<open>
  The application marks an image dirty (\<^verbatim>\<open>image._needsUpdate = true\<close>); a source becomes one
  that WebGL refuses (a canvas tainted by cross-origin content); a source changes its size;
  time passes.
\<close>

definition markDirty :: "texman \<Rightarrow> nat \<Rightarrow> texman" where
  "markDirty t i = t\<lparr>images := (images t)(i := (images t i)\<lparr>needsUpdate := True\<rparr>)\<rparr>"

definition taint :: "texman \<Rightarrow> nat \<Rightarrow> texman" where
  "taint t i = t\<lparr>images := (images t)(i := (images t i)\<lparr>tainted := True\<rparr>)\<rparr>"

text \<open>The page gives an image source another size (a canvas is resized).\<close>

definition resizeImage :: "texman \<Rightarrow> nat \<Rightarrow> int \<Rightarrow> int \<Rightarrow> texman" where
  "resizeImage t i w h = t\<lparr>images := (images t)(i := (images t i)\<lparr>img_width := w, img_height := h\<rparr>)\<rparr>"

definition advanceClock :: "texman \<Rightarrow> nat \<Rightarrow> texman" where
  "advanceClock t ms = t\<lparr>clock := clock t + ms\<rparr>"

text \<open>
  The page resolves images one after the other, a millisecond apart (each resolution is a
  call of its own, so a throw does not end the run).
\<close>

definition resolve1 :: "texman \<Rightarrow> nat \<Rightarrow> texman" where
  "resolve1 t i =
     advanceClock (case getTexture t (ImageObj i) of
                     Inl (err, t') \<Rightarrow> t'
                   | Inr (r, t') \<Rightarrow> t') 1"

definition resolveAll :: "texman \<Rightarrow> nat list \<Rightarrow> texman" where
  "resolveAll t is = foldl resolve1 t is"

text \<open>
  The demo page after the images \<open>0, ..., n - 1\<close> got textures of their own, and the
  texture manager after an eviction of the \<open>k\<close> oldest of them.
\<close>

definition ownInfo :: "nat \<Rightarrow> texinfo" where
  "ownInfo i = \<lparr>ti_texture = GLTex (3 + i), ti_uv = None, ti_width = 1024, ti_height = 1024\<rparr>"

definition filled :: "nat \<Rightarrow> texman" where
  "filled n =
     (newTexman 4096 (\<lambda>i. if i < n then (plainImage 1024 1024)\<lparr>glTextureInfo := Some (ownInfo i)\<rparr>
                           else plainImage 1024 1024))
       \<lparr>textureCache := map (\<lambda>i. (i, GLTex (3 + i))) [0 ..< n],
        textureUsage := map (\<lambda>i. (i, i)) [0 ..< n],
        clock := n, nextTexture := 3 + n,
        textureUploads := map (\<lambda>i. (GLTex (3 + i), i)) [0 ..< n]\<rparr>"

definition evicted :: "nat \<Rightarrow> nat \<Rightarrow> texman" where
  "evicted k n =
     (filled n)\<lparr>deletedTextures := map (\<lambda>i. GLTex (3 + i)) [0 ..< k],
                textureCache := map (\<lambda>i. (i, GLTex (3 + i))) [k ..< n],
                textureUsage := map (\<lambda>i. (i, i)) [k ..< n]\<rparr>"

text \<open>The texture manager of the demo page, and the demo engine with one sprite queued.\<close>

definition demoTexman :: texman where
  "demoTexman = newTexman 4096 (\<lambda>i. plainImage 1024 1024)"

definition demoSpriteQueued :: engine where
  "demoSpriteQueued =
     (case drawSpriteFast demoEngine (ImageObj 0) 50 50 20 20 0 1 None of
        Inl (err, e) \<Rightarrow> e
      | Inr e \<Rightarrow> e)"

subsection \<open>Rectangles of the atlas\<close>

text \<open>
  A UV rectangle lies in the unit square; two UV rectangles share interior points; the
  rectangles of a list are pairwise without common interior points.
\<close>

definition uv_within :: "uvrect \<Rightarrow> bool" where
  "uv_within r \<longleftrightarrow>
     0 \<le> uv_u0 r \<and> uv_u0 r \<le> uv_u1 r \<and> uv_u1 r \<le> 1
     \<and> 0 \<le> uv_v0 r \<and> uv_v0 r \<le> uv_v1 r \<and> uv_v1 r \<le> 1"

definition uv_overlap :: "uvrect \<Rightarrow> uvrect \<Rightarrow> bool" where
  "uv_overlap a b \<longleftrightarrow>
     uv_u0 a < uv_u1 b \<and> uv_u0 b < uv_u1 a \<and> uv_v0 a < uv_v1 b \<and> uv_v0 b < uv_v1 a"

fun disjoint_rects :: "uvrect list \<Rightarrow> bool" where
  "disjoint_rects [] = True"
| "disjoint_rects (r # rs) = ((\<forall>s \<in> set rs. \<not> uv_overlap r s) \<and> disjoint_rects rs)"

text \<open>
  A sequence of \<^verbatim>\<open>_addToAtlas\<close> calls, for the images of the given indices in order: the
  rectangles of the calls that returned one, in call order, and the state they leave.
\<close>

fun placeAll :: "texman \<Rightarrow> nat list \<Rightarrow> uvrect list \<times> texman" where
  "placeAll t [] = ([], t)"
| "placeAll t (i # is) =
     (case addToAtlas t i of
        (None, t1) \<Rightarrow> placeAll t1 is
      | (Some uv, t1) \<Rightarrow> (let (rs, t2) = placeAll t1 is in (uv # rs, t2)))"

text \<open>The image is not wider than the atlas, padding included.\<close>

definition fitsAtlas :: "texman \<Rightarrow> nat \<Rightarrow> bool" where
  "fitsAtlas t i \<longleftrightarrow> img_width (images t i) + atlasPadding t * 2 \<le> atlasSize t"

text \<open>
  The shelf invariant of the packer for the rectangles handed out so far: each of them lies
  in the unit square and, in pixels, either ends above the current row or lies in the current
  row left of the cursor; no two of them overlap.
\<close>

definition on_shelf :: "texman \<Rightarrow> uvrect \<Rightarrow> bool" where
  "on_shelf t r \<longleftrightarrow>
     uv_v1 r * real_of_int (atlasSize t) \<le> real_of_int (atlasY t)
     \<or> (real_of_int (atlasY t) \<le> uv_v0 r * real_of_int (atlasSize t)
        \<and> uv_v1 r * real_of_int (atlasSize t) \<le> real_of_int (atlasY t + atlasRowHeight t)
        \<and> uv_u1 r * real_of_int (atlasSize t) \<le> real_of_int (atlasX t))"

definition shelf_inv :: "texman \<Rightarrow> uvrect list \<Rightarrow> bool" where
  "shelf_inv t rs \<longleftrightarrow>
     atlasSize t > 0 \<and> atlasPadding t \<ge> 0 \<and> atlasX t \<ge> 0 \<and> atlasY t \<ge> 0
     \<and> atlasRowHeight t \<ge> 0
     \<and> (\<forall>r \<in> set rs. uv_within r \<and> on_shelf t r)
     \<and> disjoint_rects rs"

text \<open>The texture manager after a call of getTexture, whether it returned or threw.\<close>

definition afterGetTexture :: "texman \<Rightarrow> imgarg \<Rightarrow> texman" where
  "afterGetTexture t im =
     (case getTexture t im of Inl (err, t') \<Rightarrow> t' | Inr (r, t') \<Rightarrow> t')"

text \<open>The second state has the atlas of the first: its entries, its size and its cursor.\<close>

definition same_atlas :: "texman \<Rightarrow> texman \<Rightarrow> bool" where
  "same_atlas t t' \<longleftrightarrow>
     atlasCache t' = atlasCache t \<and> atlasSize t' = atlasSize t \<and> atlasPadding t' = atlasPadding t
     \<and> atlasX t' = atlasX t \<and> atlasY t' = atlasY t \<and> atlasRowHeight t' = atlasRowHeight t"

text \<open>Two sub-image writes into the atlas texture share pixels.\<close>

definition upload_overlap :: "nat \<times> int \<times> int \<times> int \<times> int \<Rightarrow> nat \<times> int \<times> int \<times> int \<times> int \<Rightarrow> bool" where
  "upload_overlap a b =
     (case a of (i, x, y, w, h) \<Rightarrow> case b of (j, x', y', w', h') \<Rightarrow>
        x < x' + w' \<and> x' < x + w \<and> y < y' + h' \<and> y' < y + h)"

text \<open>
  A page of sprites of 100 by 50 pixels after the images 0 and 1 were resolved, and the same
  page after image 0, a canvas, was resized to 300 by 50 and marked dirty.
\<close>

definition demoSmallSprites :: texman where
  "demoSmallSprites =
     afterGetTexture (afterGetTexture (newTexman 4096 (\<lambda>i. plainImage 100 50)) (ImageObj 0)) (ImageObj 1)"

definition demoResized :: texman where
  "demoResized = markDirty (resizeImage demoSmallSprites 0 300 50) 0"

section \<open>Properties\<close>

subsection \<open>The damage-number time window\<close>

lemma dn_main_sentinel_iff:
  assumes "a_timeParams a = (t0, d, base)"
  shows "dn_main u a = Some dn_sentinel
           \<longleftrightarrow> (u_currentTime u - t0 < - 0.05 \<or> u_currentTime u - t0 > d + 0.1)"
  using assms
  by (auto simp: dn_main_def dn_sentinel_def Let_def split: option.splits)

lemma dn_scale_envelope:
  assumes "d \<noteq> 0"
  shows "dn_scale base d t = Some (base * spec_envelope (t / d) * spec_pop t)"
proof -
  define p where "p = t / d"
  have "dn_scale base d t =
          Some (if t < 0.1
           then (if p < 0.2 then base * mix 0.3 1 (p / 0.2)
                 else if p > 0.7 then base * (1 - (p - 0.7) / 0.3) else base)
                * (1 + sin (t * 10 * 1.57) * 0.1)
           else (if p < 0.2 then base * mix 0.3 1 (p / 0.2)
                 else if p > 0.7 then base * (1 - (p - 0.7) / 0.3) else base))"
    unfolding dn_scale_def dn_progress_def p_def using assms
    by (simp only: if_False option.case Let_def)
  moreover have "(if p < 0.2 then base * mix 0.3 1 (p / 0.2)
                  else if p > 0.7 then base * (1 - (p - 0.7) / 0.3) else base)
                 = base * spec_envelope p"
    by (auto simp: spec_envelope_def mix_def field_simps)
  moreover have "(1 + sin (t * 10 * 1.57) * 0.1) = (1 + 0.1 * sin (15.7 * t))"
    by (simp add: mult.commute)
  ultimately show ?thesis
    by (simp add: spec_pop_def p_def)
qed

lemma dn_fade_range:
  assumes "0 < d" and "0 \<le> t" and "t \<le> d"
  shows "\<exists>f. dn_fade d t = Some f \<and> 0 \<le> f \<and> f \<le> 1"
proof -
  define p where "p = t / d"
  have p: "p \<le> 1" "0 \<le> p" using assms by (simp_all add: p_def)
  have "dn_fade d t = Some (if p > 0.7 then 1 - (p - 0.7) / 0.3 else 1)"
    using assms(1) by (simp add: dn_fade_def dn_progress_def p_def)
  moreover have "0 \<le> (if p > 0.7 then 1 - (p - 0.7) / 0.3 else 1)
               \<and> (if p > 0.7 then 1 - (p - 0.7) / 0.3 else 1) \<le> 1"
    using p by auto
  ultimately show ?thesis by blast
qed

lemma dn_position_defined:
  assumes "a_timeParams a = (t0, d, base)" and "d \<noteq> 0"
    and "fst (u_resolution u) \<noteq> 0" and "snd (u_resolution u) \<noteq> 0"
  shows "\<exists>p. dn_position u a t = Some p"
  using assms by (simp add: dn_position_def dn_scale_envelope Let_def)

lemma dn_main_inside:
  assumes tp: "a_timeParams a = (t0, d, base)"
    and d: "0 < d" and res: "fst (u_resolution u) \<noteq> 0" "snd (u_resolution u) \<noteq> 0"
    and al: "0 \<le> a_alpha a" "a_alpha a \<le> 1"
    and t: "t0 \<le> u_currentTime u" "u_currentTime u \<le> t0 + d"
  shows "\<exists>p vs. dn_main u a = Some \<lparr>gl_Position = p, varyings = Some vs\<rparr>
           \<and> dn_position u a (u_currentTime u - t0) = Some p
           \<and> 0 \<le> v_alpha vs \<and> v_alpha vs \<le> 1"
proof -
  define t' where "t' = u_currentTime u - t0"
  have t': "0 \<le> t'" "t' \<le> d" using t by (simp_all add: t'_def)
  have m: "max 0 t' = t'" using t' by simp
  have w: "\<not> (t' < - 0.05 \<or> t' > d + 0.1)" using t' by auto
  obtain p where p: "dn_position u a t' = Some p"
    using dn_position_defined[OF tp _ res, of t'] d by auto
  obtain f where f: "dn_fade d t' = Some f" "0 \<le> f" "f \<le> 1"
    using dn_fade_range[OF d t'] by blast
  obtain fl where fl: "dn_flash d t' = Some fl"
    using d by (simp add: dn_flash_def dn_progress_def)
  have eq: "dn_main u a = Some \<lparr>gl_Position = p,
               varyings = Some \<lparr>v_texCoord = a_texCoord a, v_alpha = f * a_alpha a,
                                 v_color = a_color a, v_flash = fl\<rparr>\<rparr>"
    using tp w m p f(1) fl unfolding dn_main_def t'_def[symmetric]
    by (simp add: Let_def t'_def[symmetric])
  have lo: "0 \<le> f * a_alpha a" using f al by simp
  have hi: "f * a_alpha a \<le> 1" using f al mult_mono [of f 1 "a_alpha a" 1] by simp
  let ?vs = "\<lparr>v_texCoord = a_texCoord a, v_alpha = f * a_alpha a,
                v_color = a_color a, v_flash = fl\<rparr>"
  have "dn_main u a = Some \<lparr>gl_Position = p, varyings = Some ?vs\<rparr>" by (rule eq)
  moreover have "dn_position u a (u_currentTime u - t0) = Some p" using p by (simp add: t'_def)
  moreover have "0 \<le> v_alpha ?vs \<and> v_alpha ?vs \<le> 1" using lo hi by simp
  ultimately show ?thesis by blast
qed

lemma spec_envelope_values:
  "spec_envelope 0 = 0.3" "spec_envelope 0.2 = 1" "spec_envelope 0.7 = 1" "spec_envelope 1 = 0"
  by (simp_all add: spec_envelope_def)

lemma sentinel_off_screen: "\<not> dn_on_screen (- 2, - 2, 0, 1)"
  by (simp add: dn_on_screen_def)

text \<open>
  Claim C8, as the code has it. The evaluator takes its early return, which writes the
  sentinel position \<open>(-2, -2, 0, 1)\<close> outside the visible square and nothing else, exactly
  when the elapsed time is below -0.05 or above the duration plus 0.1; so the glyph is at the
  sentinel position for every evaluation time before \<open>t0 - \<epsilon>\<close> or after \<open>t0 + d + \<epsilon>\<close>, for
  every \<open>\<epsilon>\<close> from 0.1 on. For a positive duration, a canvas with width and height and a
  glyph alpha in [0,1], every evaluation time in \<open>[t0, t0 + d]\<close> gives a result without a
  division by zero: the position of the motion formula, and an alpha in [0,1]. For a duration
  other than zero the scale is the base scale times the envelope of the specification (0.3
  to 1 over the first 20%, plateau, down to 0 over the last 30%) times the pop factor of the
  first 0.1 seconds. In the scenario (start 0, duration 1, size 24) the evaluation at time 0
  has scale 0.3 times the base scale and alpha 1; the evaluation at time 1.05 does not take
  the early return (1.05 is not above 1.1); the evaluation at time 1.15 does.
\<close>

theorem dn_time_window:
  assumes tp: "a_timeParams a = (t0, d, base)"
  shows "(dn_main u a = Some dn_sentinel
            \<longleftrightarrow> (u_currentTime u - t0 < - 0.05 \<or> u_currentTime u - t0 > d + 0.1))
       \<and> (\<forall>\<epsilon>. 0.1 \<le> \<epsilon> \<and> (u_currentTime u < t0 - \<epsilon> \<or> u_currentTime u > t0 + d + \<epsilon>)
            \<longrightarrow> map_option gl_Position (dn_main u a) = Some (-2, -2, 0, 1))
       \<and> \<not> dn_on_screen (-2, -2, 0, 1)
       \<and> (0 < d \<and> fst (u_resolution u) \<noteq> 0 \<and> snd (u_resolution u) \<noteq> 0
          \<and> 0 \<le> a_alpha a \<and> a_alpha a \<le> 1 \<and> t0 \<le> u_currentTime u \<and> u_currentTime u \<le> t0 + d
            \<longrightarrow> (\<exists>p vs. dn_main u a = Some \<lparr>gl_Position = p, varyings = Some vs\<rparr>
                   \<and> dn_position u a (u_currentTime u - t0) = Some p
                   \<and> 0 \<le> v_alpha vs \<and> v_alpha vs \<le> 1))
       \<and> (d \<noteq> 0 \<longrightarrow> (\<forall>t. dn_scale base d t = Some (base * spec_envelope (t / d) * spec_pop t)))
       \<and> (d \<noteq> 0 \<longrightarrow> dn_scale base d 0 = Some (0.3 * base))
       \<and> (\<forall>pos tex cx rgb.
             (\<exists>p. dn_main (scenario_uniforms 0) (scenario_attribs pos tex cx rgb)
                    = Some \<lparr>gl_Position = p,
                            varyings = Some \<lparr>v_texCoord = tex, v_alpha = 1, v_color = rgb, v_flash = 0.6\<rparr>\<rparr>
                  \<and> dn_position (scenario_uniforms 0) (scenario_attribs pos tex cx rgb) 0 = Some p)
           \<and> dn_scale (24 / 64) 1 0 = Some (0.3 * (24 / 64))
           \<and> dn_main (scenario_uniforms 1.05) (scenario_attribs pos tex cx rgb) \<noteq> Some dn_sentinel
           \<and> dn_main (scenario_uniforms 1.15) (scenario_attribs pos tex cx rgb) = Some dn_sentinel)"
proof -
  have w: "dn_main u a = Some dn_sentinel
            \<longleftrightarrow> (u_currentTime u - t0 < - 0.05 \<or> u_currentTime u - t0 > d + 0.1)"
    by (rule dn_main_sentinel_iff [OF tp])
  have out: "map_option gl_Position (dn_main u a) = Some (-2, -2, 0, 1)"
    if "0.1 \<le> \<epsilon> \<and> (u_currentTime u < t0 - \<epsilon> \<or> u_currentTime u > t0 + d + \<epsilon>)" for \<epsilon>
  proof -
    from that have "u_currentTime u - t0 < - 0.05 \<or> u_currentTime u - t0 > d + 0.1"
      by auto
    with w have "dn_main u a = Some dn_sentinel" by simp
    then show ?thesis by (simp add: dn_sentinel_def)
  qed
  have ins: "\<exists>p vs. dn_main u a = Some \<lparr>gl_Position = p, varyings = Some vs\<rparr>
                   \<and> dn_position u a (u_currentTime u - t0) = Some p
                   \<and> 0 \<le> v_alpha vs \<and> v_alpha vs \<le> 1"
    if h: "0 < d \<and> fst (u_resolution u) \<noteq> 0 \<and> snd (u_resolution u) \<noteq> 0
          \<and> 0 \<le> a_alpha a \<and> a_alpha a \<le> 1 \<and> t0 \<le> u_currentTime u \<and> u_currentTime u \<le> t0 + d"
    using dn_main_inside[OF tp, of u] h by blast
  have sc: "\<forall>t. dn_scale base d t = Some (base * spec_envelope (t / d) * spec_pop t)" if "d \<noteq> 0"
    using that by (simp add: dn_scale_envelope)
  have s0: "dn_scale base d 0 = Some (0.3 * base)" if "d \<noteq> 0"
    using that by (simp add: dn_scale_envelope spec_envelope_def spec_pop_def)
  have scen: "(\<exists>p. dn_main (scenario_uniforms 0) (scenario_attribs pos tex cx rgb)
                    = Some \<lparr>gl_Position = p,
                            varyings = Some \<lparr>v_texCoord = tex, v_alpha = 1, v_color = rgb, v_flash = 0.6\<rparr>\<rparr>
                  \<and> dn_position (scenario_uniforms 0) (scenario_attribs pos tex cx rgb) 0 = Some p)
           \<and> dn_scale (24 / 64) 1 0 = Some (0.3 * (24 / 64))
           \<and> dn_main (scenario_uniforms 1.05) (scenario_attribs pos tex cx rgb) \<noteq> Some dn_sentinel
           \<and> dn_main (scenario_uniforms 1.15) (scenario_attribs pos tex cx rgb) = Some dn_sentinel"
    for pos tex cx rgb
  proof -
    let ?A = "scenario_attribs pos tex cx rgb"
    have tpA: "a_timeParams ?A = (0, 1, 24 / 64)" by (simp add: scenario_attribs_def)
    obtain p where p: "dn_position (scenario_uniforms 0) ?A 0 = Some p"
      using dn_position_defined[OF tpA, of "scenario_uniforms 0" 0]
      by (auto simp: scenario_uniforms_def)
    have a: "dn_main (scenario_uniforms 0) ?A
                    = Some \<lparr>gl_Position = p,
                            varyings = Some \<lparr>v_texCoord = tex, v_alpha = 1, v_color = rgb, v_flash = 0.6\<rparr>\<rparr>"
      using p
      by (simp add: dn_main_def dn_fade_def dn_flash_def dn_progress_def Let_def
          scenario_uniforms_def scenario_attribs_def)
    have b: "dn_scale (24 / 64) 1 0 = Some (0.3 * (24 / 64))"
      by (simp add: dn_scale_envelope spec_envelope_def spec_pop_def)
    have c: "dn_main (scenario_uniforms 1.05) ?A \<noteq> Some dn_sentinel"
      using dn_main_sentinel_iff[OF tpA, of "scenario_uniforms 1.05"]
      by (simp add: scenario_uniforms_def)
    have d: "dn_main (scenario_uniforms 1.15) ?A = Some dn_sentinel"
      using dn_main_sentinel_iff[OF tpA, of "scenario_uniforms 1.15"]
      by (simp add: scenario_uniforms_def)
    show ?thesis using a p b c d by blast
  qed
  show ?thesis
    using w out ins sc s0 scen sentinel_off_screen by blast
qed

theorem dn_time_window_witness:
  "a_timeParams (scenario_attribs (- 8, - 46.5) (0, 0) (- 36) (1, 1, 1)) = (0, 1, 24 / 64)
   \<and> dn_main (scenario_uniforms 1.15) (scenario_attribs (- 8, - 46.5) (0, 0) (- 36) (1, 1, 1))
       = Some dn_sentinel
   \<and> (\<exists>p vs. dn_main (scenario_uniforms 0.5)
               (scenario_attribs (- 8, - 46.5) (0, 0) (- 36) (1, 1, 1))
                 = Some \<lparr>gl_Position = p, varyings = Some vs\<rparr>
          \<and> 0 \<le> v_alpha vs \<and> v_alpha vs \<le> 1)
   \<and> dn_scale (24 / 64) 1 0.5 = Some (24 / 64)"
proof -
  let ?a = "scenario_attribs (- 8, - 46.5) (0, 0) (- 36) (1, 1, 1)"
  have tp: "a_timeParams ?a = (0, 1, 24 / 64)"
    by (simp add: scenario_attribs_def)
  have al: "a_alpha ?a = 1"
    by (simp add: scenario_attribs_def)
  have t1: "u_currentTime (scenario_uniforms 1.15) = 1.15"
    and t2: "u_currentTime (scenario_uniforms 0.5) = 0.5"
    and r: "u_resolution (scenario_uniforms 0.5) = (800, 600)"
    by (simp_all add: scenario_uniforms_def)
  have a: "dn_main (scenario_uniforms 1.15) ?a = Some dn_sentinel"
    using dn_time_window [OF tp, of "scenario_uniforms 1.15"] t1 by simp
  have b: "\<exists>p vs. dn_main (scenario_uniforms 0.5) ?a = Some \<lparr>gl_Position = p, varyings = Some vs\<rparr>
          \<and> 0 \<le> v_alpha vs \<and> v_alpha vs \<le> 1"
    using dn_time_window [OF tp, of "scenario_uniforms 0.5"] t2 al r by auto
  have "dn_scale (24 / 64) 1 0.5 = Some (24 / 64 * spec_envelope (0.5 / 1) * spec_pop 0.5)"
    using dn_time_window [OF tp, of "scenario_uniforms 0.5"] by simp
  then have c: "dn_scale (24 / 64) 1 0.5 = Some (24 / 64)"
    by (simp add: spec_envelope_def spec_pop_def)
  show ?thesis using tp a b c by blast
qed

text \<open>
  Where the claim as stated fails. In its scenario the glyph is not at the sentinel position
  at evaluation time 1.05. A glyph inside its time window need not be on screen: one that
  starts far from the camera is evaluated to a position outside the visible square (here to
  the very coordinates of the sentinel). For a duration of zero the evaluation at the spawn
  time divides by zero. The written alpha is the glyph's alpha times the fade, so it leaves
  [0,1] with the glyph's alpha. During the first 0.1 seconds the scale is not the base scale
  times the envelope: the pop factor is above 1. For a duration of zero the scale, and for a
  canvas without width the position, are quotients by zero.
\<close>

theorem dn_claim_counterexample:
  "map_option gl_Position (dn_main (scenario_uniforms 1.05)
       (scenario_attribs (- 8, - 46.5) (0, 0) (- 36) (1, 1, 1))) \<noteq> Some (- 2, - 2, 0, 1)
   \<and> dn_main (scenario_uniforms 0.5)
        \<lparr>a_posOffset = (0, 0), a_texCoord = (0, 0), a_startPos = (- 800, 500),
         a_charOffset = (0, 0), a_velocity = (0, 0), a_timeParams = (0, 1, 24 / 64),
         a_color = (1, 1, 1), a_alpha = 1\<rparr>
       = Some \<lparr>gl_Position = (- 2, - 2, 0, 1),
               varyings = Some \<lparr>v_texCoord = (0, 0), v_alpha = 1, v_color = (1, 1, 1), v_flash = 0\<rparr>\<rparr>
   \<and> \<not> dn_on_screen (- 2, - 2, 0, 1)
   \<and> dn_main (scenario_uniforms 0)
        ((scenario_attribs (- 8, - 46.5) (0, 0) (- 36) (1, 1, 1))\<lparr>a_timeParams := (0, 0, 24 / 64)\<rparr>)
       = None
   \<and> map_option (map_option v_alpha \<circ> varyings) (dn_main (scenario_uniforms 0)
        ((scenario_attribs (- 8, - 46.5) (0, 0) (- 36) (1, 1, 1))\<lparr>a_alpha := 2\<rparr>))
       = Some (Some 2)
   \<and> dn_scale (24 / 64) 1 0.05 \<noteq> Some (24 / 64 * spec_envelope (0.05 / 1))
   \<and> dn_scale (24 / 64) 0 0 = None
   \<and> dn_main ((scenario_uniforms 0.5)\<lparr>u_resolution := (0, 600)\<rparr>)
        (scenario_attribs (- 8, - 46.5) (0, 0) (- 36) (1, 1, 1)) = None"
proof -
  let ?A = "scenario_attribs (- 8, - 46.5) (0, 0) (- 36) (1, 1, 1)"
  have tp: "a_timeParams ?A = (0, 1, 24 / 64)" by (simp add: scenario_attribs_def)
  have a: "map_option gl_Position (dn_main (scenario_uniforms 1.05) ?A) \<noteq> Some (- 2, - 2, 0, 1)"
    by (simp add: dn_main_def dn_position_def dn_scale_def dn_fade_def dn_flash_def
        dn_progress_def Let_def scenario_uniforms_def scenario_attribs_def)
  have b: "dn_main (scenario_uniforms 0.5)
        \<lparr>a_posOffset = (0, 0), a_texCoord = (0, 0), a_startPos = (- 800, 500),
         a_charOffset = (0, 0), a_velocity = (0, 0), a_timeParams = (0, 1, 24 / 64),
         a_color = (1, 1, 1), a_alpha = 1\<rparr>
       = Some \<lparr>gl_Position = (- 2, - 2, 0, 1),
               varyings = Some \<lparr>v_texCoord = (0, 0), v_alpha = 1, v_color = (1, 1, 1), v_flash = 0\<rparr>\<rparr>"
    by (simp add: dn_main_def dn_position_def dn_scale_def dn_fade_def dn_flash_def
        dn_progress_def Let_def scenario_uniforms_def)
  have c: "dn_main (scenario_uniforms 0) (?A\<lparr>a_timeParams := (0, 0, 24 / 64)\<rparr>) = None"
    by (simp add: dn_main_def dn_position_def dn_scale_def dn_fade_def dn_flash_def
        dn_progress_def Let_def scenario_uniforms_def scenario_attribs_def)
  have d: "map_option (map_option v_alpha \<circ> varyings) (dn_main (scenario_uniforms 0)
        (?A\<lparr>a_alpha := 2\<rparr>)) = Some (Some 2)"
    by (simp add: dn_main_def dn_position_def dn_scale_def dn_fade_def dn_flash_def
        dn_progress_def Let_def scenario_uniforms_def scenario_attribs_def)
  have "0 < sin (0.785 :: real)"
    using pi_ge_two by (intro sin_gt_zero) simp_all
  then have e: "dn_scale (24 / 64) 1 0.05 \<noteq> Some (24 / 64 * spec_envelope (0.05 / 1))"
    by (simp add: dn_scale_envelope spec_pop_def spec_envelope_def)
  have f: "dn_scale (24 / 64) 0 0 = None"
    by (simp add: dn_scale_def dn_progress_def)
  have g: "dn_main ((scenario_uniforms 0.5)\<lparr>u_resolution := (0, 600)\<rparr>) ?A = None"
    by (simp add: dn_main_def dn_position_def dn_scale_def dn_fade_def dn_flash_def
        dn_progress_def Let_def scenario_uniforms_def scenario_attribs_def)
  show ?thesis using a b c d e f g sentinel_off_screen by blast
qed

subsection \<open>The render state stack: frames, reset and clearRect\<close>

declare pop_to_root.simps [simp del]

lemma heap_only_refl [simp]: "heap_only e e"
  by (simp add: heap_only_def)

lemma heap_only_trans: "heap_only a b \<Longrightarrow> heap_only b c \<Longrightarrow> heap_only a c"
  unfolding heap_only_def
  by (metis (no_types, lifting) engine.surjective engine.update_convs(14) engine.update_convs(15))

lemma heap_only_upd [simp]: "heap_only e (e\<lparr>heap := h, heapNext := n\<rparr>)" "heap_only e (e\<lparr>heap := h\<rparr>)"
  by (simp_all add: heap_only_def)

lemma heap_only_fields:
  assumes "heap_only e e'"
  shows "width e' = width e" "height e' = height e" "dpr e' = dpr e"
    "batchCount e' = batchCount e" "currentTexture e' = currentTexture e"
    "vertexData e' = vertexData e" "drawCallCount e' = drawCallCount e"
    "triangleCount e' = triangleCount e" "submissions e' = submissions e"
    "blendFunc e' = blendFunc e" "clears e' = clears e" "stateStack e' = stateStack e"
    "statePool e' = statePool e" "colorCache e' = colorCache e" "cssParse e' = cssParse e"
    "tm e' = tm e"
  using assms unfolding heap_only_def
  by (metis engine.select_convs engine.surjective engine.update_convs(14) engine.update_convs(15))+

lemma alloc_heap_only: "alloc e ob = (a, e') \<Longrightarrow> heap_only e e'"
  by (auto simp: alloc_def)

lemma callSet_Inr_heap_only: "callSet e a src = Inr e' \<Longrightarrow> heap_only e e'"
  by (auto simp: callSet_def split: obj.splits if_splits)

lemma callSet_Inl_same: "callSet e a src = Inl (err, e') \<Longrightarrow> e' = e"
  by (auto simp: callSet_def split: obj.splits if_splits)

lemma copyRGBA_Inr_heap_only: "copyRGBA e src dst = Inr (a, e') \<Longrightarrow> heap_only e e'"
  by (auto simp: copyRGBA_def alloc_def Let_def split: if_splits sum.splits prod.splits
      dest!: callSet_Inr_heap_only elim: heap_only_trans[rotated])

lemma copyRGBA_Inl_heap_only: "copyRGBA e src dst = Inl (err, a, e') \<Longrightarrow> heap_only e e'"
  by (auto simp: copyRGBA_def alloc_def Let_def split: if_splits sum.splits prod.splits
      dest!: callSet_Inl_same)

lemma copyState_Inr:
  assumes "copyState e from to = Inr (to', e')"
  shows "heap_only e e'"
    and "to' = to\<lparr>matrix := matrix from, alpha := alpha from, flash := flash from,
                  fillStyle := fillStyle from, fillStyleRGBA := fillStyleRGBA to',
                  strokeStyle := strokeStyle from, strokeStyleRGBA := strokeStyleRGBA to',
                  lineWidth := lineWidth from, font := font from,
                  textAlign := textAlign from, textBaseline := textBaseline from,
                  globalCompositeOperation := globalCompositeOperation from,
                  shadowBlur := shadowBlur from, shadowColor := shadowColor from\<rparr>"
proof -
  from assms obtain a e1 b where
    1: "copyRGBA e (fillStyleRGBA from) (fillStyleRGBA to) = Inr (a, e1)" and
    2: "copyRGBA e1 (strokeStyleRGBA from) (strokeStyleRGBA to) = Inr (b, e')" and
    3: "to' = to\<lparr>matrix := matrix from, alpha := alpha from, flash := flash from,
                  fillStyle := fillStyle from, fillStyleRGBA := a,
                  strokeStyle := strokeStyle from, strokeStyleRGBA := b,
                  lineWidth := lineWidth from, font := font from,
                  textAlign := textAlign from, textBaseline := textBaseline from,
                  globalCompositeOperation := globalCompositeOperation from,
                  shadowBlur := shadowBlur from, shadowColor := shadowColor from\<rparr>"
    by (auto simp: copyState_def Let_def split: sum.splits prod.splits)
  from copyRGBA_Inr_heap_only[OF 1] copyRGBA_Inr_heap_only[OF 2]
  show "heap_only e e'" by (rule heap_only_trans)
  from 3 show "to' = to\<lparr>matrix := matrix from, alpha := alpha from, flash := flash from,
                  fillStyle := fillStyle from, fillStyleRGBA := fillStyleRGBA to',
                  strokeStyle := strokeStyle from, strokeStyleRGBA := strokeStyleRGBA to',
                  lineWidth := lineWidth from, font := font from,
                  textAlign := textAlign from, textBaseline := textBaseline from,
                  globalCompositeOperation := globalCompositeOperation from,
                  shadowBlur := shadowBlur from, shadowColor := shadowColor from\<rparr>"
    by simp
qed

lemma copyState_Inl_heap_only:
  assumes "copyState e from to = Inl (err, partial, e')"
  shows "heap_only e e'"
  using assms
  by (auto simp: copyState_def Let_def split: sum.splits prod.splits
      dest!: copyRGBA_Inl_heap_only copyRGBA_Inr_heap_only elim: heap_only_trans)

lemma createDefaultState_facts:
  assumes "createDefaultState e = (s, e')"
  shows "heap_only e e'" and "is_reset 1 s"
  using assms by (auto simp: createDefaultState_def alloc_def Let_def is_reset_def)

lemma pop_to_root_eq: "pop_to_root s p = (take 1 s, p @ rev (drop 1 s))"
proof (induction s p rule: pop_to_root.induct)
  case (1 stack pool)
  show ?case
  proof (cases "length stack > 1")
    case True
    then have ne: "stack \<noteq> []" by auto
    have a: "take 1 (butlast stack) = take 1 stack"
      using True by (cases stack) (auto simp: take_Suc_conv_app_nth)
    obtain xs y where xy: "stack = xs @ [y]" "xs \<noteq> []"
      using True by (cases stack rule: rev_cases) auto
    have "drop 1 stack = drop 1 (butlast stack) @ [last stack]"
      using xy by (cases xs) auto
    then have b: "rev (drop 1 stack) = last stack # rev (drop 1 (butlast stack))" by simp
    show ?thesis
      using True 1 a b by (subst pop_to_root.simps) simp
  next
    case False
    then show ?thesis
      by (subst pop_to_root.simps) (cases stack; simp)
  qed
qed

lemma topState_set [simp]: "topState (set_topState e s) = s"
  by (simp add: topState_def set_topState_def)

lemma flush_fields [simp]:
  "batchCount (flush e) = 0"
  "stateStack (flush e) = stateStack e"
  "statePool (flush e) = statePool e"
  "heap (flush e) = heap e"
  "heapNext (flush e) = heapNext e"
  "blendFunc (flush e) = blendFunc e"
  "clears (flush e) = clears e"
  "dpr (flush e) = dpr e"
  "width (flush e) = width e"
  "height (flush e) = height e"
  "tm (flush e) = tm e"
  "colorCache (flush e) = colorCache e"
  "cssParse (flush e) = cssParse e"
  "vertexData (flush e) = vertexData e"
  by (simp_all add: flush_def)

lemma flush_empty: "batchCount e = 0 \<Longrightarrow> flush e = e"
  by (simp add: flush_def)

lemma flush_nonempty:
  "batchCount e > 0 \<Longrightarrow>
   submissions (flush e) = submissions e @
     [\<lparr>d_texture = boundTexture e,
       d_vertices = map (vertexData e) [0 ..< batchCount e * vertexCountPerSprite],
       d_count = batchCount e * indicesPerSprite,
       d_blend = blendFunc e\<rparr>]
   \<and> drawCallCount (flush e) = drawCallCount e + 1
   \<and> triangleCount (flush e) = triangleCount e + batchCount e * 2
   \<and> currentTexture (flush e) = None"
  by (simp add: flush_def)

lemma topState_flush [simp]: "topState (flush e) = topState e"
  by (simp add: topState_def)

lemma resetState_Inr:
  assumes "resetState e = Inr e'"
  shows "batchCount e' = 0 \<and> currentTexture e' = None
       \<and> (\<exists>root. stateStack e' = [root] \<and> is_reset (if dpr e = 0 then 1 else dpr e) root)
       \<and> statePool e' = statePool e @ rev (drop 1 (stateStack e))
       \<and> blendFunc e' = (ONE, ONE_MINUS_SRC_ALPHA)
       \<and> submissions e' = submissions e \<and> clears e' = clears e"
proof -
  define e2 where "e2 = e\<lparr>batchCount := 0, currentTexture := None,
      stateStack := take 1 (stateStack e), statePool := statePool e @ rev (drop 1 (stateStack e))\<rparr>"
  obtain fresh e3 where cd: "createDefaultState e2 = (fresh, e3)" by force
  note d = createDefaultState_facts[OF cd]
  from assms obtain root1 e4 where
    cs: "copyState e3 fresh (hd (stateStack e2)) = Inr (root1, e4)"
    and res: "e' = updateBlendMode (set_globalCompositeOperation
           (e4\<lparr>stateStack := (case matrix root1 of (m0, m1, m2, m3, m4, m5) \<Rightarrow>
                            root1\<lparr>matrix := (if dpr e4 = 0 then 1 else dpr e4, m1, m2, if dpr e4 = 0 then 1 else dpr e4, m4, m5)\<rparr>) # tl (stateStack e4)\<rparr>) ''source-over'')"
    using cd unfolding resetState_def Let_def pop_to_root_eq e2_def
    by (auto split: sum.splits prod.splits)
  note f = copyState_Inr[OF cs]
  have ho: "heap_only e2 e4" using d(1) f(1) by (rule heap_only_trans)
  note g = heap_only_fields[OF ho]
  have tl: "tl (stateStack e4) = []"
    by (simp add: g e2_def tl_take)
  have r1: "is_reset 1 root1"
    using d(2) by (subst f(2)) (simp add: is_reset_def)
  define k where "k = (if dpr e = 0 then 1 else dpr e)"
  have dk: "(if dpr e4 = 0 then 1 else dpr e4) = k"
    by (simp add: g e2_def k_def)
  define root2 where "root2 = root1\<lparr>matrix := (k, 0, 0, k, 0, 0)\<rparr>"
  have r2: "is_reset k root2" using r1 by (simp add: is_reset_def root2_def)
  have st: "(case matrix root1 of (m0, m1, m2, m3, m4, m5) \<Rightarrow>
                            root1\<lparr>matrix := (k, m1, m2, k, m4, m5)\<rparr>) = root2"
    using r1 by (simp add: is_reset_def root2_def)
  define e5 where "e5 = e4\<lparr>stateStack := [root2]\<rparr>"
  have res': "e' = updateBlendMode (set_globalCompositeOperation e5 ''source-over'')"
    using res unfolding dk st tl e5_def by simp
  have "topState e5 = root2" by (simp add: topState_def e5_def)
  then have sg: "set_globalCompositeOperation e5 ''source-over'' = e5"
    using r2 by (simp add: set_globalCompositeOperation_def is_reset_def)
  have gg: "get_globalCompositeOperation e5 = ''source-over''"
    using r2 \<open>topState e5 = root2\<close> by (simp add: get_globalCompositeOperation_def is_reset_def)
  have fin: "e' = e5\<lparr>blendFunc := (ONE, ONE_MINUS_SRC_ALPHA)\<rparr>"
    unfolding res' sg using gg by (simp add: updateBlendMode_def)
  show ?thesis
    unfolding fin e5_def using r2 by (simp add: g e2_def k_def)
qed

lemma resetState_Inl:
  assumes "resetState e = Inl (err, e')"
  shows "batchCount e' = 0 \<and> currentTexture e' = None
       \<and> submissions e' = submissions e \<and> clears e' = clears e"
proof -
  define e2 where "e2 = e\<lparr>batchCount := 0, currentTexture := None,
      stateStack := take 1 (stateStack e), statePool := statePool e @ rev (drop 1 (stateStack e))\<rparr>"
  obtain fresh e3 where cd: "createDefaultState e2 = (fresh, e3)" by force
  note d = createDefaultState_facts[OF cd]
  from assms obtain partial e4 where
    cs: "copyState e3 fresh (hd (stateStack e2)) = Inl (err, partial, e4)"
    and res: "e' = e4\<lparr>stateStack := partial # tl (stateStack e4)\<rparr>"
    using cd unfolding resetState_def Let_def pop_to_root_eq e2_def
    by (auto split: sum.splits prod.splits)
  have ho: "heap_only e2 e4"
    using d(1) copyState_Inl_heap_only[OF cs] by (rule heap_only_trans)
  note g = heap_only_fields[OF ho]
  show ?thesis unfolding res by (simp add: g e2_def)
qed

lemma clear_Inr:
  assumes "clear e = Inr e'"
  shows "clears e' = clears e + 1 \<and> submissions e' = submissions (flush e)
       \<and> batchCount e' = 0 \<and> currentTexture e' = None
       \<and> (\<exists>root. stateStack e' = [root] \<and> is_reset (if dpr e = 0 then 1 else dpr e) root)
       \<and> statePool e' = statePool e @ rev (drop 1 (stateStack e))
       \<and> blendFunc e' = (ONE, ONE_MINUS_SRC_ALPHA)"
proof -
  have "resetState ((flush e)\<lparr>clears := clears (flush e) + 1\<rparr>) = Inr e'"
    using assms by (simp add: clear_def Let_def)
  from resetState_Inr[OF this] show ?thesis by auto
qed

lemma clear_Inl:
  assumes "clear e = Inl (err, e')"
  shows "clears e' = clears e + 1 \<and> submissions e' = submissions (flush e)
       \<and> batchCount e' = 0 \<and> currentTexture e' = None"
proof -
  have "resetState ((flush e)\<lparr>clears := clears (flush e) + 1\<rparr>) = Inl (err, e')"
    using assms by (simp add: clear_def Let_def)
  from resetState_Inl[OF this] show ?thesis by auto
qed

lemma covers_nonzero: "r \<noteq> 0 \<Longrightarrow> covers w ext r t = (w \<ge> ext / r - t)"
  by (simp add: covers_def)

text \<open>
  Claim C10. clearRect returns without any change unless \<open>x \<le> 1\<close>, \<open>y \<le> 1\<close> and the
  width and the height reach the canvas size in CSS pixels minus 1 (for a non-zero \<open>dpr\<close>:
  \<open>w \<ge> width / dpr - 1\<close> and \<open>h \<ge> height / dpr - 1\<close>); in that case it is \<open>clear\<close>: the
  pending batch is flushed, the colour buffer cleared once, the batch and the bound texture
  reset, every state above the root moved to the pool and the root reset to the default
  values, scaled by \<open>dpr\<close>; when the reset throws, the flush and the clear have happened.
\<close>

theorem clearRect_gate:
  "(\<not> (x \<le> 1 \<and> y \<le> 1 \<and> covers w (width e) (dpr e) 1 \<and> covers h (height e) (dpr e) 1)
      \<longrightarrow> clearRect e x y w h = Inr e)
   \<and> (x \<le> 1 \<and> y \<le> 1 \<and> covers w (width e) (dpr e) 1 \<and> covers h (height e) (dpr e) 1
      \<longrightarrow> clearRect e x y w h = clear e)
   \<and> (dpr e \<noteq> 0 \<longrightarrow>
        covers w (width e) (dpr e) 1 = (w \<ge> width e / dpr e - 1)
      \<and> covers h (height e) (dpr e) 1 = (h \<ge> height e / dpr e - 1))
   \<and> (\<forall>e'. clear e = Inr e' \<longrightarrow>
          clears e' = clears e + 1 \<and> submissions e' = submissions (flush e)
        \<and> batchCount e' = 0 \<and> currentTexture e' = None
        \<and> (\<exists>root. stateStack e' = [root] \<and> is_reset (if dpr e = 0 then 1 else dpr e) root)
        \<and> statePool e' = statePool e @ rev (drop 1 (stateStack e))
        \<and> blendFunc e' = (ONE, ONE_MINUS_SRC_ALPHA))
   \<and> (\<forall>err e'. clear e = Inl (err, e') \<longrightarrow>
          clears e' = clears e + 1 \<and> submissions e' = submissions (flush e)
        \<and> batchCount e' = 0 \<and> currentTexture e' = None)"
proof -
  have a: "\<not> (x \<le> 1 \<and> y \<le> 1 \<and> covers w (width e) (dpr e) 1 \<and> covers h (height e) (dpr e) 1)
      \<longrightarrow> clearRect e x y w h = Inr e"
    by (auto simp: clearRect_def)
  have b: "x \<le> 1 \<and> y \<le> 1 \<and> covers w (width e) (dpr e) 1 \<and> covers h (height e) (dpr e) 1
      \<longrightarrow> clearRect e x y w h = clear e"
    by (auto simp: clearRect_def)
  have c: "dpr e \<noteq> 0 \<longrightarrow>
        covers w (width e) (dpr e) 1 = (w \<ge> width e / dpr e - 1)
      \<and> covers h (height e) (dpr e) 1 = (h \<ge> height e / dpr e - 1)"
    by (simp add: covers_nonzero)
  show ?thesis
    using a b c clear_Inr[of e] clear_Inl[of e] by blast
qed

lemma demo_clear: "\<exists>e'. clear demoEngine = Inr e'"
  by (simp add: demoEngine_def newEngine_def newTexman_def clear_def resetState_def flush_def
      createDefaultState_def alloc_def Let_def pop_to_root_eq copyState_def copyRGBA_def
      isGradient_def lengthIs4_def callSet_def elements_def set_globalCompositeOperation_def
      topState_def updateBlendMode_def get_globalCompositeOperation_def)

theorem clearRect_gate_witness:
  "clearRect demoEngine 0 0 10 10 = Inr demoEngine
   \<and> (\<exists>e'. clearRect demoEngine 0 0 800 600 = Inr e' \<and> clears e' = 1 \<and> batchCount e' = 0
           \<and> length (stateStack e') = 1)"
proof -
  have f: "width demoEngine = 800" "height demoEngine = 600" "dpr demoEngine = 1"
    "clears demoEngine = 0"
    by (simp_all add: demoEngine_def newEngine_def createDefaultState_def alloc_def Let_def)
  have a: "clearRect demoEngine 0 0 10 10 = Inr demoEngine"
    using clearRect_gate[of 0 0 10 demoEngine 10] by (simp add: f covers_def)
  have b: "clearRect demoEngine 0 0 800 600 = clear demoEngine"
    using clearRect_gate[of 0 0 800 demoEngine 600] by (simp add: f covers_def)
  obtain e' where c: "clear demoEngine = Inr e'" using demo_clear by blast
  have "clears e' = 1 \<and> batchCount e' = 0 \<and> length (stateStack e') = 1"
    using clearRect_gate[of 0 0 800 demoEngine 600] c f by auto
  then show ?thesis using a b c by simp
qed

subsection \<open>The composite mode and the style setters\<close>

lemma updateBlendMode_fields [simp]:
  "batchCount (updateBlendMode e) = batchCount e"
  "submissions (updateBlendMode e) = submissions e"
  "stateStack (updateBlendMode e) = stateStack e"
  "currentTexture (updateBlendMode e) = currentTexture e"
  "blendFunc (updateBlendMode e) = blendFor (get_globalCompositeOperation e)"
  by (simp_all add: updateBlendMode_def blendFor_def Let_def)

lemma topState_updateBlendMode [simp]: "topState (updateBlendMode e) = topState e"
  by (simp add: topState_def)

lemma set_top_fields [simp]:
  "batchCount (set_topState e s) = batchCount e"
  "submissions (set_topState e s) = submissions e"
  "currentTexture (set_topState e s) = currentTexture e"
  "blendFunc (set_topState e s) = blendFunc e"
  by (simp_all add: set_topState_def)

lemma blendFor_empty: "blendFor (if v = [] then ''source-over'' else v) = blendFor v"
  by (simp add: blendFor_def)

text \<open>
  Claim C4. Assigning \<^verbatim>\<open>globalCompositeOperation\<close> a value other than the one stored in the
  top state flushes first: the queued quads are submitted (one draw call, under the blend
  function of the old mode), the batch is empty, and only then the new mode is stored and the
  blend function set for it. Assigning the stored value changes nothing, and so does
  assigning \<^verbatim>\<open>fillStyle\<close> or \<^verbatim>\<open>strokeStyle\<close> the value the top state holds: no colour is
  resolved and the engine is unchanged.
\<close>

theorem composite_change_flushes:
  "(v \<noteq> globalCompositeOperation (topState e) \<longrightarrow>
        set_globalCompositeOperation e v
          = updateBlendMode (set_topState (flush e) ((topState (flush e))\<lparr>globalCompositeOperation := v\<rparr>))
      \<and> batchCount (set_globalCompositeOperation e v) = 0
      \<and> submissions (set_globalCompositeOperation e v) = submissions (flush e)
      \<and> (batchCount e > 0 \<longrightarrow>
            submissions (set_globalCompositeOperation e v) = submissions e @
              [\<lparr>d_texture = boundTexture e,
                d_vertices = map (vertexData e) [0 ..< batchCount e * vertexCountPerSprite],
                d_count = batchCount e * indicesPerSprite,
                d_blend = blendFunc e\<rparr>])
      \<and> globalCompositeOperation (topState (set_globalCompositeOperation e v)) = v
      \<and> blendFunc (set_globalCompositeOperation e v) = blendFor v)
   \<and> set_globalCompositeOperation e (globalCompositeOperation (topState e)) = e
   \<and> set_fillStyle e (fillStyle (topState e)) = Inr e
   \<and> set_strokeStyle e (strokeStyle (topState e)) = Inr e"
proof -
  have a: "set_globalCompositeOperation e v
          = updateBlendMode (set_topState (flush e) ((topState (flush e))\<lparr>globalCompositeOperation := v\<rparr>))"
    if "v \<noteq> globalCompositeOperation (topState e)"
    using that by (simp add: set_globalCompositeOperation_def Let_def)
  have b: "get_globalCompositeOperation (set_topState (flush e) ((topState e)\<lparr>globalCompositeOperation := v\<rparr>))
            = (if v = [] then ''source-over'' else v)"
    by (simp add: get_globalCompositeOperation_def)
  have c: "set_globalCompositeOperation e (globalCompositeOperation (topState e)) = e"
    by (simp add: set_globalCompositeOperation_def)
  have d: "set_fillStyle e (fillStyle (topState e)) = Inr e"
    by (simp add: set_fillStyle_def)
  have f: "set_strokeStyle e (strokeStyle (topState e)) = Inr e"
    by (simp add: set_strokeStyle_def)
  show ?thesis
    using c d f by (auto simp: a b blendFor_empty flush_nonempty)
qed


lemma demoQueued_facts:
  "batchCount demoQueued = 1" "submissions demoQueued = []"
  "blendFunc demoQueued = (ONE, ONE_MINUS_SRC_ALPHA)"
  "globalCompositeOperation (topState demoQueued) = ''source-over''"
  by (simp_all add: demoQueued_def demoEngine_def newEngine_def newTexman_def drawRect'_def
      createDefaultState_def alloc_def Let_def flush_def addRectVertices_def addVertex_def
      topState_def)

theorem composite_change_flushes_witness:
  "batchCount demoQueued = 1
   \<and> ''lighter'' \<noteq> globalCompositeOperation (topState demoQueued)
   \<and> batchCount (set_globalCompositeOperation demoQueued ''lighter'') = 0
   \<and> map d_blend (submissions (set_globalCompositeOperation demoQueued ''lighter''))
        = [(ONE, ONE_MINUS_SRC_ALPHA)]
   \<and> map d_count (submissions (set_globalCompositeOperation demoQueued ''lighter'')) = [6]
   \<and> blendFunc (set_globalCompositeOperation demoQueued ''lighter'') = (ONE, ONE)
   \<and> set_globalCompositeOperation demoQueued ''source-over'' = demoQueued"
proof -
  let ?e = "set_globalCompositeOperation demoQueued ''lighter''"
  have ne: "''lighter'' \<noteq> globalCompositeOperation (topState demoQueued)"
    by (simp add: demoQueued_facts)
  have pos: "batchCount demoQueued > 0"
    by (simp add: demoQueued_facts)
  have a: "batchCount ?e = 0"
    and b: "submissions ?e = submissions demoQueued @
              [\<lparr>d_texture = boundTexture demoQueued,
                d_vertices = map (vertexData demoQueued) [0 ..< batchCount demoQueued * vertexCountPerSprite],
                d_count = batchCount demoQueued * indicesPerSprite,
                d_blend = blendFunc demoQueued\<rparr>]"
    and c: "blendFunc ?e = blendFor ''lighter''"
    using composite_change_flushes [of "''lighter''" demoQueued] ne pos by blast+
  have d: "set_globalCompositeOperation demoQueued ''source-over'' = demoQueued"
    using composite_change_flushes [of "''source-over''" demoQueued]
    by (simp add: demoQueued_facts)
  show ?thesis
    using ne a d by (simp add: b c demoQueued_facts blendFor_def indicesPerSprite_def)
qed

subsection \<open>save and restore\<close>

lemma restore_at_root: "length (stateStack e) \<le> 1 \<Longrightarrow> restore e = e"
  by (simp add: restore_def)

lemma updateBlendMode_more [simp]:
  "statePool (updateBlendMode e) = statePool e"
  "heap (updateBlendMode e) = heap e"
  by (simp_all add: updateBlendMode_def Let_def)

lemma restore_stack: "stateStack (restore e) = (if length (stateStack e) \<le> 1 then stateStack e else butlast (stateStack e))"
  by (simp add: restore_def Let_def)

lemma restore_pool: "statePool (restore e) = (if length (stateStack e) \<le> 1 then statePool e else statePool e @ [last (stateStack e)])"
  by (simp add: restore_def Let_def)

lemma restore_keeps_root: "stateStack e \<noteq> [] \<Longrightarrow> stateStack (restore e) \<noteq> [] \<and> hd (stateStack (restore e)) = hd (stateStack e)"
  by (cases "stateStack e" rule: rev_cases) (auto simp: restore_stack hd_append)

lemma save_stack:
  assumes "save e = Inr e'"
  shows "butlast (stateStack e') = stateStack e" and "stateStack e' \<noteq> []"
    and "statePool e' = butlast (statePool e)"
proof -
  obtain nxt e1 where n: "(if statePool e = [] then createDefaultState e
                        else (last (statePool e), e\<lparr>statePool := butlast (statePool e)\<rparr>)) = (nxt, e1)"
    by force
  have e1: "stateStack e1 = stateStack e \<and> statePool e1 = butlast (statePool e)"
    using n by (auto simp: heap_only_fields dest!: createDefaultState_facts(1) split: if_splits)
  from assms n obtain nxt' e2 where c: "copyState e1 (last (stateStack e)) nxt = Inr (nxt', e2)"
    and r: "e' = e2\<lparr>stateStack := stateStack e2 @ [nxt']\<rparr>"
    by (auto simp: save_def Let_def split: sum.splits prod.splits)
  note g = heap_only_fields[OF copyState_Inr(1)[OF c]]
  show "butlast (stateStack e') = stateStack e" "stateStack e' \<noteq> []"
    "statePool e' = butlast (statePool e)"
    using e1 by (simp_all add: r g)
qed

lemma callSet_stack: "callSet e a c = Inr e' \<Longrightarrow> stateStack e' = stateStack e \<and> statePool e' = statePool e"
  by (auto dest!: callSet_Inr_heap_only simp: heap_only_fields)

lemma parseColor_stack: "parseColor e v = (c, e') \<Longrightarrow> stateStack e' = stateStack e \<and> statePool e' = statePool e"
  by (auto simp: parseColor_def parseColorString_def Let_def split: style.splits obj.splits option.splits if_splits prod.splits)

lemma set_topState_stack [simp]:
  "butlast (stateStack (set_topState e s)) = butlast (stateStack e)"
  "stateStack (set_topState e s) \<noteq> []"
  "[] \<noteq> stateStack (set_topState e s)"
  "statePool (set_topState e s) = statePool e"
  "length (stateStack (set_topState e s)) = length (butlast (stateStack e)) + 1"
  by (simp_all add: set_topState_def)

lemma alloc_stack: "alloc e ob = (a, e') \<Longrightarrow> stateStack e' = stateStack e \<and> statePool e' = statePool e"
  by (auto simp: alloc_def)

lemma set_fillStyle_stack:
  assumes "set_fillStyle e v = Inr e'"
  shows "butlast (stateStack e') = butlast (stateStack e) \<and> statePool e' = statePool e
         \<and> (stateStack e \<noteq> [] \<longrightarrow> stateStack e' \<noteq> [])"
  using assms
  by (auto simp: set_fillStyle_def Let_def split: if_splits style.splits prod.splits
      dest!: callSet_stack parseColor_stack alloc_stack)

lemma set_strokeStyle_stack:
  assumes "set_strokeStyle e v = Inr e'"
  shows "butlast (stateStack e') = butlast (stateStack e) \<and> statePool e' = statePool e
         \<and> (stateStack e \<noteq> [] \<longrightarrow> stateStack e' \<noteq> [])"
  using assms
  by (auto simp: set_strokeStyle_def Let_def split: if_splits style.splits prod.splits
      dest!: callSet_stack parseColor_stack alloc_stack)

lemma set_gco_stack:
  "butlast (stateStack (set_globalCompositeOperation e v)) = butlast (stateStack e)
   \<and> statePool (set_globalCompositeOperation e v) = statePool e
   \<and> (stateStack e \<noteq> [] \<longrightarrow> stateStack (set_globalCompositeOperation e v) \<noteq> [])"
  by (simp add: set_globalCompositeOperation_def Let_def updateBlendMode_def)

lemma apply_setter_stack:
  assumes "apply_setter e m = Inr e'"
  shows "butlast (stateStack e') = butlast (stateStack e) \<and> statePool e' = statePool e
         \<and> (stateStack e \<noteq> [] \<longrightarrow> stateStack e' \<noteq> [])"
proof (cases m)
  case (SetFillStyle v)
  then show ?thesis using assms set_fillStyle_stack by simp
next
  case (SetStrokeStyle v)
  then show ?thesis using assms set_strokeStyle_stack by simp
next
  case (SetGlobalCompositeOperation v)
  then show ?thesis using assms set_gco_stack by auto
qed (use assms in \<open>auto simp: set_globalAlpha_def set_flash_def set_lineWidth_def set_shadowBlur_def
      set_shadowColor_def set_font_def set_textAlign_def set_textBaseline_def set_lineCap_def
      set_lineJoin_def translate_def scale_def rotate_def setTransform_def Let_def split: prod.splits\<close>)

lemma apply_setters_stack:
  "apply_setters e ms = Inr e' \<Longrightarrow> stateStack e \<noteq> [] \<Longrightarrow>
   butlast (stateStack e') = butlast (stateStack e) \<and> statePool e' = statePool e \<and> stateStack e' \<noteq> []"
proof (induction ms arbitrary: e)
  case Nil
  then show ?case by simp
next
  case (Cons m ms)
  from Cons.prems obtain e1 where 1: "apply_setter e m = Inr e1" and 2: "apply_setters e1 ms = Inr e'"
    by (auto split: sum.splits)
  from apply_setter_stack[OF 1] Cons.prems(2) Cons.IH[OF 2] show ?case by simp
qed

lemma save_mutate_restore:
  assumes "stateStack e \<noteq> []" and "save e = Inr e1" and "apply_setters e1 ms = Inr e2"
  shows "stateStack (restore e2) = stateStack e"
    and "statePool (restore e2) = butlast (statePool e) @ [last (stateStack e2)]"
    and "topState (restore e2) = topState e"
proof -
  note s = save_stack[OF assms(2)]
  note m = apply_setters_stack[OF assms(3) s(2)]
  have len: "length (stateStack e2) > 1"
    using m s assms(1) by (metis One_nat_def Suc_lessI length_butlast length_greater_0_conv
        less_numeral_extra(3) zero_less_diff)
  show a: "stateStack (restore e2) = stateStack e"
    using len m s by (simp add: restore_stack)
  show "statePool (restore e2) = butlast (statePool e) @ [last (stateStack e2)]"
    using len m s by (simp add: restore_pool)
  show "topState (restore e2) = topState e"
    using a by (simp add: topState_def)
qed

lemmas stack_eval =
  demoEngine_def newEngine_def newTexman_def createDefaultState_def alloc_def Let_def
  save_def restore_def copyState_def copyRGBA_def callSet_def isGradient_def lengthIs4_def
  hasSet_def elements_def set_fillStyle_def set_topState_def topState_def
  get_globalCompositeOperation_def parseColor_def parseColorString_def rgba_list_def
  WHITE_RGBA_def

text \<open>
  Claim C3 at a failing input. After \<^verbatim>\<open>save(); fillStyle = [1, 0, 0, 1]; restore()\<close> the
  pooled state holds the caller's plain array as its \<^verbatim>\<open>fillStyleRGBA\<close>. The next
  \<^verbatim>\<open>save()\<close> takes that state from the pool, and \<^verbatim>\<open>_copyState\<close> calls \<^verbatim>\<open>set\<close> on the
  array, which has no such method: save throws a TypeError, nothing is pushed, and the pooled
  state is lost. (The setter of \<^verbatim>\<open>fillStyle\<close> tests for the method; \<^verbatim>\<open>_copyState\<close> tests
  only the length.) The lemmas above give what holds otherwise: restore at the root is the
  identity, the root is never popped, and when save and the setters return, restore puts back
  the state records as they were before save.
\<close>

theorem save_throws_after_array_fill:
  "\<exists>e'. save_array_restore_save demoEngine = Inl (TypeError, e')
        \<and> length (stateStack e') = 1 \<and> statePool e' = []"
  by (simp add: save_array_restore_save_def stack_eval)

text \<open>
  A Float32Array of the caller held by the state below and by the pooled state above is
  overwritten by the setter of the upper state: after the balanced
  \<^verbatim>\<open>save(); fillStyle = "#ff0000"; restore()\<close> the restored state holds the same object,
  with other contents than before.
\<close>

lemma shared_array_overwritten:
  "\<exists>u e'. shared_array_frame demoEngine = Inr (u, e')
        \<and> fillStyle (topState e') = StyleObj u \<and> fillStyleRGBA (topState e') = u
        \<and> heap e' u = F32 [1, 1, 1, 1]"
  by (simp add: shared_array_frame_def stack_eval)

subsection \<open>The sprite batcher: one draw call for one texture\<close>

lemma arena_only_refl [simp]: "arena_only e e"
  by (simp add: arena_only_def)

lemma arena_only_upd [simp]: "arena_only e (e\<lparr>vertexData := d\<rparr>)"
  by (simp add: arena_only_def)

lemma arena_only_trans: "arena_only a b \<Longrightarrow> arena_only b c \<Longrightarrow> arena_only a c"
  unfolding arena_only_def
  by (metis (no_types, lifting) engine.surjective engine.update_convs(6))

lemma arena_only_fields:
  assumes "arena_only e e'"
  shows "width e' = width e" "height e' = height e" "dpr e' = dpr e"
    "batchCount e' = batchCount e" "currentTexture e' = currentTexture e"
    "drawCallCount e' = drawCallCount e"
    "triangleCount e' = triangleCount e" "submissions e' = submissions e"
    "blendFunc e' = blendFunc e" "clears e' = clears e" "stateStack e' = stateStack e"
    "statePool e' = statePool e" "colorCache e' = colorCache e" "cssParse e' = cssParse e"
    "tm e' = tm e" "heap e' = heap e" "heapNext e' = heapNext e"
  using assms unfolding arena_only_def
  by (metis engine.select_convs engine.surjective engine.update_convs(6))+

lemma store_at_other: "i < ofs \<or> ofs + length xs \<le> i \<Longrightarrow> store_at d ofs xs i = d i"
  by (induction xs arbitrary: d ofs) (auto simp: f32_store_def)

lemma store_at_inside:
  "ofs + length xs \<le> arenaLength \<Longrightarrow> k < length xs \<Longrightarrow> store_at d ofs xs (ofs + k) = xs ! k"
proof (induction xs arbitrary: d ofs k)
  case Nil
  then show ?case by simp
next
  case (Cons x xs)
  show ?case
  proof (cases k)
    case 0
    then show ?thesis using Cons.prems by (simp add: store_at_other f32_store_def)
  next
    case (Suc j)
    then show ?thesis using Cons.prems Cons.IH[of "Suc ofs" j "f32_store d ofs x"] by simp
  qed
qed

lemma length_vertex_floats [simp]: "length (vertex_floats x y u v a c) = 9"
  by (cases c) (simp add: vertex_floats_def Let_def)

lemma addVertex_arena: "arena_only e (addVertex e ofs x y u v a c)"
  by (simp add: addVertex_def)

lemma addVertex_other:
  "i < ofs \<or> ofs + 9 \<le> i \<Longrightarrow> vertexData (addVertex e ofs x y u v a c) i = vertexData e i"
  by (simp add: addVertex_def store_at_other)

lemma addRectVertices_arena: "arena_only e (addRectVertices e ofs m x0 y0 x1 y1 a0 b0 a1 b1 al c)"
  by (cases m) (auto simp: addRectVertices_def Let_def intro!: arena_only_trans[OF _ addVertex_arena] addVertex_arena)

lemma addRectVertices_other:
  "i < ofs \<or> ofs + 36 \<le> i \<Longrightarrow>
   vertexData (addRectVertices e ofs m x0 y0 x1 y1 a0 b0 a1 b1 al c) i = vertexData e i"
  by (cases m) (auto simp: addRectVertices_def Let_def addVertex_other)

lemma addCornerVertices_arena: "arena_only e (addCornerVertices e ofs m p0 p1 p2 p3 a0 b0 a1 b1 al c)"
  by (cases m) (auto simp: addCornerVertices_def Let_def intro!: arena_only_trans[OF _ addVertex_arena] addVertex_arena)

lemma addCornerVertices_other:
  "i < ofs \<or> ofs + 36 \<le> i \<Longrightarrow>
   vertexData (addCornerVertices e ofs m p0 p1 p2 p3 a0 b0 a1 b1 al c) i = vertexData e i"
  by (cases m) (auto simp: addCornerVertices_def Let_def addVertex_other)

lemmas addRect_fields = arena_only_fields[OF addRectVertices_arena]
lemmas addCorner_fields = arena_only_fields[OF addCornerVertices_arena]

lemma parseColorString_fields:
  assumes "parseColorString e s = (c, e')"
  shows "batchCount e' = batchCount e" "currentTexture e' = currentTexture e"
    "vertexData e' = vertexData e" "drawCallCount e' = drawCallCount e"
    "triangleCount e' = triangleCount e" "submissions e' = submissions e"
    "blendFunc e' = blendFunc e" "stateStack e' = stateStack e" "tm e' = tm e"
    "statePool e' = statePool e" "heap e' = heap e"
  using assms by (auto simp: parseColorString_def Let_def split: if_splits option.splits)

lemma switchTexture_same:
  assumes "instanceofWebGLTexture T" and "batchCount e = 0 \<or> currentTexture e = Some T"
    and "batchCount e < maxBatchSize"
  shows "switchTexture e T = e\<lparr>currentTexture := Some T\<rparr>"
  using assms by (auto simp: switchTexture_def Let_def)

lemma vcps [simp]: "vertexCountPerSprite = 36"
  by (simp add: vertexCountPerSprite_def verticesPerSprite_def vertexStride_def)

lemma enqueued_one:
  assumes "arena_only e1 e2"
    and "\<forall>i < batchCount e1 * 36. vertexData e2 i = vertexData e1 i"
    and "batchCount e1 = batchCount e" and "currentTexture e1 = Some T"
    and "submissions e1 = submissions e" and "drawCallCount e1 = drawCallCount e"
    and "triangleCount e1 = triangleCount e" and "blendFunc e1 = blendFunc e"
    and "stateStack e1 = stateStack e" and "vertexData e1 = vertexData e"
  shows "enqueued T 1 e (e2\<lparr>batchCount := batchCount e2 + 1\<rparr>)"
  using assms by (simp add: enqueued_def arena_only_fields[OF assms(1)])

lemma drawRect_enqueues:
  assumes "batchCount e = 0 \<or> currentTexture e = Some whiteTexture"
    and "batchCount e + 1 \<le> maxBatchSize"
  shows "enqueued whiteTexture 1 e (drawRect' e x y w h c al)"
proof -
  define e1 where "e1 = (if currentTexture e \<noteq> Some whiteTexture \<or> batchCount e \<ge> maxBatchSize
                then (flush e)\<lparr>currentTexture := Some whiteTexture\<rparr> else e)"
  have e1: "e1 = e\<lparr>currentTexture := Some whiteTexture\<rparr>"
    using assms by (auto simp: e1_def flush_empty)
  define e2 where "e2 = addRectVertices e1 (batchCount e1 * 36) (matrix (topState e1)) x y (x + w) (y + h) 0 0 1 1 al c"
  have d: "drawRect' e x y w h c al = e2\<lparr>batchCount := batchCount e2 + 1\<rparr>"
    by (simp add: drawRect'_def Let_def e1_def e2_def verticesPerSprite_def vertexStride_def mult.assoc)
  have a: "arena_only e1 e2" by (simp add: e2_def addRectVertices_arena)
  have b: "\<forall>i < batchCount e1 * 36. vertexData e2 i = vertexData e1 i"
    by (simp add: e2_def addRectVertices_other)
  show ?thesis
    unfolding d by (rule enqueued_one[OF a b]) (simp_all add: e1)
qed

lemma getTexture_resolved:
  "resolvedTexture t im = Some r \<Longrightarrow> \<exists>t'. getTexture t im = Inr (r, t')"
  by (auto simp: resolvedTexture_def split: sum.splits)

lemma drawTexture_enqueues:
  assumes "op_texture e (OpDrawTexture info a) = Some T" and "instanceofWebGLTexture T"
    and "batchCount e = 0 \<or> currentTexture e = Some T"
    and "batchCount e + 1 \<le> maxBatchSize"
  shows "\<exists>e'. drawTexture e info a = Inr e' \<and> enqueued T 1 e e'"
proof -
  obtain uvo t' where r: "(case info of
              NoTex \<Rightarrow> None
            | TexHandle h \<Rightarrow> Some (Inr (GLTex h, None, tm e))
            | TexInfo ti \<Rightarrow> Some (Inr (ti_texture ti, ti_uv ti, tm e))
            | TexImage i \<Rightarrow>
                Some (case getTexture (tm e) (ImageObj i) of
                        Inl (err, t') \<Rightarrow> Inl (err, t')
                      | Inr (r, t') \<Rightarrow> Inr (textureOf r, uvOf r, t'))) = Some (Inr (T, uvo, t'))"
    using assms(1) by (cases info) (auto dest!: getTexture_resolved)
  define e1 where "e1 = switchTexture (e\<lparr>tm := t'\<rparr>) T"
  have e1: "e1 = e\<lparr>tm := t', currentTexture := Some T\<rparr>"
    unfolding e1_def using assms by (subst switchTexture_same) auto
  have "\<exists>e2. drawTexture e info a = Inr (e2\<lparr>batchCount := batchCount e2 + 1\<rparr>)
          \<and> arena_only e1 e2 \<and> (\<forall>i < batchCount e1 * 36. vertexData e2 i = vertexData e1 i)"
    unfolding drawTexture_def r
    apply (simp only: Let_def split_beta option.case sum.case prod.case)
    apply (intro exI conjI)
      apply (rule refl)
     apply (simp add: e1_def addRectVertices_arena addCornerVertices_arena)
    apply (simp add: e1_def addRectVertices_other addCornerVertices_other)
    done
  then obtain e2 where d: "drawTexture e info a = Inr (e2\<lparr>batchCount := batchCount e2 + 1\<rparr>)"
    and a: "arena_only e1 e2" and b: "\<forall>i < batchCount e1 * 36. vertexData e2 i = vertexData e1 i"
    by blast
  have "enqueued T 1 e (e2\<lparr>batchCount := batchCount e2 + 1\<rparr>)"
    by (rule enqueued_one[OF a b]) (simp_all add: e1)
  then show ?thesis using d by simp
qed

lemma parseColorString_snd [simp]:
  "batchCount (snd (parseColorString e s)) = batchCount e"
  "currentTexture (snd (parseColorString e s)) = currentTexture e"
  "vertexData (snd (parseColorString e s)) = vertexData e"
  "drawCallCount (snd (parseColorString e s)) = drawCallCount e"
  "triangleCount (snd (parseColorString e s)) = triangleCount e"
  "submissions (snd (parseColorString e s)) = submissions e"
  "blendFunc (snd (parseColorString e s)) = blendFunc e"
  "stateStack (snd (parseColorString e s)) = stateStack e"
  "tm (snd (parseColorString e s)) = tm e"
  by (simp_all add: parseColorString_def Let_def split: option.splits)

lemma topState_cong: "stateStack e' = stateStack e \<Longrightarrow> topState e' = topState e"
  by (simp add: topState_def)

lemma drawSpriteFast_enqueues:
  assumes "op_texture e (OpDrawSpriteFast im x y w h rotation al tint) = Some T"
    and "instanceofWebGLTexture T"
    and "batchCount e = 0 \<or> currentTexture e = Some T"
    and "batchCount e + 1 \<le> maxBatchSize"
  shows "\<exists>e'. drawSpriteFast e im x y w h rotation al tint = Inr e' \<and> enqueued T 1 e e'"
proof -
  have ni: "im \<noteq> NoImage" using assms(1) by auto
  then obtain r where rt: "resolvedTexture (tm e) im = Some r"
    and rT: "(case r of Info ti \<Rightarrow> ti_texture ti
                           | Raw t \<Rightarrow> if instanceofWebGLTexture t then t else whiteTexture) = T"
    using assms(1) by (cases im) auto
  obtain t' where g: "getTexture (tm e) im = Inr (r, t')"
    using getTexture_resolved[OF rt] by blast
  have tx: "fst (case r of
                     Info ti \<Rightarrow> (ti_texture ti, (case ti_uv ti of Some r \<Rightarrow> r
                          | None \<Rightarrow> \<lparr>uv_u0 = 0, uv_v0 = 0, uv_u1 = 1, uv_v1 = 1\<rparr>))
                   | Raw t \<Rightarrow> (if instanceofWebGLTexture t then t else whiteTexture,
                          \<lparr>uv_u0 = 0, uv_v0 = 0, uv_u1 = 1, uv_v1 = 1\<rparr>)) = T"
    using rT by (cases r) auto
  have sw: "switchTexture (e\<lparr>tm := t'\<rparr>) T = e\<lparr>tm := t', currentTexture := Some T\<rparr>"
    using assms by (subst switchTexture_same) auto
  show ?thesis
    unfolding drawSpriteFast_def
    apply (simp only: ni if_False g sum.case prod.case Let_def split_beta)
    apply (intro exI conjI)
     apply (rule refl)
    apply (simp only: fst_conv snd_conv tx sw)
    apply (simp add: enqueued_def store_at_other del: store_at.simps)
    done
qed

lemma drawImage_enqueues:
  assumes "op_texture e (OpDrawImage im args) = Some T"
    and "instanceofWebGLTexture T"
    and "batchCount e = 0 \<or> currentTexture e = Some T"
    and "batchCount e + op_quads e (OpDrawImage im args) \<le> maxBatchSize"
  shows "\<exists>e'. drawImage e im args = Inr e' \<and> enqueued T (op_quads e (OpDrawImage im args)) e e'"
proof -
  from assms(1) obtain i where im: "im = Some i" by (cases im) auto
  from assms(1) im obtain r where rt: "resolvedTexture (tm e) (ImageObj i) = Some r"
    and rT: "textureOf r = T" by auto
  obtain t' where g: "getTexture (tm e) (ImageObj i) = Inr (r, t')"
    using getTexture_resolved[OF rt] by blast
  define e1 where "e1 = switchTexture (e\<lparr>tm := t'\<rparr>) T"
  have lt: "batchCount e < maxBatchSize" using assms(4) by (auto split: if_splits)
  have e1: "e1 = e\<lparr>tm := t', currentTexture := Some T\<rparr>"
    unfolding e1_def using assms(2,3) lt by (subst switchTexture_same) auto
  have ts: "topState e1 = topState e" by (simp add: e1 topState_def)
  show ?thesis
  proof (cases "shadowActive (topState e)")
    case False
    then have ns: "\<not> (shadowBlur (topState e) > 0 \<and> shadowColor (topState e) \<noteq> ''transparent''
                              \<and> shadowColor (topState e) \<noteq> ''rgba(0,0,0,0)'')"
      by (simp add: shadowActive_def)
    show ?thesis
      unfolding drawImage_def im
      apply (simp only: option.case Let_def split_beta g sum.case prod.case fst_conv snd_conv rT e1_def[symmetric] ts ns if_False)
      apply (intro exI conjI)
       apply (rule refl)
      apply (simp add: False enqueued_def addRect_fields addRectVertices_other e1)
      done
  next
    case True
    then have sh: "(shadowBlur (topState e) > 0 \<and> shadowColor (topState e) \<noteq> ''transparent''
                              \<and> shadowColor (topState e) \<noteq> ''rgba(0,0,0,0)'')"
      by (simp add: shadowActive_def)
    have two: "batchCount e + 2 \<le> maxBatchSize" using assms(4) True by simp
    show ?thesis
      unfolding drawImage_def im
      apply (simp only: option.case Let_def split_beta g sum.case prod.case fst_conv snd_conv rT e1_def[symmetric] ts sh if_True)
      apply (intro exI conjI)
       apply (rule refl)
      using two
      apply (simp add: True enqueued_def addRect_fields addRectVertices_other e1)
      done
  qed
qed

lemma exec_enqueues:
  assumes "op_texture e op = Some T" and "instanceofWebGLTexture T"
    and "batchCount e = 0 \<or> currentTexture e = Some T"
    and "batchCount e + op_quads e op \<le> maxBatchSize"
  shows "\<exists>e'. exec e op = Inr e' \<and> enqueued T (op_quads e op) e e'"
proof (cases op)
  case (OpDrawImage im args)
  then show ?thesis using drawImage_enqueues[of e im args T] assms by simp
next
  case (OpDrawTexture info a)
  then show ?thesis using drawTexture_enqueues[of e info a T] assms by simp
next
  case (OpDrawSpriteFast im x y w h rotation al tint)
  then show ?thesis using drawSpriteFast_enqueues[of e im x y w h rotation al tint T] assms by simp
next
  case (OpDrawRect x y w h c al)
  then show ?thesis using drawRect_enqueues[of e x y w h c al] assms by simp
qed

lemma op_quads_pos: "op_quads e op > 0"
  by (cases op) auto

lemma quad_total_pos: "ops \<noteq> [] \<Longrightarrow> quad_total e ops > 0"
  by (cases ops) (auto simp: op_quads_pos)

lemma run_enqueues:
  assumes "instanceofWebGLTexture T"
  shows "same_texture T e ops \<Longrightarrow> batchCount e = 0 \<or> currentTexture e = Some T \<Longrightarrow>
         batchCount e + quad_total e ops \<le> maxBatchSize \<Longrightarrow>
         \<exists>e'. run e ops = Inr e'
            \<and> batchCount e' = batchCount e + quad_total e ops
            \<and> (ops \<noteq> [] \<longrightarrow> currentTexture e' = Some T)
            \<and> submissions e' = submissions e \<and> drawCallCount e' = drawCallCount e
            \<and> triangleCount e' = triangleCount e \<and> blendFunc e' = blendFunc e
            \<and> (\<forall>i < batchCount e * 36. vertexData e' i = vertexData e i)
            \<and> map (vertexData e') [batchCount e * 36 ..< batchCount e' * 36] = stored e ops"
proof (induction ops arbitrary: e)
  case Nil
  then show ?case by simp
next
  case (Cons op ops)
  have t: "op_texture e op = Some T" using Cons.prems(1) by simp
  have q: "batchCount e + op_quads e op \<le> maxBatchSize" using Cons.prems(3) by simp
  obtain e1 where x: "exec e op = Inr e1" and en: "enqueued T (op_quads e op) e e1"
    using exec_enqueues[OF t assms Cons.prems(2) q] by blast
  have st: "same_texture T e1 ops" using Cons.prems(1) x by simp
  have b1: "batchCount e1 = batchCount e + op_quads e op" and c1: "currentTexture e1 = Some T"
    using en by (simp_all add: enqueued_def)
  have qt: "quad_total e (op # ops) = op_quads e op + quad_total e1 ops" using x by simp
  have bound: "batchCount e1 + quad_total e1 ops \<le> maxBatchSize"
    using Cons.prems(3) qt b1 by simp
  obtain e' where r: "run e1 ops = Inr e'"
    and b': "batchCount e' = batchCount e1 + quad_total e1 ops"
    and s': "submissions e' = submissions e1" "drawCallCount e' = drawCallCount e1"
            "triangleCount e' = triangleCount e1" "blendFunc e' = blendFunc e1"
    and c': "ops \<noteq> [] \<longrightarrow> currentTexture e' = Some T"
    and f': "\<forall>i < batchCount e1 * 36. vertexData e' i = vertexData e1 i"
    and m': "map (vertexData e') [batchCount e1 * 36 ..< batchCount e' * 36] = stored e1 ops"
    using Cons.IH[OF st _ bound] c1 by blast
  have ct: "currentTexture e' = Some T"
  proof (cases ops)
    case Nil
    then show ?thesis using r c1 by simp
  next
    case (Cons a list)
    then show ?thesis using c' by simp
  qed
  have fr: "\<forall>i < batchCount e * 36. vertexData e' i = vertexData e i"
    using f' en b1 by (simp add: enqueued_def)
  have le: "batchCount e * 36 \<le> batchCount e1 * 36" "batchCount e1 * 36 \<le> batchCount e' * 36"
    using b1 b' by simp_all
  have split: "[batchCount e * 36 ..< batchCount e' * 36]
       = [batchCount e * 36 ..< batchCount e1 * 36] @ [batchCount e1 * 36 ..< batchCount e' * 36]"
    using le by (metis le_Suc_ex upt_add_eq_append)
  have first: "map (vertexData e') [batchCount e * 36 ..< batchCount e1 * 36]
       = map (vertexData e1) [batchCount e * 36 ..< batchCount e1 * 36]"
    using f' by simp
  have "map (vertexData e') [batchCount e * 36 ..< batchCount e' * 36] = stored e (op # ops)"
    unfolding split using first m' x b1 by simp
  then show ?case
    using x r b' b1 qt s' en ct fr by (simp add: enqueued_def)
qed

lemma index_loop_outside:
  "n * 6 \<le> idx \<Longrightarrow> index_loop n a idx = a idx"
  by (induction n) (auto simp: Let_def)

lemma index_loop_get:
  "k < n \<Longrightarrow>
   index_loop n a (k * 6) = of_nat (k * 4) \<and> index_loop n a (k * 6 + 1) = of_nat (k * 4 + 1)
   \<and> index_loop n a (k * 6 + 2) = of_nat (k * 4 + 2) \<and> index_loop n a (k * 6 + 3) = of_nat (k * 4)
   \<and> index_loop n a (k * 6 + 4) = of_nat (k * 4 + 2) \<and> index_loop n a (k * 6 + 5) = of_nat (k * 4 + 3)"
proof (induction n)
  case 0
  then show ?case by simp
next
  case (Suc n)
  show ?case
  proof (cases "k = n")
    case True
    then show ?thesis by (simp add: Let_def)
  next
    case False
    then have "k < n" using Suc.prems by simp
    then have "k * 6 + 5 < n * 6" by simp
    then show ?thesis using Suc.IH[OF \<open>k < n\<close>] by (simp add: Let_def)
  qed
qed

lemma unat_small: "n < 65536 \<Longrightarrow> unat (of_nat n :: 16 word) = n"
  unfolding unat_of_nat by simp

lemma indexBuffer_winding:
  assumes "k < maxBatchSize"
  shows "map (\<lambda>j. unat (indexBuffer (k * 6 + j))) [0 ..< 6]
           = [k * 4, k * 4 + 1, k * 4 + 2, k * 4, k * 4 + 2, k * 4 + 3]"
proof -
  have k: "k < 8192" using assms by (simp add: maxBatchSize_def)
  have u: "[0 ..< 6] = [0, 1, 2, 3, 4, 5::nat]" by (simp add: upt_rec)
  note g = index_loop_get[OF assms, of "\<lambda>k. 0", folded indexBuffer_def]
  have s: "unat (of_nat (k * 4) :: 16 word) = k * 4" "unat (of_nat (k * 4 + 1) :: 16 word) = k * 4 + 1"
    "unat (of_nat (k * 4 + 2) :: 16 word) = k * 4 + 2" "unat (of_nat (k * 4 + 3) :: 16 word) = k * 4 + 3"
    by (rule unat_small, use k in linarith)+
  show ?thesis
    unfolding u by (simp only: list.map add_0_right g s)
qed

lemma boundTexture_gl:
  "currentTexture e = Some T \<Longrightarrow> instanceofWebGLTexture T \<Longrightarrow> boundTexture e = T"
  by (simp add: boundTexture_def Let_def)

lemma demo_getTexture_first:
  "\<exists>t'. getTexture (tm demoEngine) (ImageObj 0) = Inr (Info \<lparr>ti_texture = GLTex 3, ti_uv = None, ti_width = 1024, ti_height = 1024\<rparr>, t')"
  by (simp add: demoEngine_def newEngine_def newTexman_def getTexture_def dedicatedTexture_def
      plainImage_def createDefaultState_def alloc_def Let_def maxTextureCacheSize_def)

lemmas batch_eval =
  demoEngine_def newEngine_def newTexman_def getTexture_def dedicatedTexture_def
  plainImage_def createDefaultState_def alloc_def Let_def maxTextureCacheSize_def
  drawImage_def drawTexture_def drawSpriteFast_def drawRect'_def switchTexture_def
  resolvedTexture_def textureOf_def uvOf_def subUV_def set_memo_def topState_def
  instanceofWebGLTexture_def whiteTexture_def flush_def maxBatchSize_def
  addRectVertices_def addCornerVertices_def addVertex_def WHITE_RGBA_def

lemma demoSprites_same: "same_texture (GLTex 3) demoEngine demoSprites \<and> quad_total demoEngine demoSprites = 3"
  by (simp add: demoSprites_def batch_eval shadowActive_def del: store_at.simps)

subsection \<open>Degenerate input, upload failure and eviction\<close>

text \<open>
  Claim C9 at a failing input. With one sprite of another texture queued, a line of length
  zero is not without effect: \<^verbatim>\<open>_drawLine\<close> tests the length after its texture check, so
  the queued sprite is submitted, the batch count becomes 0 and the white texture is bound.
  A null image leaves the engine as it is in drawImage, drawTexture and drawSpriteFast
  (lemma \<open>null_image_noop\<close>).
\<close>

theorem zero_length_line_flushes:
  "batchCount demoSpriteQueued = 1
   \<and> currentTexture demoSpriteQueued = Some (GLTex 3)
   \<and> submissions demoSpriteQueued = []
   \<and> drawCallCount demoSpriteQueued = 0
   \<and> batchCount (drawLine' demoSpriteQueued 0 0 0 0 2 WHITE_RGBA 1 (1, 0, 0, 1, 0, 0)) = 0
   \<and> currentTexture (drawLine' demoSpriteQueued 0 0 0 0 2 WHITE_RGBA 1 (1, 0, 0, 1, 0, 0))
        = Some whiteTexture
   \<and> map d_count (submissions (drawLine' demoSpriteQueued 0 0 0 0 2 WHITE_RGBA 1 (1, 0, 0, 1, 0, 0)))
        = [6]
   \<and> drawCallCount (drawLine' demoSpriteQueued 0 0 0 0 2 WHITE_RGBA 1 (1, 0, 0, 1, 0, 0)) = 1"
  by (simp add: demoSpriteQueued_def drawLine'_def batch_eval indicesPerSprite_def
      del: store_at.simps)

lemma null_image_noop:
  "drawImage e None args = Inr e"
  "drawTexture e NoTex a = Inr e"
  "drawSpriteFast e NoImage x y w h rotation al tint = Inr e"
  by (simp_all add: drawImage_def drawTexture_def drawSpriteFast_def)

lemma zero_length_line_emits_nothing:
  "vertexData (drawLine' e x y x y wd c al m) = vertexData e
   \<and> stateStack (drawLine' e x y x y wd c al m) = stateStack e
   \<and> drawLine' e x y x y wd c al m = switchTexture e whiteTexture"
  by (simp add: drawLine'_def switchTexture_def Let_def)

lemma zero_length_line_noop_when_white:
  "currentTexture e = Some whiteTexture \<Longrightarrow> batchCount e < maxBatchSize \<Longrightarrow>
   drawLine' e x y x y wd c al m = e"
  by (simp add: drawLine'_def switchTexture_def Let_def)

lemmas tm_eval =
  demoTexman_def newTexman_def getTexture_def dedicatedTexture_def plainImage_def Let_def
  maxTextureCacheSize_def set_memo_def clear_needsUpdate_def markDirty_def taint_def
  advanceClock_def whiteTexture_def atlasTexture_def resolveAll_def resolve1_def

lemma new_tainted_image_is_white:
  "getTexture (taint demoTexman 0) (ImageObj 0)
     = Inr (Raw whiteTexture, (taint demoTexman 0)\<lparr>nextTexture := 4\<rparr>)"
  by (simp add: tm_eval)

text \<open>
  Claim C7 at a failing input. The upload of a new image runs inside try/catch and falls back
  to the white texture (lemma \<open>new_tainted_image_is_white\<close>). The second upload of an image
  that already has a texture and is marked \<^verbatim>\<open>_needsUpdate\<close> runs outside any handler: when
  \<^verbatim>\<open>texImage2D\<close> throws there, the exception leaves getTexture and the draw call that
  resolved the image.
\<close>

theorem dirty_reupload_throws:
  "resolveAll demoTexman [0] \<noteq> demoTexman
   \<and> map_of (textureCache (resolveAll demoTexman [0])) 0 = Some (GLTex 3)
   \<and> getTexture (taint (markDirty (resolveAll demoTexman [0]) 0) 0) (ImageObj 0)
       = Inl (UploadError, taint (markDirty (resolveAll demoTexman [0]) 0) 0)
   \<and> drawImage (demoEngine\<lparr>tm := taint (markDirty (resolveAll demoTexman [0]) 0) 0\<rparr>) (Some 0) (Dest2 0 0)
       = Inl (UploadError, demoEngine\<lparr>tm := taint (markDirty (resolveAll demoTexman [0]) 0) 0\<rparr>)"
  by (simp add: tm_eval drawImage_def)

lemma getTexture_throws_only_on_dirty_reupload:
  assumes "getTexture t im = Inl (err, t')"
  shows "\<exists>i. im = ImageObj i \<and> err = UploadError \<and> needsUpdate (images t i)
           \<and> tainted (images t i) \<and> map_of (atlasCache t) i = None"
  using assms
  by (auto simp: getTexture_def dedicatedTexture_def addToAtlas_def Let_def
      split: imgarg.splits if_splits option.splits prod.splits)

lemma map_of_keyed:
  "map_of (map (\<lambda>i. (i, f i)) xs) k = (if k \<in> set xs then Some (f k) else None)"
  by (induction xs) auto

lemma map_of_range:
  "map_of (map (\<lambda>i. (i, f i)) [a ..< b]) k = (if a \<le> k \<and> k < b then Some (f k) else None)"
  by (simp add: map_of_keyed)

lemma update_fresh: "k \<notin> fst ` set al \<Longrightarrow> AList.update k v al = al @ [(k, v)]"
  by (induction al) auto

lemma update_range:
  "AList.update n v (map (\<lambda>i. (i, f i)) [0 ..< n]) = map (\<lambda>i. (i, f i)) [0 ..< n] @ [(n, v)]"
  by (rule update_fresh) auto

lemma filled_0: "filled 0 = demoTexman"
  by (simp add: filled_def demoTexman_def newTexman_def)

lemma getTexture_filled:
  assumes "n < 200"
  shows "getTexture (filled n) (ImageObj n) = Inr (Info (ownInfo n), (filled (Suc n))\<lparr>clock := n\<rparr>)"
  using assms
  apply (simp add: filled_def newTexman_def getTexture_def dedicatedTexture_def Let_def
        plainImage_def maxTextureCacheSize_def set_memo_def map_of_range update_range ownInfo_def)
  apply (rule ext)
  apply (simp add: plainImage_def ownInfo_def)
  done

lemma resolve1_filled: "n < 200 \<Longrightarrow> resolve1 (filled n) n = filled (Suc n)"
  by (simp add: resolve1_def getTexture_filled advanceClock_def) (simp add: filled_def)

lemma resolveAll_filled: "n \<le> 200 \<Longrightarrow> resolveAll demoTexman [0 ..< n] = filled n"
proof (induction n)
  case 0
  then show ?case by (simp add: resolveAll_def filled_0)
next
  case (Suc n)
  then have "resolveAll demoTexman [0 ..< n] = filled n" by simp
  then show ?case using Suc.prems by (simp add: resolveAll_def resolve1_filled)
qed

lemma delete_range:
  "AList.delete k (map (\<lambda>i. (i, f i)) [k ..< n]) = map (\<lambda>i. (i, f i)) [Suc k ..< n]"
proof (cases "k < n")
  case True
  have "filter (\<lambda>p. fst p \<noteq> k) (map (\<lambda>i. (i, f i)) [Suc k ..< n]) = map (\<lambda>i. (i, f i)) [Suc k ..< n]"
    by (rule filter_True) auto
  then show ?thesis
    using True by (simp add: upt_conv_Cons AList.delete_eq case_prod_unfold)
next
  case False
  then show ?thesis by (simp add: AList.delete_eq)
qed

lemma evicted_0: "evicted 0 n = filled n"
  by (simp add: evicted_def filled_def newTexman_def)

lemma evict_step: "k < n \<Longrightarrow> evict (evicted k n) (k, k) = evicted (Suc k) n"
  by (simp add: evict_def evicted_def Let_def map_of_range whiteTexture_def delete_range)

lemma foldl_evict: "k \<le> n \<Longrightarrow> foldl evict (filled n) (map (\<lambda>i. (i, i)) [0 ..< k]) = evicted k n"
proof (induction k)
  case 0
  then show ?case by (simp add: evicted_0)
next
  case (Suc k)
  then show ?case by (simp add: evict_step)
qed

lemma usage_sorted: "sort_key snd (map (\<lambda>i. (i, i)) [0 ..< n]) = map (\<lambda>i. (i, i)) [0 ..< n]"
  by (rule sort_key_id_if_sorted) (simp add: comp_def)

lemma cleanup_filled: "cleanupTextures (filled 200) = evicted 40 200"
proof -
  have "textureUsage (filled 200) = map (\<lambda>i. (i, i)) [0 ..< 200]"
    by (simp add: filled_def)
  moreover have "take 40 (map (\<lambda>i. (i, i)) [0 ..< 200]) = map (\<lambda>i. (i, i::nat)) [0 ..< 40]"
    by (simp add: take_map)
  ultimately show ?thesis
    by (simp add: cleanupTextures_def maxTextureCacheSize_def Let_def usage_sorted foldl_evict)
qed

lemma update_fresh_range:
  "k \<le> n \<Longrightarrow> AList.update n v (map (\<lambda>i. (i, f i)) [k ..< n]) = map (\<lambda>i. (i, f i)) [k ..< n] @ [(n, v)]"
  by (rule update_fresh) auto

lemma getTexture_full:
  "\<exists>R. getTexture (filled 200) (ImageObj 200) = Inr (Info (ownInfo 200), R)
      \<and> deletedTextures R = map (\<lambda>i. GLTex (3 + i)) [0 ..< 40]
      \<and> map fst (textureCache R) = [40 ..< 201]
      \<and> map fst (textureUsage R) = [40 ..< 201]
      \<and> nextTexture R = 204
      \<and> images R 0 = (plainImage 1024 1024)\<lparr>glTextureInfo := Some (ownInfo 0)\<rparr>
      \<and> clock R = 200"
proof -
  have a: "map_of (textureCache (filled 200)) 200 = None" "length (textureCache (filled 200)) = 200"
    "images (filled 200) 200 = plainImage 1024 1024" "map_of (atlasCache (filled 200)) 200 = None"
    by (simp_all add: filled_def map_of_range newTexman_def)
  have m: "map fst (map (\<lambda>i. (i, g i)) [40 ..< 200::nat]) = [40 ..< 200]" for g :: "nat \<Rightarrow> 'b"
    by (simp add: comp_def)
  have u: "[40 ..< 201] = [40 ..< 200] @ [200::nat]" by simp
  show ?thesis
    unfolding getTexture_def dedicatedTexture_def
    by (simp add: a Let_def plainImage_def maxTextureCacheSize_def cleanup_filled split del: if_split)
      (simp add: evicted_def filled_def newTexman_def set_memo_def update_fresh_range ownInfo_def
        plainImage_def m u comp_def)
qed

text \<open>
  Claim C6 at a failing input. The images 0 to 200, each 1024 by 1024, are resolved in order
  on a new engine. When image 200 arrives the cache holds 200 textures, so the 40 entries with
  the oldest time stamps, images 0 to 39, are evicted, image 0 first: their textures are
  deleted and their entries leave both maps. But \<^verbatim>\<open>_cleanupTextures\<close> does not reset the
  \<^verbatim>\<open>_glTextureInfo\<close> that getTexture left on the image: resolving image 0 again returns that
  object, with the deleted texture, and allocates nothing.
\<close>

theorem evicted_image_resolves_to_deleted_texture:
  "deletedTextures (resolveAll demoTexman [0 ..< 201]) = map (\<lambda>i. GLTex (3 + i)) [0 ..< 40]
   \<and> map fst (textureCache (resolveAll demoTexman [0 ..< 201])) = [40 ..< 201]
   \<and> map fst (textureUsage (resolveAll demoTexman [0 ..< 201])) = [40 ..< 201]
   \<and> getTexture (resolveAll demoTexman [0 ..< 201]) (ImageObj 0)
       = Inr (Info \<lparr>ti_texture = GLTex 3, ti_uv = None, ti_width = 1024, ti_height = 1024\<rparr>,
              resolveAll demoTexman [0 ..< 201])
   \<and> GLTex 3 \<in> set (deletedTextures (resolveAll demoTexman [0 ..< 201]))
   \<and> nextTexture (resolveAll demoTexman [0 ..< 201]) = 204"
proof -
  obtain R where g: "getTexture (filled 200) (ImageObj 200) = Inr (Info (ownInfo 200), R)"
    and d: "deletedTextures R = map (\<lambda>i. GLTex (3 + i)) [0 ..< 40]"
    and c: "map fst (textureCache R) = [40 ..< 201]" "map fst (textureUsage R) = [40 ..< 201]"
    and n: "nextTexture R = 204"
    and i: "images R 0 = (plainImage 1024 1024)\<lparr>glTextureInfo := Some (ownInfo 0)\<rparr>"
    using getTexture_full by blast
  have s: "(201::nat) = Suc 200" by simp
  have u: "[0 ..< 201] = [0 ..< 200] @ [200::nat]"
    unfolding s by (rule upt_Suc_append) (rule le0)
  have r: "resolveAll demoTexman [0 ..< 201] = advanceClock R 1"
    unfolding u using resolveAll_filled[of 200] g
    by (simp add: resolveAll_def resolve1_def)
  have again: "getTexture (advanceClock R 1) (ImageObj 0)
       = Inr (Info \<lparr>ti_texture = GLTex 3, ti_uv = None, ti_width = 1024, ti_height = 1024\<rparr>,
              advanceClock R 1)"
    using i by (simp add: getTexture_def advanceClock_def plainImage_def ownInfo_def)
  have mem: "GLTex 3 \<in> set (map (\<lambda>i. GLTex (3 + i)) [0 ..< 40])"
    by (simp add: image_iff)
  show ?thesis
    unfolding r using again d c n mem by (simp add: advanceClock_def)
qed

subsection \<open>The sprite batcher: a change of texture\<close>

lemma store_at_append:
  "store_at d i (xs @ ys) = store_at (store_at d i xs) (i + length xs) ys"
  by (induction xs arbitrary: d i) simp_all

lemma store_at_get:
  "ofs \<le> i \<Longrightarrow> i < ofs + length xs \<Longrightarrow> ofs + length xs \<le> arenaLength \<Longrightarrow>
   store_at d ofs xs i = xs ! (i - ofs)"
  using store_at_inside[of ofs xs "i - ofs" d] by simp

lemma length_rect_floats [simp]: "length (rect_floats m x0 y0 x1 y1 tu0 tv0 tu1 tv1 a c) = 36"
  by (cases m) (simp add: rect_floats_def)

lemma length_corner_floats [simp]: "length (corner_floats m p0 p1 p2 p3 tu0 tv0 tu1 tv1 a c) = 36"
  by (cases m) (simp add: corner_floats_def)



lemma arenaLength_val: "arenaLength = 294912"
  by (simp add: arenaLength_def maxBatchSize_def verticesPerSprite_def vertexStride_def)




lemma parseColorString_fst:
  "fst (parseColorString e s)
     = (if s = [] then WHITE_RGBA
        else if map_of (colorCache e) s = None then cssParse e s
        else the (map_of (colorCache e) s))"
  by (simp add: parseColorString_def Let_def split: option.splits)






lemma op_texture_cong: "tm e2 = tm e \<Longrightarrow> op_texture e2 op = op_texture e op"
  by (induction e op rule: op_texture.induct) simp_all

lemma op_quads_cong: "stateStack e2 = stateStack e \<Longrightarrow> op_quads e2 op = op_quads e op"
  by (cases op) (simp_all add: topState_def)








subsection \<open>The atlas: shelf packing\<close>

lemma disjoint_rects_snoc:
  "disjoint_rects (rs @ [r]) \<longleftrightarrow> disjoint_rects rs \<and> (\<forall>s \<in> set rs. \<not> uv_overlap s r)"
  by (induction rs) auto

lemma addToAtlas_frame:
  assumes "addToAtlas t i = (res, t1)"
  shows "atlasSize t1 = atlasSize t" "atlasPadding t1 = atlasPadding t" "images t1 = images t"
    "textureCache t1 = textureCache t" "textureUsage t1 = textureUsage t"
  using assms by (auto simp: addToAtlas_def Let_def split: if_splits)

lemma addToAtlas_None:
  assumes "shelf_inv t rs" and "addToAtlas t i = (None, t1)"
  shows "shelf_inv t1 rs"
  using assms
  by (auto simp: addToAtlas_def Let_def shelf_inv_def on_shelf_def split: if_splits)


lemma addToAtlas_Some_shape:
  assumes "addToAtlas t i = (Some uv, t1)"
  shows "\<exists>X0 Y0 R0.
      ((atlasX t + (img_width (images t i) + atlasPadding t * 2) > atlasSize t
          \<and> X0 = 0 \<and> Y0 = atlasY t + atlasRowHeight t \<and> R0 = 0)
       \<or> (atlasX t + (img_width (images t i) + atlasPadding t * 2) \<le> atlasSize t
          \<and> X0 = atlasX t \<and> Y0 = atlasY t \<and> R0 = atlasRowHeight t))
      \<and> Y0 + (img_height (images t i) + atlasPadding t * 2) \<le> atlasSize t
      \<and> img_width (images t i) > 0 \<and> img_height (images t i) > 0
      \<and> \<not> tainted (images t i)
      \<and> uv = \<lparr>uv_u0 = real_of_int (X0 + atlasPadding t) / real_of_int (atlasSize t),
               uv_v0 = real_of_int (Y0 + atlasPadding t) / real_of_int (atlasSize t),
               uv_u1 = real_of_int (X0 + atlasPadding t + img_width (images t i)) / real_of_int (atlasSize t),
               uv_v1 = real_of_int (Y0 + atlasPadding t + img_height (images t i)) / real_of_int (atlasSize t)\<rparr>
      \<and> atlasX t1 = X0 + (img_width (images t i) + atlasPadding t * 2)
      \<and> atlasY t1 = Y0
      \<and> atlasRowHeight t1 = max R0 (img_height (images t i) + atlasPadding t * 2)
      \<and> atlasUploads t1 = atlasUploads t @
           [(i, X0 + atlasPadding t, Y0 + atlasPadding t, img_width (images t i), img_height (images t i))]
      \<and> atlasCache t1 = AList.update i uv (atlasCache t)"
  using assms
  by (auto simp: addToAtlas_def Let_def split: if_splits)

lemma scaled_le: "(0::real) < S \<Longrightarrow> a * S \<le> b * S \<Longrightarrow> a \<le> b"
  by simp

lemma addToAtlas_Some:
  assumes inv: "shelf_inv t rs" and fit: "fitsAtlas t i"
    and add: "addToAtlas t i = (Some uv, t1)"
  shows "shelf_inv t1 (rs @ [uv])"
proof -
  define S where "S = atlasSize t"
  define p where "p = atlasPadding t"
  define W where "W = img_width (images t i)"
  define H where "H = img_height (images t i)"
  obtain X0 Y0 R0 where
    wrap: "(atlasX t + (W + p * 2) > S \<and> X0 = 0 \<and> Y0 = atlasY t + atlasRowHeight t \<and> R0 = 0)
       \<or> (atlasX t + (W + p * 2) \<le> S \<and> X0 = atlasX t \<and> Y0 = atlasY t \<and> R0 = atlasRowHeight t)"
    and yfit: "Y0 + (H + p * 2) \<le> S" and pos: "W > 0" "H > 0"
    and uv: "uv = \<lparr>uv_u0 = real_of_int (X0 + p) / real_of_int S,
               uv_v0 = real_of_int (Y0 + p) / real_of_int S,
               uv_u1 = real_of_int (X0 + p + W) / real_of_int S,
               uv_v1 = real_of_int (Y0 + p + H) / real_of_int S\<rparr>"
    and st: "atlasX t1 = X0 + (W + p * 2)" "atlasY t1 = Y0" "atlasRowHeight t1 = max R0 (H + p * 2)"
    using addToAtlas_Some_shape[OF add] unfolding S_def p_def W_def H_def by blast
  have fr: "atlasSize t1 = S" "atlasPadding t1 = p"
    using addToAtlas_frame[OF add] by (simp_all add: S_def p_def)
  have base: "S > 0" "p \<ge> 0" "atlasX t \<ge> 0" "atlasY t \<ge> 0" "atlasRowHeight t \<ge> 0"
    using inv by (simp_all add: shelf_inv_def S_def p_def)
  have old: "\<forall>r \<in> set rs. uv_within r \<and> on_shelf t r" and dj: "disjoint_rects rs"
    using inv by (simp_all add: shelf_inv_def)
  have wfit: "W + p * 2 \<le> S" using fit by (simp add: fitsAtlas_def W_def p_def S_def)
  have X0: "X0 \<ge> 0" "X0 + (W + p * 2) \<le> S" and Y0: "Y0 \<ge> atlasY t" and R0: "R0 \<ge> 0"
    using wrap base wfit by auto
  have Sr: "real_of_int S > 0" using base(1) by simp
  have sc: "uv_u0 uv * real_of_int S = real_of_int (X0 + p)"
    "uv_v0 uv * real_of_int S = real_of_int (Y0 + p)"
    "uv_u1 uv * real_of_int S = real_of_int (X0 + p + W)"
    "uv_v1 uv * real_of_int S = real_of_int (Y0 + p + H)"
    using Sr by (simp_all add: uv)
  have within: "uv_within uv"
    unfolding uv_within_def
    using Sr X0 Y0 base pos yfit by (simp add: uv divide_le_cancel)
  have shelf_new: "on_shelf t1 uv"
    unfolding on_shelf_def fr st sc using base pos by simp
  have shelf_old: "on_shelf t1 r" if "r \<in> set rs" for r
  proof -
    have "on_shelf t r" using old that by simp
    then show ?thesis
      unfolding on_shelf_def fr st S_def[symmetric]
      using wrap base pos by (auto simp: max_def)
  qed
  have apart: "\<not> uv_overlap r uv" if "r \<in> set rs" for r
  proof -
    have sh: "on_shelf t r" using old that by simp
    have "uv_v1 r * real_of_int S \<le> real_of_int (Y0 + p) \<or> uv_u1 r * real_of_int S \<le> real_of_int (X0 + p)"
      using sh wrap base unfolding on_shelf_def S_def[symmetric] by auto
    then have "uv_v1 r \<le> uv_v0 uv \<or> uv_u1 r \<le> uv_u0 uv"
      using scaled_le[OF Sr, of "uv_v1 r" "uv_v0 uv"] scaled_le[OF Sr, of "uv_u1 r" "uv_u0 uv"] sc
      by auto
    then show ?thesis by (auto simp: uv_overlap_def)
  qed
  show ?thesis
    unfolding shelf_inv_def fr st
    using base old dj within shelf_new shelf_old apart X0 Y0 R0 pos
    by (auto simp: disjoint_rects_snoc)
qed

lemma placeAll_frame:
  "placeAll t is = (rs, t') \<Longrightarrow>
   atlasSize t' = atlasSize t \<and> atlasPadding t' = atlasPadding t \<and> images t' = images t"
proof (induction "is" arbitrary: t rs t')
  case Nil
  then show ?case by simp
next
  case (Cons i "is")
  obtain res t1 where a: "addToAtlas t i = (res, t1)" by (cases "addToAtlas t i")
  note f = addToAtlas_frame[OF a]
  show ?case
  proof (cases res)
    case None
    then show ?thesis using Cons.prems a Cons.IH[of t1 rs] f by simp
  next
    case (Some uv)
    obtain rs1 t2 where r: "placeAll t1 is = (rs1, t2)" by (cases "placeAll t1 is")
    then show ?thesis using Cons.prems a Some Cons.IH[OF r] f by simp
  qed
qed

lemma placeAll_inv:
  "shelf_inv t acc \<Longrightarrow> \<forall>i \<in> set is. fitsAtlas t i \<Longrightarrow> placeAll t is = (rs, t') \<Longrightarrow>
   shelf_inv t' (acc @ rs)"
proof (induction "is" arbitrary: t acc rs t')
  case Nil
  then show ?case by simp
next
  case (Cons i "is")
  obtain res t1 where a: "addToAtlas t i = (res, t1)" by (cases "addToAtlas t i")
  note f = addToAtlas_frame[OF a]
  have fits1: "\<forall>j \<in> set is. fitsAtlas t1 j"
    using Cons.prems(2) f by (simp add: fitsAtlas_def)
  show ?case
  proof (cases res)
    case None
    have "shelf_inv t1 acc" using addToAtlas_None[OF Cons.prems(1)] a None by simp
    moreover have "placeAll t1 is = (rs, t')" using Cons.prems(3) a None by simp
    ultimately show ?thesis using Cons.IH fits1 by blast
  next
    case (Some uv)
    obtain rs1 t2 where r: "placeAll t1 is = (rs1, t2)" by (cases "placeAll t1 is")
    have e: "rs = uv # rs1" "t' = t2" using Cons.prems(3) a Some r by simp_all
    have "fitsAtlas t i" using Cons.prems(2) by simp
    then have "shelf_inv t1 (acc @ [uv])"
      using addToAtlas_Some[OF Cons.prems(1)] a Some by simp
    then have "shelf_inv t2 ((acc @ [uv]) @ rs1)" using Cons.IH[OF _ fits1 r] by blast
    then show ?thesis using e by simp
  qed
qed

lemma same_atlas_refl [simp]: "same_atlas t t"
  by (simp add: same_atlas_def)

lemma same_atlas_trans: "same_atlas a b \<Longrightarrow> same_atlas b c \<Longrightarrow> same_atlas a c"
  by (simp add: same_atlas_def)

lemma shelf_inv_same: "same_atlas t t' \<Longrightarrow> shelf_inv t' rs = shelf_inv t rs"
  by (simp add: same_atlas_def shelf_inv_def on_shelf_def)

lemma evict_atlas: "same_atlas t (evict t entry)"
  by (simp add: evict_def same_atlas_def Let_def split: option.splits)

lemma foldl_evict_atlas: "same_atlas t (foldl evict t es)"
proof (induction es arbitrary: t)
  case Nil
  then show ?case by simp
next
  case (Cons a es)
  show ?case using same_atlas_trans[OF evict_atlas[of t a] Cons.IH[of "evict t a"]] by simp
qed

lemma cleanupTextures_atlas: "same_atlas t (cleanupTextures t)"
  by (simp add: cleanupTextures_def Let_def foldl_evict_atlas)

lemma dedicatedTexture_atlas:
  "same_atlas t (case dedicatedTexture t i of Inl (err, t') \<Rightarrow> t' | Inr (r, t') \<Rightarrow> t')"
proof -
  have c: "same_atlas t (if length (textureCache t) \<ge> maxTextureCacheSize then cleanupTextures t else t)"
    by (simp add: cleanupTextures_atlas)
  then show ?thesis
    by (auto simp: dedicatedTexture_def Let_def same_atlas_def set_memo_def clear_needsUpdate_def
        split: option.splits)
qed

lemma updateInAtlas_atlas: "same_atlas t (updateInAtlas t i)"
  by (simp add: updateInAtlas_def same_atlas_def Let_def split: option.splits)

lemma addToAtlas_None_cache:
  "addToAtlas t i = (None, t1) \<Longrightarrow> atlasCache t1 = atlasCache t"
  by (auto simp: addToAtlas_def Let_def split: if_splits)

lemma update_fresh_key:
  "map_of al k = None \<Longrightarrow> AList.update k v al = al @ [(k, v)]"
  by (induction al) (auto split: if_splits)

text \<open>getTexture either leaves the atlas as it is or places the image it was given.\<close>

lemma getTexture_atlas:
  "same_atlas t (afterGetTexture t im)
   \<or> (\<exists>i t1. im = ImageObj i \<and> addToAtlas t i = (None, t1) \<and> atlasCache t1 = atlasCache t
         \<and> same_atlas t1 (afterGetTexture t im))
   \<or> (\<exists>i uv t1. im = ImageObj i \<and> map_of (atlasCache t) i = None
         \<and> img_width (images t i) \<le> 512 \<and> addToAtlas t i = (Some uv, t1)
         \<and> atlasCache t1 = atlasCache t @ [(i, uv)]
         \<and> same_atlas t1 (afterGetTexture t im))"
proof (cases im)
  case NoImage
  then show ?thesis by (simp add: afterGetTexture_def getTexture_def)
next
  case (TextureObj h)
  then show ?thesis by (simp add: afterGetTexture_def getTexture_def)
next
  case (ImageObj i)
  show ?thesis
  proof (cases "(glTextureInfo (images t i) \<noteq> None \<and> \<not> needsUpdate (images t i)) \<or> isGLTexture (images t i)")
    case True
    then show ?thesis using ImageObj by (auto simp: afterGetTexture_def getTexture_def Let_def)
  next
    case False
    note slow = False
    show ?thesis
    proof (cases "map_of (atlasCache t) i")
      case (Some uv)
      have "same_atlas t (afterGetTexture t im)"
        using ImageObj slow Some updateInAtlas_atlas[of t i]
        by (auto simp: afterGetTexture_def getTexture_def Let_def same_atlas_def set_memo_def
            clear_needsUpdate_def)
      then show ?thesis by simp
    next
      case None
      show ?thesis
      proof (cases "img_width (images t i) > 0 \<and> img_height (images t i) > 0
                    \<and> img_width (images t i) \<le> 512 \<and> img_height (images t i) \<le> 512
                    \<and> \<not> disableAutoAtlas (images t i)")
        case False
        then have "afterGetTexture t im = (case dedicatedTexture t i of Inl (err, t') \<Rightarrow> t' | Inr (r, t') \<Rightarrow> t')"
          using ImageObj slow None by (auto simp: afterGetTexture_def getTexture_def Let_def)
        then show ?thesis using dedicatedTexture_atlas[of t i] by simp
      next
        case True
        obtain res t1 where a: "addToAtlas t i = (res, t1)" by (cases "addToAtlas t i")
        show ?thesis
        proof (cases res)
          case None': None
          have "afterGetTexture t im = (case dedicatedTexture t1 i of Inl (err, t') \<Rightarrow> t' | Inr (r, t') \<Rightarrow> t')"
            using ImageObj slow None True a None' by (auto simp: afterGetTexture_def getTexture_def Let_def)
          then have "same_atlas t1 (afterGetTexture t im)"
            using dedicatedTexture_atlas[of t1 i] by simp
          then show ?thesis
            using ImageObj a None' addToAtlas_None_cache[of t i t1] by auto
        next
          case (Some uv)
          have "afterGetTexture t im = set_memo t1 i \<lparr>ti_texture = atlasTexture, ti_uv = Some uv,
                      ti_width = img_width (images t i), ti_height = img_height (images t i)\<rparr>"
            using ImageObj slow None True a Some by (auto simp: afterGetTexture_def getTexture_def Let_def)
          then have s: "same_atlas t1 (afterGetTexture t im)"
            by (simp add: same_atlas_def set_memo_def)
          have "atlasCache t1 = atlasCache t @ [(i, uv)]"
            using addToAtlas_Some_shape[OF a[unfolded Some]] update_fresh_key[OF None] by auto
          then show ?thesis using ImageObj None True a Some s by auto
        qed
      qed
    qed
  qed
qed


lemma getTexture_inv:
  assumes "shelf_inv t (map snd (atlasCache t))"
    and "512 + atlasPadding t * 2 \<le> atlasSize t"
  shows "shelf_inv (afterGetTexture t im) (map snd (atlasCache (afterGetTexture t im)))"
proof -
  consider (same) "same_atlas t (afterGetTexture t im)"
    | (full) i t1 where "addToAtlas t i = (None, t1)" "atlasCache t1 = atlasCache t"
        "same_atlas t1 (afterGetTexture t im)"
    | (placed) i uv t1 where "img_width (images t i) \<le> 512" "addToAtlas t i = (Some uv, t1)"
        "atlasCache t1 = atlasCache t @ [(i, uv)]" "same_atlas t1 (afterGetTexture t im)"
    using getTexture_atlas[of t im] by blast
  then show ?thesis
  proof cases
    case same
    then show ?thesis using assms(1) shelf_inv_same[OF same] by (simp add: same_atlas_def)
  next
    case full
    have "shelf_inv t1 (map snd (atlasCache t))" using addToAtlas_None[OF assms(1) full(1)] .
    then show ?thesis using shelf_inv_same[OF full(3)] full(2,3) by (simp add: same_atlas_def)
  next
    case placed
    have "fitsAtlas t i" using placed(1) assms(2) by (simp add: fitsAtlas_def)
    then have "shelf_inv t1 (map snd (atlasCache t) @ [uv])"
      using addToAtlas_Some[OF assms(1) _ placed(2)] by simp
    then show ?thesis using shelf_inv_same[OF placed(4)] placed(3,4) by (simp add: same_atlas_def)
  qed
qed

lemma getTexture_keeps_entries:
  assumes "map_of (atlasCache t) j = Some uv"
  shows "map_of (atlasCache (afterGetTexture t im)) j = Some uv"
proof -
  consider (same) "same_atlas t (afterGetTexture t im)"
    | (full) i t1 where "addToAtlas t i = (None, t1)" "atlasCache t1 = atlasCache t"
        "same_atlas t1 (afterGetTexture t im)"
    | (placed) i uv' t1 where "map_of (atlasCache t) i = None"
        "atlasCache t1 = atlasCache t @ [(i, uv')]" "same_atlas t1 (afterGetTexture t im)"
    using getTexture_atlas[of t im] by blast
  then show ?thesis
  proof cases
    case same
    then show ?thesis using assms by (simp add: same_atlas_def)
  next
    case full
    then show ?thesis using assms by (simp add: same_atlas_def)
  next
    case placed
    then show ?thesis using assms by (simp add: same_atlas_def map_add_Some_iff)
  qed
qed

lemma newTexman_inv: "0 \<le> M \<Longrightarrow> shelf_inv (newTexman M imgs) []"
  by (simp add: newTexman_def shelf_inv_def Let_def)

lemma newTexman_size: "512 + atlasPadding (newTexman M imgs) * 2 \<le> atlasSize (newTexman M imgs) \<longleftrightarrow> M = 0 \<or> 516 \<le> M"
  by (simp add: newTexman_def Let_def)

lemma round_add_int: "round (real_of_int a + real_of_int b) = a + b"
  by (metis of_int_add round_of_int)

lemma updateInAtlas_same_rect:
  assumes "addToAtlas t i = (Some uv, t1)" and "atlasSize t > 0"
  shows "\<exists>x y. atlasUploads t1 = atlasUploads t @ [(i, x, y, img_width (images t i), img_height (images t i))]
          \<and> uv_u0 uv = real_of_int x / real_of_int (atlasSize t)
          \<and> uv_v0 uv = real_of_int y / real_of_int (atlasSize t)
          \<and> (\<forall>t2. map_of (atlasCache t2) i = Some uv \<and> atlasSize t2 = atlasSize t
                 \<and> \<not> tainted (images t2 i)
               \<longrightarrow> updateInAtlas t2 i = t2\<lparr>atlasUploads := atlasUploads t2 @
                      [(i, x, y, img_width (images t2 i), img_height (images t2 i))]\<rparr>)"
proof -
  obtain X0 Y0 where
    uv: "uv = \<lparr>uv_u0 = real_of_int (X0 + atlasPadding t) / real_of_int (atlasSize t),
               uv_v0 = real_of_int (Y0 + atlasPadding t) / real_of_int (atlasSize t),
               uv_u1 = real_of_int (X0 + atlasPadding t + img_width (images t i)) / real_of_int (atlasSize t),
               uv_v1 = real_of_int (Y0 + atlasPadding t + img_height (images t i)) / real_of_int (atlasSize t)\<rparr>"
    and up: "atlasUploads t1 = atlasUploads t @
           [(i, X0 + atlasPadding t, Y0 + atlasPadding t, img_width (images t i), img_height (images t i))]"
    using addToAtlas_Some_shape[OF assms(1)] by blast
  have r: "round (uv_u0 uv * real_of_int (atlasSize t)) = X0 + atlasPadding t"
    "round (uv_v0 uv * real_of_int (atlasSize t)) = Y0 + atlasPadding t"
    using assms(2) by (simp_all add: uv round_add_int)
  show ?thesis
    apply (rule exI[of _ "X0 + atlasPadding t"], rule exI[of _ "Y0 + atlasPadding t"])
    using up r by (auto simp: updateInAtlas_def Let_def uv)
qed

lemma advanceClock_atlas: "same_atlas t (advanceClock t n)"
  by (simp add: same_atlas_def advanceClock_def)

lemma resolve1_after: "resolve1 t i = advanceClock (afterGetTexture t (ImageObj i)) 1"
  by (simp add: resolve1_def afterGetTexture_def)

lemma afterGetTexture_size:
  "atlasSize (afterGetTexture t im) = atlasSize t \<and> atlasPadding (afterGetTexture t im) = atlasPadding t"
  using getTexture_atlas[of t im] addToAtlas_frame(1,2)
  by (auto simp: same_atlas_def)

text \<open>
  On the engine's own path the invariant holds in every state: getTexture hands to the atlas
  only images of at most 512 pixels, and the atlas of the constructor is at least 516 wide
  unless the device reports a smaller maximal texture size.
\<close>

lemma resolveAll_inv:
  assumes "shelf_inv t (map snd (atlasCache t))" and "512 + atlasPadding t * 2 \<le> atlasSize t"
  shows "shelf_inv (resolveAll t is) (map snd (atlasCache (resolveAll t is)))"
  using assms
proof (induction "is" arbitrary: t)
  case Nil
  then show ?case by (simp add: resolveAll_def)
next
  case (Cons i "is")
  let ?t1 = "afterGetTexture t (ImageObj i)"
  have a: "shelf_inv ?t1 (map snd (atlasCache ?t1))"
    by (rule getTexture_inv[OF Cons.prems])
  have s: "same_atlas ?t1 (resolve1 t i)"
    by (simp add: resolve1_after advanceClock_atlas)
  have b: "shelf_inv (resolve1 t i) (map snd (atlasCache (resolve1 t i)))"
    using a shelf_inv_same[OF s] s by (simp add: same_atlas_def)
  have c: "512 + atlasPadding (resolve1 t i) * 2 \<le> atlasSize (resolve1 t i)"
    using Cons.prems(2) s afterGetTexture_size[of t "ImageObj i"] by (simp add: same_atlas_def)
  show ?case using Cons.IH[OF b c] by (simp add: resolveAll_def)
qed

text \<open>
  What holds of the packer. From a state that satisfies the shelf invariant for the
  rectangles handed out so far (the constructor's state does, with none), a sequence of
  \<^verbatim>\<open>_addToAtlas\<close> calls for images that are not wider than the atlas, padding included,
  returns rectangles that lie in the unit square and overlap neither each other nor the
  earlier ones. An entry of the atlas cache stays what it is through every later getTexture,
  returned or thrown, and through \<^verbatim>\<open>_cleanupTextures\<close>. A dirty-image update of a source
  that WebGL accepts writes at the pixel origin of the placement, with the size the image has
  at that time.
\<close>

lemma atlas_rects_disjoint:
  assumes "shelf_inv t acc" and "\<forall>i \<in> set is. fitsAtlas t i"
  shows "(\<forall>r \<in> set (acc @ fst (placeAll t is)). uv_within r)
       \<and> disjoint_rects (acc @ fst (placeAll t is))
       \<and> shelf_inv (snd (placeAll t is)) (acc @ fst (placeAll t is))
       \<and> (\<forall>im j uv. map_of (atlasCache t) j = Some uv
             \<longrightarrow> map_of (atlasCache (afterGetTexture t im)) j = Some uv)
       \<and> atlasCache (cleanupTextures t) = atlasCache t
       \<and> (\<forall>i uv t1. addToAtlas t i = (Some uv, t1) \<longrightarrow>
            (\<exists>x y. atlasUploads t1 = atlasUploads t @
                      [(i, x, y, img_width (images t i), img_height (images t i))]
               \<and> uv_u0 uv = real_of_int x / real_of_int (atlasSize t)
               \<and> uv_v0 uv = real_of_int y / real_of_int (atlasSize t)
               \<and> (\<forall>t2. map_of (atlasCache t2) i = Some uv \<and> atlasSize t2 = atlasSize t
                        \<and> \<not> tainted (images t2 i)
                  \<longrightarrow> updateInAtlas t2 i = t2\<lparr>atlasUploads := atlasUploads t2 @
                        [(i, x, y, img_width (images t2 i), img_height (images t2 i))]\<rparr>)))"
proof -
  obtain rs t' where p: "placeAll t is = (rs, t')" by (cases "placeAll t is")
  have inv: "shelf_inv t' (acc @ rs)" by (rule placeAll_inv[OF assms p])
  have keep: "\<forall>im j uv. map_of (atlasCache t) j = Some uv
             \<longrightarrow> map_of (atlasCache (afterGetTexture t im)) j = Some uv"
    using getTexture_keeps_entries by blast
  have cl: "atlasCache (cleanupTextures t) = atlasCache t"
    using cleanupTextures_atlas[of t] by (simp add: same_atlas_def)
  have S: "atlasSize t > 0" using assms(1) by (simp add: shelf_inv_def)
  have upd: "\<exists>x y. atlasUploads t1 = atlasUploads t @
                      [(i, x, y, img_width (images t i), img_height (images t i))]
               \<and> uv_u0 uv = real_of_int x / real_of_int (atlasSize t)
               \<and> uv_v0 uv = real_of_int y / real_of_int (atlasSize t)
               \<and> (\<forall>t2. map_of (atlasCache t2) i = Some uv \<and> atlasSize t2 = atlasSize t
                        \<and> \<not> tainted (images t2 i)
                  \<longrightarrow> updateInAtlas t2 i = t2\<lparr>atlasUploads := atlasUploads t2 @
                        [(i, x, y, img_width (images t2 i), img_height (images t2 i))]\<rparr>)"
    if "addToAtlas t i = (Some uv, t1)" for i uv t1
    by (rule updateInAtlas_same_rect[OF that S])
  show ?thesis
    using inv keep cl upd unfolding p by (simp add: shelf_inv_def)
qed

lemmas atlas_eval =
  newTexman_def plainImage_def addToAtlas_def Let_def shelf_inv_def fitsAtlas_def
  uv_within_def uv_overlap_def

text \<open>
  Without that condition a rectangle can leave the unit square: \<^verbatim>\<open>_addToAtlas\<close> tests the
  height against the atlas (line 1188) but the width only to choose the row (line 1187). Called
  with an image of 5000 by 10 on the atlas of 4096 pixels it places the image at the start of
  a row. On the engine's own path, where getTexture passes images of at most 512 pixels, this
  needs an atlas below 516 pixels: a device whose maximal texture size is 256 and an image
  of 300 by 10.
\<close>

lemma atlas_rect_beyond_unit_square:
  "shelf_inv (newTexman 4096 (\<lambda>i. plainImage 5000 10)) []
   \<and> fst (placeAll (newTexman 4096 (\<lambda>i. plainImage 5000 10)) [0])
       = [\<lparr>uv_u0 = 2 / 4096, uv_v0 = 2 / 4096, uv_u1 = 5002 / 4096, uv_v1 = 12 / 4096\<rparr>]
   \<and> \<not> uv_within \<lparr>uv_u0 = 2 / 4096, uv_v0 = 2 / 4096, uv_u1 = 5002 / 4096, uv_v1 = 12 / 4096\<rparr>
   \<and> resolvedTexture (newTexman 256 (\<lambda>i. plainImage 300 10)) (ImageObj 0)
       = Some (Info \<lparr>ti_texture = atlasTexture,
                     ti_uv = Some \<lparr>uv_u0 = 2 / 256, uv_v0 = 2 / 256, uv_u1 = 302 / 256, uv_v1 = 12 / 256\<rparr>,
                     ti_width = 300, ti_height = 10\<rparr>)
   \<and> \<not> uv_within \<lparr>uv_u0 = 2 / 256, uv_v0 = 2 / 256, uv_u1 = 302 / 256, uv_v1 = 12 / 256\<rparr>"
  by (simp add: atlas_eval resolvedTexture_def getTexture_def set_memo_def)

lemmas resize_eval =
  demoResized_def demoSmallSprites_def afterGetTexture_def getTexture_def newTexman_def
  plainImage_def addToAtlas_def updateInAtlas_def Let_def set_memo_def clear_needsUpdate_def
  markDirty_def resizeImage_def resolvedTexture_def atlasTexture_def round_add_int

text \<open>
  Claim C5 at a failing input. Two sprites of 100 by 50 pixels are placed side by side in the
  atlas, at the pixels (2, 2) and (106, 2). The first, a canvas, is then resized to 300 by 50
  and marked dirty. The next getTexture finds its atlas entry and calls \<^verbatim>\<open>_updateInAtlas\<close>,
  which uploads the whole source at the old origin: 300 by 50 pixels from (2, 2), over the
  rectangle of the second sprite. The entry and the UV rectangle returned stay those of the
  placement. The update does not rewrite the same rectangle.
\<close>

theorem resized_image_update_overwrites_neighbour:
  "atlasUploads demoSmallSprites = [(0, 2, 2, 100, 50), (1, 106, 2, 100, 50)]
   \<and> atlasCache demoSmallSprites
       = [(0, \<lparr>uv_u0 = 2 / 4096, uv_v0 = 2 / 4096, uv_u1 = 102 / 4096, uv_v1 = 52 / 4096\<rparr>),
          (1, \<lparr>uv_u0 = 106 / 4096, uv_v0 = 2 / 4096, uv_u1 = 206 / 4096, uv_v1 = 52 / 4096\<rparr>)]
   \<and> resolvedTexture demoResized (ImageObj 0)
       = Some (Info \<lparr>ti_texture = atlasTexture,
                     ti_uv = Some \<lparr>uv_u0 = 2 / 4096, uv_v0 = 2 / 4096, uv_u1 = 102 / 4096, uv_v1 = 52 / 4096\<rparr>,
                     ti_width = 300, ti_height = 50\<rparr>)
   \<and> atlasUploads (afterGetTexture demoResized (ImageObj 0))
       = [(0, 2, 2, 100, 50), (1, 106, 2, 100, 50), (0, 2, 2, 300, 50)]
   \<and> upload_overlap (0, 2, 2, 300, 50) (1, 106, 2, 100, 50)
   \<and> atlasCache (afterGetTexture demoResized (ImageObj 0)) = atlasCache demoSmallSprites"
  by (simp add: resize_eval upload_overlap_def)

subsection \<open>The sprite batcher: the floats of the draw call\<close>

lemma addRectVertices_eq:
  "addRectVertices e ofs m x0 y0 x1 y1 tu0 tv0 tu1 tv1 a c
     = e\<lparr>vertexData := store_at (vertexData e) ofs (rect_floats m x0 y0 x1 y1 tu0 tv0 tu1 tv1 a c)\<rparr>"
  by (cases m)
     (simp add: addRectVertices_def rect_floats_def addVertex_def Let_def store_at_append
        add.assoc del: store_at.simps)

lemma addCornerVertices_eq:
  "addCornerVertices e ofs m p0 p1 p2 p3 tu0 tv0 tu1 tv1 a c
     = e\<lparr>vertexData := store_at (vertexData e) ofs (corner_floats m p0 p1 p2 p3 tu0 tv0 tu1 tv1 a c)\<rparr>"
  by (cases m)
     (simp add: addCornerVertices_def corner_floats_def addVertex_def Let_def store_at_append
        add.assoc del: store_at.simps)

lemma store_at_same:
  "ofs \<le> i \<Longrightarrow> i < ofs + length xs \<Longrightarrow> ofs + length xs \<le> arenaLength \<Longrightarrow>
   store_at d ofs xs i = store_at d' ofs xs i"
  by (simp add: store_at_get)

lemma currentTexture_same: "currentTexture e = c \<Longrightarrow> e\<lparr>currentTexture := c\<rparr> = e"
  by auto

lemma drawRect_arena:
  assumes "batchCount e = 0 \<or> currentTexture e = Some whiteTexture"
    and "batchCount e + 1 \<le> maxBatchSize"
  shows "arena_only (drawRect' e x y w h c al) (drawRect' (e\<lparr>vertexData := d\<rparr>) x y w h c al)
       \<and> (\<forall>i. batchCount e * 36 \<le> i \<and> i < (batchCount e + 1) * 36 \<longrightarrow>
             vertexData (drawRect' (e\<lparr>vertexData := d\<rparr>) x y w h c al) i
               = vertexData (drawRect' e x y w h c al) i)"
proof -
  have le: "batchCount e * 36 + 36 \<le> arenaLength"
    using assms(2) by (simp add: arenaLength_val maxBatchSize_def)
  have f: "drawRect' E x y w h c al
      = E\<lparr>currentTexture := Some whiteTexture,
           vertexData := store_at (vertexData E) (batchCount e * 36)
              (rect_floats (matrix (topState e)) x y (x + w) (y + h) 0 0 1 1 al c),
           batchCount := batchCount e + 1\<rparr>"
    if "E = e \<or> E = e\<lparr>vertexData := d\<rparr>" for E
    using that assms
    by (auto simp: drawRect'_def Let_def flush_empty addRectVertices_eq topState_def
        verticesPerSprite_def vertexStride_def maxBatchSize_def currentTexture_same mult.commute)
  show ?thesis
    unfolding f[of e, simplified] f[of "e\<lparr>vertexData := d\<rparr>", simplified]
    using le by (auto simp: arena_only_def intro!: store_at_same)
qed


lemma switchTexture_arena:
  assumes "instanceofWebGLTexture T" and "batchCount e = 0 \<or> currentTexture e = Some T"
    and "batchCount e < maxBatchSize"
  shows "switchTexture (e\<lparr>tm := t'\<rparr>) T = e\<lparr>tm := t', currentTexture := Some T\<rparr>"
    "switchTexture (e\<lparr>vertexData := d, tm := t'\<rparr>) T = e\<lparr>vertexData := d, tm := t', currentTexture := Some T\<rparr>"
  using assms by (simp_all add: switchTexture_same)

lemma drawTexture_arena:
  assumes "op_texture e (OpDrawTexture info a) = Some T" and "instanceofWebGLTexture T"
    and "batchCount e = 0 \<or> currentTexture e = Some T"
    and "batchCount e + 1 \<le> maxBatchSize"
  shows "\<exists>e' e2'. drawTexture e info a = Inr e' \<and> drawTexture (e\<lparr>vertexData := d\<rparr>) info a = Inr e2'
           \<and> arena_only e' e2'
           \<and> (\<forall>i. batchCount e * 36 \<le> i \<and> i < (batchCount e + 1) * 36 \<longrightarrow>
                 vertexData e2' i = vertexData e' i)"
proof -
  obtain uvo t' where r: "(case info of
              NoTex \<Rightarrow> None
            | TexHandle h \<Rightarrow> Some (Inr (GLTex h, None, tm e))
            | TexInfo ti \<Rightarrow> Some (Inr (ti_texture ti, ti_uv ti, tm e))
            | TexImage i \<Rightarrow>
                Some (case getTexture (tm e) (ImageObj i) of
                        Inl (err, t') \<Rightarrow> Inl (err, t')
                      | Inr (r, t') \<Rightarrow> Inr (textureOf r, uvOf r, t'))) = Some (Inr (T, uvo, t'))"
    using assms(1) by (cases info) (auto dest!: getTexture_resolved)
  have lt: "batchCount e < maxBatchSize" using assms(4) by simp
  note sw = switchTexture_arena[OF assms(2,3) lt]
  have le: "batchCount e * 36 + 36 \<le> arenaLength"
    using assms(4) by (simp add: arenaLength_val maxBatchSize_def)
  have tmd: "tm (e\<lparr>vertexData := d\<rparr>) = tm e" by simp
  show ?thesis
    unfolding drawTexture_def tmd r
    apply (simp only: Let_def split_beta option.case sum.case prod.case)
    apply (intro exI conjI)
       apply (rule refl)
      apply (rule refl)
     apply (simp add: sw addRectVertices_eq addCornerVertices_eq arena_only_def topState_def
        del: store_at.simps)
    using le
    apply (auto simp: sw addRectVertices_eq addCornerVertices_eq topState_def
        simp del: store_at.simps intro!: store_at_same)
    done
qed

lemma drawSpriteFast_arena:
  assumes "op_texture e (OpDrawSpriteFast im x y w h rotation al tint) = Some T"
    and "instanceofWebGLTexture T"
    and "batchCount e = 0 \<or> currentTexture e = Some T"
    and "batchCount e + 1 \<le> maxBatchSize"
  shows "\<exists>e' e2'. drawSpriteFast e im x y w h rotation al tint = Inr e'
           \<and> drawSpriteFast (e\<lparr>vertexData := d\<rparr>) im x y w h rotation al tint = Inr e2'
           \<and> arena_only e' e2'
           \<and> (\<forall>i. batchCount e * 36 \<le> i \<and> i < (batchCount e + 1) * 36 \<longrightarrow>
                 vertexData e2' i = vertexData e' i)"
proof -
  have ni: "im \<noteq> NoImage" using assms(1) by auto
  then obtain r where rt: "resolvedTexture (tm e) im = Some r"
    and rT: "(case r of Info ti \<Rightarrow> ti_texture ti
                           | Raw t \<Rightarrow> if instanceofWebGLTexture t then t else whiteTexture) = T"
    using assms(1) by (cases im) auto
  obtain t' where g: "getTexture (tm e) im = Inr (r, t')"
    using getTexture_resolved[OF rt] by blast
  have tx: "fst (case r of
                     Info ti \<Rightarrow> (ti_texture ti, (case ti_uv ti of Some r \<Rightarrow> r
                          | None \<Rightarrow> \<lparr>uv_u0 = 0, uv_v0 = 0, uv_u1 = 1, uv_v1 = 1\<rparr>))
                   | Raw t \<Rightarrow> (if instanceofWebGLTexture t then t else whiteTexture,
                          \<lparr>uv_u0 = 0, uv_v0 = 0, uv_u1 = 1, uv_v1 = 1\<rparr>)) = T"
    using rT by (cases r) auto
  have lt: "batchCount e < maxBatchSize" using assms(4) by simp
  note sw = switchTexture_arena[OF assms(2,3) lt]
  have le: "batchCount e * 36 + 36 \<le> arenaLength"
    using assms(4) by (simp add: arenaLength_val maxBatchSize_def)
  have tmd: "tm (e\<lparr>vertexData := d\<rparr>) = tm e" by simp
  show ?thesis
    unfolding drawSpriteFast_def tmd
    apply (simp only: ni if_False g sum.case prod.case Let_def split_beta)
    apply (intro exI conjI)
       apply (rule refl)
      apply (rule refl)
     apply (simp only: fst_conv snd_conv tx sw)
     apply (simp add: arena_only_def topState_def del: store_at.simps)
    apply (simp only: fst_conv snd_conv tx sw)
    using le
    apply (auto simp: topState_def simp del: store_at.simps intro!: store_at_same)
    done
qed


lemma store_at_two_same:
  assumes "ofs + length xs = ofs2" and "ofs \<le> i" and "i < ofs2 + length ys"
    and "ofs2 + length ys \<le> arenaLength"
  shows "store_at (store_at d ofs xs) ofs2 ys i = store_at (store_at d' ofs xs) ofs2 ys i"
proof (cases "i < ofs2")
  case True
  then show ?thesis
    using assms store_at_same[of ofs i xs d d'] by (simp add: store_at_other)
next
  case False
  then show ?thesis using assms by (intro store_at_same) simp_all
qed

lemma parseColorString_snd_eq:
  "snd (parseColorString e s)
     = e\<lparr>colorCache := (if s = [] \<or> map_of (colorCache e) s \<noteq> None \<or> \<not> length (colorCache e) < 1000
                         then colorCache e else colorCache e @ [(s, cssParse e s)])\<rparr>"
  by (auto simp: parseColorString_def Let_def split: option.splits)

lemma drawImage_arena:
  assumes "op_texture e (OpDrawImage im args) = Some T"
    and "instanceofWebGLTexture T"
    and "batchCount e = 0 \<or> currentTexture e = Some T"
    and "batchCount e + op_quads e (OpDrawImage im args) \<le> maxBatchSize"
  shows "\<exists>e' e2'. drawImage e im args = Inr e' \<and> drawImage (e\<lparr>vertexData := d\<rparr>) im args = Inr e2'
           \<and> arena_only e' e2'
           \<and> (\<forall>i. batchCount e * 36 \<le> i \<and> i < (batchCount e + op_quads e (OpDrawImage im args)) * 36 \<longrightarrow>
                 vertexData e2' i = vertexData e' i)"
proof -
  from assms(1) obtain i where im: "im = Some i" by (cases im) auto
  from assms(1) im obtain r where rt: "resolvedTexture (tm e) (ImageObj i) = Some r"
    and rT: "textureOf r = T" by auto
  obtain t' where g: "getTexture (tm e) (ImageObj i) = Inr (r, t')"
    using getTexture_resolved[OF rt] by blast
  have lt: "batchCount e < maxBatchSize" using assms(4) by (auto split: if_splits)
  note sw = switchTexture_arena[OF assms(2,3) lt]
  have ts: "topState (e\<lparr>tm := t', currentTexture := Some T\<rparr>) = topState e"
    "topState (e\<lparr>vertexData := d, tm := t', currentTexture := Some T\<rparr>) = topState e"
    by (simp_all add: topState_def)
  have tmd: "tm (e\<lparr>vertexData := d\<rparr>) = tm e" by simp
  show ?thesis
  proof (cases "shadowActive (topState e)")
    case False
    then have ns: "\<not> (shadowBlur (topState e) > 0 \<and> shadowColor (topState e) \<noteq> ''transparent''
                              \<and> shadowColor (topState e) \<noteq> ''rgba(0,0,0,0)'')"
      by (simp add: shadowActive_def)
    have le: "batchCount e * 36 + 36 \<le> arenaLength"
      using assms(4) False by (simp add: arenaLength_val maxBatchSize_def)
    show ?thesis
      unfolding drawImage_def im tmd
      apply (simp only: option.case Let_def split_beta g sum.case prod.case fst_conv snd_conv rT sw ts ns if_False)
      apply (intro exI conjI)
         apply (rule refl)
        apply (rule refl)
       apply (simp add: False addRectVertices_eq arena_only_def del: store_at.simps)
      using le
      apply (auto simp: False addRectVertices_eq simp del: store_at.simps intro!: store_at_same)
      done
  next
    case True
    then have sh: "(shadowBlur (topState e) > 0 \<and> shadowColor (topState e) \<noteq> ''transparent''
                              \<and> shadowColor (topState e) \<noteq> ''rgba(0,0,0,0)'')"
      by (simp add: shadowActive_def)
    have two: "batchCount e + 2 \<le> maxBatchSize" using assms(4) True by simp
    have le: "batchCount e * 36 + 72 \<le> arenaLength"
      using two by (simp add: arenaLength_val maxBatchSize_def)
    have nf: "\<not> maxBatchSize \<le> Suc (batchCount e)" using two by simp
    show ?thesis
      unfolding drawImage_def im tmd
      apply (simp only: option.case Let_def split_beta g sum.case prod.case fst_conv snd_conv rT sw ts sh if_True)
      apply (intro exI conjI)
         apply (rule refl)
        apply (rule refl)
       apply (simp add: True nf addRectVertices_eq parseColorString_snd_eq parseColorString_fst
          arena_only_def del: store_at.simps)
      using le
      apply (auto simp: True nf addRectVertices_eq parseColorString_snd_eq parseColorString_fst
          simp del: store_at.simps intro!: store_at_two_same)
      done
  qed
qed

lemma exec_arena:
  assumes "op_texture e op = Some T" and "instanceofWebGLTexture T"
    and "batchCount e = 0 \<or> currentTexture e = Some T"
    and "batchCount e + op_quads e op \<le> maxBatchSize"
  shows "\<exists>e' e2'. exec e op = Inr e' \<and> exec (e\<lparr>vertexData := d\<rparr>) op = Inr e2'
           \<and> arena_only e' e2'
           \<and> (\<forall>i. batchCount e * 36 \<le> i \<and> i < (batchCount e + op_quads e op) * 36 \<longrightarrow>
                 vertexData e2' i = vertexData e' i)"
proof (cases op)
  case (OpDrawImage im args)
  then show ?thesis using drawImage_arena[of e im args T d] assms by simp
next
  case (OpDrawTexture info a)
  then show ?thesis using drawTexture_arena[of e info a T d] assms by simp
next
  case (OpDrawSpriteFast im x y w h rotation al tint)
  then show ?thesis using drawSpriteFast_arena[of e im x y w h rotation al tint T d] assms by simp
next
  case (OpDrawRect x y w h c al)
  then show ?thesis using drawRect_arena[of e x y w h c al d] assms by simp
qed

lemma arena_only_vertexData: "arena_only e e2 \<Longrightarrow> e2 = e\<lparr>vertexData := vertexData e2\<rparr>"
  by (simp add: arena_only_def)

lemma run_arena:
  assumes gl: "instanceofWebGLTexture T"
  shows "same_texture T e ops \<Longrightarrow> batchCount e = 0 \<or> currentTexture e = Some T \<Longrightarrow>
         batchCount e + quad_total e ops \<le> maxBatchSize \<Longrightarrow> arena_only e e2 \<Longrightarrow>
         stored e2 ops = stored e ops
         \<and> same_texture T e2 ops \<and> quad_total e2 ops = quad_total e ops
         \<and> (\<exists>e' e2'. run e ops = Inr e' \<and> run e2 ops = Inr e2' \<and> arena_only e' e2')"
proof (induction ops arbitrary: e e2)
  case Nil
  then show ?case by simp
next
  case (Cons op ops)
  have t: "op_texture e op = Some T" using Cons.prems(1) by simp
  have q: "batchCount e + op_quads e op \<le> maxBatchSize" using Cons.prems(3) by simp
  have e2: "e2 = e\<lparr>vertexData := vertexData e2\<rparr>"
    by (rule arena_only_vertexData[OF Cons.prems(4)])
  obtain e1 e21 where x: "exec e op = Inr e1" and x2: "exec e2 op = Inr e21"
    and a1: "arena_only e1 e21"
    and seg: "\<forall>i. batchCount e * 36 \<le> i \<and> i < (batchCount e + op_quads e op) * 36 \<longrightarrow>
                 vertexData e21 i = vertexData e1 i"
    using exec_arena[OF t gl Cons.prems(2) q, of "vertexData e2"] e2 by metis
  have en: "enqueued T (op_quads e op) e e1"
    using exec_enqueues[OF t gl Cons.prems(2) q] x by auto
  have b1: "batchCount e1 = batchCount e + op_quads e op" and c1: "currentTexture e1 = Some T"
    using en by (simp_all add: enqueued_def)
  have st: "same_texture T e1 ops" using Cons.prems(1) x by simp
  have qt: "quad_total e (op # ops) = op_quads e op + quad_total e1 ops" using x by simp
  have bound: "batchCount e1 + quad_total e1 ops \<le> maxBatchSize"
    using Cons.prems(3) qt b1 by simp
  have ih: "stored e21 ops = stored e1 ops
         \<and> same_texture T e21 ops \<and> quad_total e21 ops = quad_total e1 ops
         \<and> (\<exists>e' e2'. run e1 ops = Inr e' \<and> run e21 ops = Inr e2' \<and> arena_only e' e2')"
    using Cons.IH[OF st _ bound a1] c1 by simp
  have f2: "batchCount e2 = batchCount e" "op_quads e2 op = op_quads e op"
    using arena_only_fields[OF Cons.prems(4)] op_quads_cong[of e2 e op] by simp_all
  have m: "map (vertexData e21) [batchCount e * 36 ..< (batchCount e + op_quads e op) * 36]
         = map (vertexData e1) [batchCount e * 36 ..< (batchCount e + op_quads e op) * 36]"
    using seg by simp
  have t2: "op_texture e2 op = Some T"
    using t op_texture_cong[of e2 e op] arena_only_fields[OF Cons.prems(4)] by simp
  have "stored e2 (op # ops) = stored e (op # ops)"
    using x x2 ih m f2 by simp
  moreover have "same_texture T e2 (op # ops)" using t2 x2 ih by simp
  moreover have "quad_total e2 (op # ops) = quad_total e (op # ops)" using x x2 ih f2 by simp
  ultimately show ?case using x x2 ih by simp
qed

text \<open>
  Claim C1. From an empty batch, calls of drawImage, drawTexture, drawSpriteFast and
  \<^verbatim>\<open>_drawRect\<close> that all return and all compare the same WebGLTexture \<open>T\<close>, enqueuing \<open>N\<close>
  quads in all with \<open>N\<close> at most 8192, submit nothing; the flush that follows issues exactly
  one draw call, with \<open>T\<close> bound, over the \<open>N * 4 * 9\<close> floats the calls stored, in call order,
  with \<open>N * 6\<close> indices (\<open>N * 2\<close> triangles), and leaves the batch empty and no texture bound.
  These floats are written by the calls: they are the same whatever the arena held before
  the first call. The static index buffer holds for every quad \<open>k\<close> below the capacity the
  indices \<open>4k, 4k+1, 4k+2, 4k, 4k+2, 4k+3\<close>, without wrap-around in 16 bits. A flush of an
  empty batch changes nothing.
\<close>

theorem batch_same_texture:
  assumes "instanceofWebGLTexture T" and "batchCount e = 0"
    and "same_texture T e ops" and "quad_total e ops \<le> maxBatchSize"
  shows "\<exists>e'. run e ops = Inr e'
       \<and> submissions e' = submissions e \<and> batchCount e' = quad_total e ops
       \<and> length (stored e ops) = quad_total e ops * 4 * 9
       \<and> (ops \<noteq> [] \<longrightarrow>
            submissions (flush e') = submissions e @
              [\<lparr>d_texture = T, d_vertices = stored e ops,
                d_count = quad_total e ops * 6, d_blend = blendFunc e\<rparr>]
          \<and> drawCallCount (flush e') = drawCallCount e + 1
          \<and> triangleCount (flush e') = triangleCount e + quad_total e ops * 2
          \<and> batchCount (flush e') = 0 \<and> currentTexture (flush e') = None)
       \<and> (\<forall>d. stored (e\<lparr>vertexData := d\<rparr>) ops = stored e ops
              \<and> (\<exists>e''. run (e\<lparr>vertexData := d\<rparr>) ops = Inr e''
                     \<and> (ops \<noteq> [] \<longrightarrow>
                          submissions (flush e'') = submissions e @
                            [\<lparr>d_texture = T, d_vertices = stored e ops,
                              d_count = quad_total e ops * 6, d_blend = blendFunc e\<rparr>])))
       \<and> (ops = [] \<longrightarrow> flush e' = e)
       \<and> (\<forall>e0. batchCount e0 = 0 \<longrightarrow> flush e0 = e0)
       \<and> (\<forall>k < quad_total e ops.
             map (\<lambda>j. unat (indexBuffer (k * 6 + j))) [0 ..< 6]
               = [k * 4, k * 4 + 1, k * 4 + 2, k * 4, k * 4 + 2, k * 4 + 3])"
proof -
  have main: "\<exists>e'. run E ops = Inr e'
       \<and> submissions e' = submissions E \<and> batchCount e' = quad_total e ops
       \<and> length (stored E ops) = quad_total e ops * 4 * 9
       \<and> (ops \<noteq> [] \<longrightarrow>
            submissions (flush e') = submissions E @
              [\<lparr>d_texture = T, d_vertices = stored E ops,
                d_count = quad_total e ops * 6, d_blend = blendFunc E\<rparr>]
          \<and> drawCallCount (flush e') = drawCallCount E + 1
          \<and> triangleCount (flush e') = triangleCount E + quad_total e ops * 2
          \<and> batchCount (flush e') = 0 \<and> currentTexture (flush e') = None)
       \<and> (ops = [] \<longrightarrow> flush e' = E)"
    if b0: "batchCount E = 0" and st: "same_texture T E ops" and qe: "quad_total E ops = quad_total e ops"
    for E
  proof -
    obtain e' where r: "run E ops = Inr e'"
      and b: "batchCount e' = quad_total E ops"
      and c: "ops \<noteq> [] \<longrightarrow> currentTexture e' = Some T"
      and s: "submissions e' = submissions E" "drawCallCount e' = drawCallCount E"
             "triangleCount e' = triangleCount E" "blendFunc e' = blendFunc E"
      and m: "map (vertexData e') [0 ..< batchCount e' * 36] = stored E ops"
      using run_enqueues[OF assms(1) st, of ] b0 assms(4) qe by auto
    have len: "length (stored E ops) = quad_total e ops * 4 * 9"
      using arg_cong[OF m, of length] b qe by simp
    have nonempty: "submissions (flush e') = submissions E @
                [\<lparr>d_texture = T, d_vertices = stored E ops,
                  d_count = quad_total e ops * 6, d_blend = blendFunc E\<rparr>]
            \<and> drawCallCount (flush e') = drawCallCount E + 1
            \<and> triangleCount (flush e') = triangleCount E + quad_total e ops * 2
            \<and> batchCount (flush e') = 0 \<and> currentTexture (flush e') = None"
      if ne: "ops \<noteq> []"
    proof -
      have pos: "batchCount e' > 0" using quad_total_pos[OF ne, of E] b by simp
      have bt: "boundTexture e' = T" using c ne assms(1) by (simp add: boundTexture_gl)
      show ?thesis
        using flush_nonempty[OF pos] bt s m b qe by (simp add: indicesPerSprite_def)
    qed
    have empty: "flush e' = E" if "ops = []"
      using that r b0 by (simp add: flush_empty)
    have b': "batchCount e' = quad_total e ops" using b qe by simp
    show ?thesis using r s(1) b' len nonempty empty by blast
  qed
  have idx: "\<forall>k < quad_total e ops.
             map (\<lambda>j. unat (indexBuffer (k * 6 + j))) [0 ..< 6]
               = [k * 4, k * 4 + 1, k * 4 + 2, k * 4, k * 4 + 2, k * 4 + 3]"
  proof (intro allI impI)
    fix k assume "k < quad_total e ops"
    then have "k < maxBatchSize" using assms(4) by simp
    then show "map (\<lambda>j. unat (indexBuffer (k * 6 + j))) [0 ..< 6]
               = [k * 4, k * 4 + 1, k * 4 + 2, k * 4, k * 4 + 2, k * 4 + 3]"
      by (rule indexBuffer_winding)
  qed
  have indep: "stored (e\<lparr>vertexData := d\<rparr>) ops = stored e ops
              \<and> (\<exists>e''. run (e\<lparr>vertexData := d\<rparr>) ops = Inr e''
                     \<and> (ops \<noteq> [] \<longrightarrow>
                          submissions (flush e'') = submissions e @
                            [\<lparr>d_texture = T, d_vertices = stored e ops,
                              d_count = quad_total e ops * 6, d_blend = blendFunc e\<rparr>]))" for d
  proof -
    let ?E = "e\<lparr>vertexData := d\<rparr>"
    have ao: "arena_only e ?E" by simp
    have bnd: "batchCount e + quad_total e ops \<le> maxBatchSize" using assms(2,4) by simp
    have sto: "stored ?E ops = stored e ops"
      and stE: "same_texture T ?E ops \<and> quad_total ?E ops = quad_total e ops"
      using run_arena[OF assms(1,3) _ bnd ao] assms(2) by simp_all
    obtain e'' where "run ?E ops = Inr e''"
      and "ops \<noteq> [] \<longrightarrow>
            submissions (flush e'') = submissions ?E @
              [\<lparr>d_texture = T, d_vertices = stored ?E ops,
                d_count = quad_total e ops * 6, d_blend = blendFunc ?E\<rparr>]"
      using main[of ?E] stE assms(2) by auto
    then show ?thesis using sto by auto
  qed
  show ?thesis
    using main[of e, OF assms(2,3) refl] indep idx flush_empty by blast
qed

lemma map_store_at:
  "ofs + length xs \<le> arenaLength \<Longrightarrow> n = ofs + length xs \<Longrightarrow>
   map (store_at d ofs xs) [ofs ..< n] = xs"
  by (rule nth_equalityI) (simp_all add: store_at_get)

lemmas stored_eval =
  demoEngine_def newEngine_def newTexman_def getTexture_def dedicatedTexture_def
  plainImage_def createDefaultState_def alloc_def Let_def maxTextureCacheSize_def
  drawImage_def drawTexture_def drawSpriteFast_def drawRect'_def switchTexture_def
  resolvedTexture_def textureOf_def uvOf_def subUV_def set_memo_def topState_def
  instanceofWebGLTexture_def whiteTexture_def flush_def maxBatchSize_def
  addRectVertices_eq addCornerVertices_eq rect_floats_def corner_floats_def
  vertex_floats_def WHITE_RGBA_def map_store_at arenaLength_val

lemma demo_stored: "stored demoEngine demoSprites = demoSpriteFloats"
  by (simp add: demoSprites_def demoSpriteFloats_def stored_eval shadowActive_def
      del: store_at.simps upt_rec_numeral)

theorem batch_same_texture_witness:
  "instanceofWebGLTexture (GLTex 3) \<and> batchCount demoEngine = 0
   \<and> same_texture (GLTex 3) demoEngine demoSprites
   \<and> quad_total demoEngine demoSprites = 3
   \<and> (\<exists>e'. run demoEngine demoSprites = Inr e'
          \<and> submissions e' = []
          \<and> submissions (flush e')
              = [\<lparr>d_texture = GLTex 3, d_vertices = demoSpriteFloats, d_count = 18,
                   d_blend = (ONE, ONE_MINUS_SRC_ALPHA)\<rparr>]
          \<and> length demoSpriteFloats = 108
          \<and> triangleCount (flush e') = 6
          \<and> batchCount (flush e') = 0 \<and> currentTexture (flush e') = None)
   \<and> (\<exists>e''. run (demoEngine\<lparr>vertexData := (\<lambda>k. 7)\<rparr>) demoSprites = Inr e''
          \<and> map d_vertices (submissions (flush e'')) = [demoSpriteFloats])"
proof -
  have gl: "instanceofWebGLTexture (GLTex 3)" by (simp add: instanceofWebGLTexture_def)
  have b0: "batchCount demoEngine = 0" "submissions demoEngine = []" "triangleCount demoEngine = 0"
    "blendFunc demoEngine = (ONE, ONE_MINUS_SRC_ALPHA)"
    by (simp_all add: demoEngine_def newEngine_def createDefaultState_def alloc_def Let_def)
  have st: "same_texture (GLTex 3) demoEngine demoSprites"
    and qt: "quad_total demoEngine demoSprites = 3"
    using demoSprites_same by simp_all
  have le: "quad_total demoEngine demoSprites \<le> maxBatchSize"
    by (simp add: qt maxBatchSize_def)
  have ne: "demoSprites \<noteq> []" by (simp add: demoSprites_def)
  from batch_same_texture [OF gl b0(1) st le] ne obtain e' where
    e': "run demoEngine demoSprites = Inr e'" "submissions e' = submissions demoEngine"
    "length (stored demoEngine demoSprites) = quad_total demoEngine demoSprites * 4 * 9"
    "submissions (flush e') = submissions demoEngine @
              [\<lparr>d_texture = GLTex 3, d_vertices = stored demoEngine demoSprites,
                d_count = quad_total demoEngine demoSprites * 6, d_blend = blendFunc demoEngine\<rparr>]"
    "triangleCount (flush e') = triangleCount demoEngine + quad_total demoEngine demoSprites * 2"
    "batchCount (flush e') = 0" "currentTexture (flush e') = None"
    and ind: "\<forall>d. stored (demoEngine\<lparr>vertexData := d\<rparr>) demoSprites = stored demoEngine demoSprites
              \<and> (\<exists>e''. run (demoEngine\<lparr>vertexData := d\<rparr>) demoSprites = Inr e''
                     \<and> (demoSprites \<noteq> [] \<longrightarrow>
                          submissions (flush e'') = submissions demoEngine @
                            [\<lparr>d_texture = GLTex 3, d_vertices = stored demoEngine demoSprites,
                              d_count = quad_total demoEngine demoSprites * 6,
                              d_blend = blendFunc demoEngine\<rparr>]))"
    by blast
  from ind ne obtain e'' where
    e'': "run (demoEngine\<lparr>vertexData := (\<lambda>k. 7)\<rparr>) demoSprites = Inr e''"
    "submissions (flush e'') = submissions demoEngine @
                            [\<lparr>d_texture = GLTex 3, d_vertices = stored demoEngine demoSprites,
                              d_count = quad_total demoEngine demoSprites * 6,
                              d_blend = blendFunc demoEngine\<rparr>]"
    by blast
  have a: "\<exists>e'. run demoEngine demoSprites = Inr e'
          \<and> submissions e' = []
          \<and> submissions (flush e')
              = [\<lparr>d_texture = GLTex 3, d_vertices = demoSpriteFloats, d_count = 18,
                   d_blend = (ONE, ONE_MINUS_SRC_ALPHA)\<rparr>]
          \<and> length demoSpriteFloats = 108
          \<and> triangleCount (flush e') = 6
          \<and> batchCount (flush e') = 0 \<and> currentTexture (flush e') = None"
    using e' b0 qt by (intro exI[of _ e']) (simp add: demo_stored)
  have b: "\<exists>e''. run (demoEngine\<lparr>vertexData := (\<lambda>k. 7)\<rparr>) demoSprites = Inr e''
          \<and> map d_vertices (submissions (flush e'')) = [demoSpriteFloats]"
    using e'' b0 by (intro exI[of _ e'']) (simp add: demo_stored)
  show ?thesis using gl b0(1) st qt a b by blast
qed

end
